theory Spec2Isabelle
  imports Main "HOL-Library.Word" "HOL-Library.Monad_Syntax"
begin

unbundle bit_operations_syntax

section \<open>Handshake name records (lib/covenants/record.js)\<close>

text \<open>
  The module holds the resource record set of one name: its binary codec, its JSON
  form and the synthesis of DNS answers from it. Numbers stored in a fixed number
  of bytes are words of that width, byte buffers are lists of bytes, and a call that
  throws (a failed \<^verbatim>\<open>assert\<close>, an \<^verbatim>\<open>Error\<close>, a read past the end of the
  buffer) returns \<open>None\<close>.
\<close>

type_synonym u8 = "8 word"
type_synonym u16 = "16 word"
type_synonym u32 = "32 word"
type_synonym bytes = "u8 list"

subsection \<open>External collaborators\<close>

text \<open>
  The packages \<^verbatim>\<open>binet\<close> (\<^verbatim>\<open>IP\<close>, \<^verbatim>\<open>onion\<close>), \<^verbatim>\<open>bstring\<close> (\<^verbatim>\<open>base58\<close>) and
  \<^verbatim>\<open>bns\<close> (\<^verbatim>\<open>util\<close>) are not part of the module. Their functions are the fields of
  a record that every definition below takes as its first argument, so that every
  theorem holds for whatever these functions compute. \<^verbatim>\<open>IP.decode\<close> and the onion
  decoders throw on a malformed string. \<^verbatim>\<open>util.split\<close> returns the offsets at which
  the labels of a name start, and \<^verbatim>\<open>util.from(name, labels, i)\<close> the name from its
  \<open>i\<close>-th label on, a negative \<open>i\<close> counting from the end.
  \<^verbatim>\<open>IP.getStringType\<close> classifies a text as an IPv4 address, an IPv6 address, an
  onion address or a name. The last field is not a library function but the
  conversion of the language: the unsigned 32-bit number that \<^verbatim>\<open>str >>> 0\<close> makes
  of a string.
\<close>

datatype string_type = ST_INET4 | ST_INET6 | ST_ONION | ST_NAME | ST_NONE

record netlib =
  IP_decode :: "string \<Rightarrow> bytes option"
  IP_encode :: "bytes \<Rightarrow> string"
  IP_getStringType :: "string \<Rightarrow> string_type"
  IP_normalize :: "string \<Rightarrow> string"
  onion_decode :: "string \<Rightarrow> bytes option"
  onion_encode :: "bytes \<Rightarrow> string"
  onion_decodeNG :: "string \<Rightarrow> bytes option"
  onion_encodeNG :: "bytes \<Rightarrow> string"
  base58_encode :: "bytes \<Rightarrow> string"
  onion_isNGString :: "string \<Rightarrow> bool"
  util_isFQDN :: "string \<Rightarrow> bool"
  util_isName :: "string \<Rightarrow> bool"
  util_trimFQDN :: "string \<Rightarrow> string"
  util_split :: "string \<Rightarrow> nat list"
  util_from :: "string \<Rightarrow> nat list \<Rightarrow> int \<Rightarrow> string"
  String_toUint32 :: "string \<Rightarrow> nat"

subsection \<open>Constants\<close>

definition ICANN :: string where "ICANN = ''i''"
definition HSK :: string where "HSK = ''h''"
definition ICANNP :: string where "ICANNP = ''.'' @ ICANN"
definition ICANNS :: string where "ICANNS = ICANN @ ''.''"
definition HSKP :: string where "HSKP = ''.'' @ HSK"
definition HSKS :: string where "HSKS = HSK @ ''.''"

text \<open>The table \<^verbatim>\<open>rtypes\<close>.\<close>

definition INET4 :: u8 where "INET4 = 1"
definition INET6 :: u8 where "INET6 = 2"
definition ONION :: u8 where "ONION = 3"
definition ONIONNG :: u8 where "ONIONNG = 5"
definition INAME :: u8 where "INAME = 6"
definition HNAME :: u8 where "HNAME = 7"
definition CANONICAL :: u8 where "CANONICAL = 8"
definition DELEGATE :: u8 where "DELEGATE = 9"
definition NS :: u8 where "NS = 10"
definition SERVICE :: u8 where "SERVICE = 11"
definition URL :: u8 where "URL = 12"
definition EMAIL :: u8 where "EMAIL = 13"
definition TEXT :: u8 where "TEXT = 14"
definition LOCATION :: u8 where "LOCATION = 15"
definition MAGNET :: u8 where "MAGNET = 16"
definition DS :: u8 where "DS = 17"
definition TLS :: u8 where "TLS = 18"
definition SSH :: u8 where "SSH = 19"
definition PGP :: u8 where "PGP = 20"
definition ADDR :: u8 where "ADDR = 21"

lemmas rtypes_defs =
  INET4_def INET6_def ONION_def ONIONNG_def INAME_def HNAME_def CANONICAL_def
  DELEGATE_def NS_def SERVICE_def URL_def EMAIL_def TEXT_def LOCATION_def MAGNET_def
  DS_def TLS_def SSH_def PGP_def ADDR_def

subsection \<open>The record classes\<close>

text \<open>
  Each class is a record of its fields, named as in the source with the class as a
  prefix where two classes share a name.
\<close>

record extra =
  ex_type :: u8
  ex_data :: bytes

record addr =
  currency :: string
  address :: string

record ssh =
  ssh_algorithm :: u8
  ssh_type :: u8
  fingerprint :: bytes

record tls =
  tls_protocol :: string
  tls_port :: u16
  usage :: u8
  selector :: u8
  matchingType :: u8
  certificate :: bytes

record ds =
  keyTag :: u16
  ds_algorithm :: u8
  digestType :: u8
  digest :: bytes

record magnet =
  nid :: string
  nin :: string

record location =
  loc_version :: u8
  loc_size :: u8
  horizPre :: u8
  vertPre :: u8
  latitude :: u32
  longitude :: u32
  altitude :: u32

record target =
  t_type :: u8
  t_target :: string

record service =
  srv_service :: string
  srv_protocol :: string
  srv_priority :: u8
  srv_weight :: u8
  srv_target :: target
  srv_port :: u16

record hskrecord =
  r_version :: u8
  r_ttl :: u32
  r_hosts :: "target list"
  r_canonical :: "target option"
  r_delegate :: "target option"
  r_ns :: "target list"
  r_service :: "service list"
  r_url :: "string list"
  r_email :: "string list"
  r_text :: "string list"
  r_location :: "location list"
  r_magnet :: "magnet list"
  r_ds :: "ds list"
  r_tls :: "tls list"
  r_ssh :: "ssh list"
  r_pgp :: "ssh list"
  r_addr :: "addr list"
  r_extra :: "extra list"

text \<open>The constructor of \<^verbatim>\<open>HSKRecord\<close>.\<close>

definition new_HSKRecord :: hskrecord where
  "new_HSKRecord =
     \<lparr>r_version = 0, r_ttl = 0, r_hosts = [], r_canonical = None, r_delegate = None,
      r_ns = [], r_service = [], r_url = [], r_email = [], r_text = [],
      r_location = [], r_magnet = [], r_ds = [], r_tls = [], r_ssh = [], r_pgp = [],
      r_addr = [], r_extra = []\<rparr>"

subsection \<open>Target\<close>

definition isINET4 :: "target \<Rightarrow> bool" where
  "isINET4 t = (t_type t = INET4)"

definition isINET6 :: "target \<Rightarrow> bool" where
  "isINET6 t = (t_type t = INET6)"

definition isOnion :: "target \<Rightarrow> bool" where
  "isOnion t = (t_type t = ONION)"

definition isOnionNG :: "target \<Rightarrow> bool" where
  "isOnionNG t = (t_type t = ONIONNG)"

definition isHSK :: "target \<Rightarrow> bool" where
  "isHSK t = (t_type t = HNAME)"

definition isICANN :: "target \<Rightarrow> bool" where
  "isICANN t = (t_type t = INAME)"

definition isINET :: "target \<Rightarrow> bool" where
  "isINET t = (t_type t \<le> INET6)"

definition isName :: "target \<Rightarrow> bool" where
  "isName t = (t_type t > ONIONNG)"

definition isTor :: "target \<Rightarrow> bool" where
  "isTor t = (isOnion t \<or> isOnionNG t)"

text \<open>\<^verbatim>\<open>str.slice(0, -n)\<close>: the string without its last \<open>n\<close> characters.\<close>

definition slice0 :: "string \<Rightarrow> nat \<Rightarrow> string" where
  "slice0 s n = take (length s - n) s"

definition target_toDNS :: "target \<Rightarrow> string" where
  "target_toDNS t =
     (if isHSK t then t_target t @ ''.''
      else if isICANN t then slice0 (t_target t) (length ICANNP) @ ''.''
      else t_target t)"

definition toPointer :: "netlib \<Rightarrow> target \<Rightarrow> string \<Rightarrow> string option" where
  "toPointer lib t name =
     (if \<not> isINET t then None
      else do {
        ip \<leftarrow> IP_decode lib (t_target t);
        Some (''_'' @ base58_encode lib ip @ ''.'' @ name)
      })"

definition isSMTP :: "service \<Rightarrow> bool" where
  "isSMTP s = (srv_service s = ''smtp'' \<and> srv_protocol s = ''tcp'')"

subsection \<open>DNS messages\<close>

text \<open>
  The classes of \<^verbatim>\<open>bns\<close> that the synthesis fills in: the record types it names,
  the record data it sets, a resource record and a message.
\<close>

datatype rrtype =
  T_A | T_NS | T_CNAME | T_SOA | T_MX | T_TXT | T_AAAA | T_LOC | T_SRV | T_DNAME
  | T_DS | T_SSHFP | T_TLSA | T_OPENPGPKEY | T_ANY | T_OTHER nat

record soa =
  soa_ns :: string
  soa_mbox :: string
  soa_serial :: u32
  soa_refresh :: u32
  soa_retry :: u32
  soa_expire :: u32
  soa_minttl :: u32

datatype rdata =
  ARecord string
  | AAAARecord string
  | NSRecord string
  | MXRecord u8 string
  | SOARecord soa
  | CNAMERecord string
  | DNAMERecord string
  | SRVRecord u8 u8 string u16
  | TXTRecord "string list"
  | LOCRecord location
  | DSRecord ds
  | TLSARecord u8 u8 u8 bytes
  | SSHFPRecord u8 u8 bytes
  | OPENPGPKEYRecord bytes

record rr =
  rr_name :: string
  rr_ttl :: u32
  rr_type :: rrtype
  rr_data :: rdata

record message =
  m_qr :: bool
  m_aa :: bool
  m_ad :: bool
  m_answer :: "rr list"
  m_authority :: "rr list"
  m_additional :: "rr list"
  m_edns0 :: "(nat \<times> bool) option"

definition new_Message :: message where
  "new_Message =
     \<lparr>m_qr = False, m_aa = False, m_ad = False, m_answer = [], m_authority = [],
      m_additional = [], m_edns0 = None\<rparr>"

definition setEDNS0 :: "nat \<Rightarrow> bool \<Rightarrow> message \<Rightarrow> message" where
  "setEDNS0 n dok res = res\<lparr>m_edns0 := Some (n, dok)\<rparr>"

text \<open>The fields \<^verbatim>\<open>data.ns\<close> of an NS record and \<^verbatim>\<open>data.mx\<close> of an MX record.\<close>

fun data_ns :: "rdata \<Rightarrow> string" where
  "data_ns (NSRecord n) = n"
| "data_ns _ = []"

fun data_mx :: "rdata \<Rightarrow> string" where
  "data_mx (MXRecord p n) = n"
| "data_mx _ = []"

subsection \<open>DNS synthesis\<close>

text \<open>
  \<^verbatim>\<open>toNS\<close>, \<^verbatim>\<open>toMX\<close> and \<^verbatim>\<open>toSRV\<close> share one step: the name a target is
  rendered to, \<^verbatim>\<open>null\<close> when the target is neither a name nor (with \<^verbatim>\<open>naked\<close>) an
  inline IP address. The loop skips an entry when \<^verbatim>\<open>!nsname\<close> holds, which is so
  for \<^verbatim>\<open>null\<close> and for the empty string.
\<close>

definition target_name :: "netlib \<Rightarrow> target \<Rightarrow> string \<Rightarrow> bool \<Rightarrow> string option option" where
  "target_name lib t name naked =
     (if isName t then Some (Some (target_toDNS t))
      else if naked \<and> isINET t then map_option Some (toPointer lib t name)
      else Some None)"

definition falsy :: "string option \<Rightarrow> bool" where
  "falsy s = (s = None \<or> s = Some [])"

definition hasTor :: "hskrecord \<Rightarrow> bool" where
  "hasTor r = (\<exists>host \<in> set (r_hosts r). isTor host)"

definition toTorTXT :: "hskrecord \<Rightarrow> string \<Rightarrow> rr" where
  "toTorTXT r name =
     \<lparr>rr_name = name, rr_ttl = r_ttl r, rr_type = T_TXT,
      rr_data = TXTRecord (''hsk:tor'' # map t_target (filter isTor (r_hosts r)))\<rparr>"

definition toA :: "hskrecord \<Rightarrow> string \<Rightarrow> rr list" where
  "toA r name =
     map (\<lambda>host. \<lparr>rr_name = name, rr_ttl = r_ttl r, rr_type = T_A,
                   rr_data = ARecord (t_target host)\<rparr>)
         (filter isINET4 (r_hosts r))
     @ (if hasTor r then [toTorTXT r name] else [])"

definition toAAAA :: "hskrecord \<Rightarrow> string \<Rightarrow> rr list" where
  "toAAAA r name =
     map (\<lambda>host. \<lparr>rr_name = name, rr_ttl = r_ttl r, rr_type = T_AAAA,
                   rr_data = AAAARecord (t_target host)\<rparr>)
         (filter isINET6 (r_hosts r))
     @ (if hasTor r then [toTorTXT r name] else [])"

definition toCNAME :: "hskrecord \<Rightarrow> string \<Rightarrow> rr list option" where
  "toCNAME r name =
     (case r_canonical r of
        None \<Rightarrow> Some []
      | Some c \<Rightarrow>
          if \<not> isName c then None
          else Some [\<lparr>rr_name = name, rr_ttl = r_ttl r, rr_type = T_CNAME,
                      rr_data = CNAMERecord (target_toDNS c)\<rparr>])"

definition toDNAME :: "hskrecord \<Rightarrow> string \<Rightarrow> rr list option" where
  "toDNAME r name =
     (case r_delegate r of
        None \<Rightarrow> Some []
      | Some d \<Rightarrow>
          if \<not> isName d then None
          else Some [\<lparr>rr_name = name, rr_ttl = r_ttl r, rr_type = T_DNAME,
                      rr_data = DNAMERecord (target_toDNS d)\<rparr>])"

fun toNS_loop :: "netlib \<Rightarrow> u32 \<Rightarrow> string \<Rightarrow> bool \<Rightarrow> target list \<Rightarrow> rr list option" where
  "toNS_loop lib ttl name naked [] = Some []"
| "toNS_loop lib ttl name naked (ns # rest) = do {
     nsname \<leftarrow> target_name lib ns name naked;
     authority \<leftarrow> toNS_loop lib ttl name naked rest;
     Some (if falsy nsname then authority
           else \<lparr>rr_name = name, rr_ttl = ttl, rr_type = T_NS,
                 rr_data = NSRecord (the nsname)\<rparr> # authority)
   }"

definition toNS :: "netlib \<Rightarrow> hskrecord \<Rightarrow> string \<Rightarrow> bool \<Rightarrow> rr list option" where
  "toNS lib r name naked = toNS_loop lib (r_ttl r) name naked (r_ns r)"

text \<open>The glue record of an inline IP target, under its pointer name.\<close>

definition glue :: "netlib \<Rightarrow> u32 \<Rightarrow> string \<Rightarrow> target \<Rightarrow> rr option" where
  "glue lib ttl name t = do {
     ptr \<leftarrow> toPointer lib t name;
     Some (if isINET4 t
           then \<lparr>rr_name = ptr, rr_ttl = ttl, rr_type = T_A, rr_data = ARecord (t_target t)\<rparr>
           else \<lparr>rr_name = ptr, rr_ttl = ttl, rr_type = T_AAAA,
                 rr_data = AAAARecord (t_target t)\<rparr>)
   }"

fun toNSIP_loop :: "netlib \<Rightarrow> u32 \<Rightarrow> string \<Rightarrow> target list \<Rightarrow> rr list option" where
  "toNSIP_loop lib ttl name [] = Some []"
| "toNSIP_loop lib ttl name (ns # rest) =
     (if \<not> isINET ns then toNSIP_loop lib ttl name rest
      else do {
        x \<leftarrow> glue lib ttl name ns;
        additional \<leftarrow> toNSIP_loop lib ttl name rest;
        Some (x # additional)
      })"

definition toNSIP :: "netlib \<Rightarrow> hskrecord \<Rightarrow> string \<Rightarrow> bool \<Rightarrow> rr list option" where
  "toNSIP lib r name naked =
     (if \<not> naked then Some [] else toNSIP_loop lib (r_ttl r) name (r_ns r))"

fun toMX_loop :: "netlib \<Rightarrow> u32 \<Rightarrow> string \<Rightarrow> bool \<Rightarrow> service list \<Rightarrow> rr list option" where
  "toMX_loop lib ttl name naked [] = Some []"
| "toMX_loop lib ttl name naked (srv # rest) =
     (if \<not> isSMTP srv then toMX_loop lib ttl name naked rest
      else do {
        mxname \<leftarrow> target_name lib (srv_target srv) name naked;
        answer \<leftarrow> toMX_loop lib ttl name naked rest;
        Some (if falsy mxname then answer
              else \<lparr>rr_name = name, rr_ttl = ttl, rr_type = T_MX,
                    rr_data = MXRecord (srv_priority srv) (the mxname)\<rparr> # answer)
      })"

definition toMX :: "netlib \<Rightarrow> hskrecord \<Rightarrow> string \<Rightarrow> bool \<Rightarrow> rr list option" where
  "toMX lib r name naked = toMX_loop lib (r_ttl r) name naked (r_service r)"

text \<open>
  \<^verbatim>\<open>toSOA\<close> calls \<^verbatim>\<open>this.toNS(tld)\<close> and \<^verbatim>\<open>this.toMX(tld)\<close> with no second
  argument: \<^verbatim>\<open>naked\<close> is \<^verbatim>\<open>undefined\<close> there, which the tests \<^verbatim>\<open>naked && \<dots>\<close>
  read as false. \<^verbatim>\<open>util.from(name, -1)\<close> is the call \<^verbatim>\<open>util.from(name, labels, -1)\<close>
  on the labels of \<^verbatim>\<open>name\<close>.
\<close>

definition last_label :: "netlib \<Rightarrow> string \<Rightarrow> string" where
  "last_label lib name = util_from lib name (util_split lib name) (- 1)"

definition toSOA :: "netlib \<Rightarrow> hskrecord \<Rightarrow> string \<Rightarrow> rr list option" where
  "toSOA lib r name =
     (if \<not> util_isFQDN lib name then None
      else
        let tld = last_label lib name in do {
          ns \<leftarrow> toNS lib r tld False;
          mx \<leftarrow> toMX lib r tld False;
          Some [\<lparr>rr_name = tld, rr_ttl = r_ttl r, rr_type = T_SOA,
                 rr_data = SOARecord
                   \<lparr>soa_ns = (case ns of [] \<Rightarrow> tld | x # _ \<Rightarrow> data_ns (rr_data x)),
                    soa_mbox = (case mx of [] \<Rightarrow> tld | x # _ \<Rightarrow> data_mx (rr_data x)),
                    soa_serial = 0, soa_refresh = 1800, soa_retry = r_ttl r,
                    soa_expire = 604800, soa_minttl = 86400\<rparr>\<rparr>]
        })"

fun toSRV_loop :: "netlib \<Rightarrow> u32 \<Rightarrow> string \<Rightarrow> bool \<Rightarrow> service list \<Rightarrow> rr list option" where
  "toSRV_loop lib ttl name naked [] = Some []"
| "toSRV_loop lib ttl name naked (srv # rest) = do {
     tgt \<leftarrow> target_name lib (srv_target srv) name naked;
     answer \<leftarrow> toSRV_loop lib ttl name naked rest;
     Some (if falsy tgt then answer
           else \<lparr>rr_name = ''_'' @ srv_service srv @ ''._'' @ srv_protocol srv @ ''.'' @ name,
                 rr_ttl = ttl, rr_type = T_SRV,
                 rr_data = SRVRecord (srv_priority srv) (srv_weight srv) (the tgt)
                             (srv_port srv)\<rparr> # answer)
   }"

definition toSRV :: "netlib \<Rightarrow> hskrecord \<Rightarrow> string \<Rightarrow> bool \<Rightarrow> rr list option" where
  "toSRV lib r name naked = toSRV_loop lib (r_ttl r) name naked (r_service r)"

fun toSRVIP_loop :: "netlib \<Rightarrow> u32 \<Rightarrow> string \<Rightarrow> bool \<Rightarrow> service list \<Rightarrow> rr list option" where
  "toSRVIP_loop lib ttl name mx [] = Some []"
| "toSRVIP_loop lib ttl name mx (srv # rest) =
     (if mx \<and> \<not> isSMTP srv then toSRVIP_loop lib ttl name mx rest
      else if \<not> isINET (srv_target srv) then toSRVIP_loop lib ttl name mx rest
      else do {
        x \<leftarrow> glue lib ttl name (srv_target srv);
        additional \<leftarrow> toSRVIP_loop lib ttl name mx rest;
        Some (x # additional)
      })"

definition toSRVIP :: "netlib \<Rightarrow> hskrecord \<Rightarrow> string \<Rightarrow> bool \<Rightarrow> bool \<Rightarrow> rr list option" where
  "toSRVIP lib r name naked mx =
     (if \<not> naked then Some [] else toSRVIP_loop lib (r_ttl r) name mx (r_service r))"

definition toMXIP :: "netlib \<Rightarrow> hskrecord \<Rightarrow> string \<Rightarrow> bool \<Rightarrow> rr list option" where
  "toMXIP lib r name naked = toSRVIP lib r name naked True"

definition toLOC :: "hskrecord \<Rightarrow> string \<Rightarrow> rr list" where
  "toLOC r name =
     map (\<lambda>loc. \<lparr>rr_name = name, rr_ttl = r_ttl r, rr_type = T_LOC, rr_data = LOCRecord loc\<rparr>)
         (r_location r)"

definition toDS :: "hskrecord \<Rightarrow> string \<Rightarrow> rr list" where
  "toDS r name =
     map (\<lambda>d. \<lparr>rr_name = name, rr_ttl = r_ttl r, rr_type = T_DS, rr_data = DSRecord d\<rparr>)
         (r_ds r)"

text \<open>A number inside a template literal: its decimal digits.\<close>

fun decimal :: "nat \<Rightarrow> string" where
  "decimal n =
     (if n < 10 then [char_of (48 + n)]
      else decimal (n div 10) @ [char_of (48 + n mod 10)])"

declare decimal.simps [simp del]

definition toTLSA :: "hskrecord \<Rightarrow> string \<Rightarrow> rr list" where
  "toTLSA r name =
     map (\<lambda>t. \<lparr>rr_name = ''_'' @ decimal (unat (tls_port t)) @ ''._'' @ tls_protocol t
                            @ ''.'' @ name,
                rr_ttl = r_ttl r, rr_type = T_TLSA,
                rr_data = TLSARecord (usage t) (selector t) (matchingType t) (certificate t)\<rparr>)
         (r_tls r)"

definition toSSHFP :: "hskrecord \<Rightarrow> string \<Rightarrow> rr list" where
  "toSSHFP r name =
     map (\<lambda>s. \<lparr>rr_name = name, rr_ttl = r_ttl r, rr_type = T_SSHFP,
                rr_data = SSHFPRecord (ssh_algorithm s) (ssh_type s) (fingerprint s)\<rparr>)
         (r_ssh r)"

text \<open>
  \<^verbatim>\<open>SSH.toWriter\<close>, which \<^verbatim>\<open>PGP\<close> inherits: two bytes, then the fingerprint after
  its length in one byte. \<^verbatim>\<open>toRaw\<close> of a PGP entry is these bytes, as many as its
  \<^verbatim>\<open>getSize\<close> counts.
\<close>

definition SSH_toWriter :: "ssh \<Rightarrow> bytes" where
  "SSH_toWriter s =
     [ssh_algorithm s, ssh_type s, of_nat (length (fingerprint s))] @ fingerprint s"

definition toOPENPGPKEY :: "hskrecord \<Rightarrow> string \<Rightarrow> rr list" where
  "toOPENPGPKEY r name =
     map (\<lambda>p. \<lparr>rr_name = name, rr_ttl = r_ttl r, rr_type = T_OPENPGPKEY,
                rr_data = OPENPGPKEYRecord (SSH_toWriter p)\<rparr>)
         (r_pgp r)"

definition Magnet_toString :: "magnet \<Rightarrow> string" where
  "Magnet_toString m = ''magnet:?xt=urn:'' @ nid m @ '':'' @ nin m"

definition Addr_toString :: "addr \<Rightarrow> string" where
  "Addr_toString a = currency a @ '':'' @ address a"

definition txt_rr :: "hskrecord \<Rightarrow> string \<Rightarrow> string list \<Rightarrow> rr" where
  "txt_rr r name strs =
     \<lparr>rr_name = name, rr_ttl = r_ttl r, rr_type = T_TXT, rr_data = TXTRecord strs\<rparr>"

definition toURLTXT :: "hskrecord \<Rightarrow> string \<Rightarrow> rr" where
  "toURLTXT r name = txt_rr r name (''hsk:url'' # r_url r)"

definition toEmailTXT :: "hskrecord \<Rightarrow> string \<Rightarrow> rr" where
  "toEmailTXT r name = txt_rr r name (''hsk:email'' # r_email r)"

definition toMagnetTXT :: "hskrecord \<Rightarrow> string \<Rightarrow> rr" where
  "toMagnetTXT r name = txt_rr r name (''hsk:magnet'' # map Magnet_toString (r_magnet r))"

definition toAddrTXT :: "hskrecord \<Rightarrow> string \<Rightarrow> rr" where
  "toAddrTXT r name = txt_rr r name (''hsk:addr'' # map Addr_toString (r_addr r))"

definition toTextTXT :: "hskrecord \<Rightarrow> string \<Rightarrow> rr" where
  "toTextTXT r name = txt_rr r name (r_text r)"

definition toTXT :: "hskrecord \<Rightarrow> string \<Rightarrow> rr list" where
  "toTXT r name =
     (if length (r_text r) > 0 then [toTextTXT r name] else [])
     @ (if length (r_url r) > 0 then [toURLTXT r name] else [])
     @ (if length (r_email r) > 0 then [toEmailTXT r name] else [])
     @ (if length (r_magnet r) > 0 then [toMagnetTXT r name] else [])
     @ (if length (r_addr r) > 0 then [toAddrTXT r name] else [])"

text \<open>
  \<^verbatim>\<open>toDNS\<close> in three parts. The referral, for a name of more than one label; the
  \<^verbatim>\<open>switch\<close> on the query type, which fills the sections of an authoritative
  response; and the function itself, with the two fallbacks after the switch. The
  parameter \<^verbatim>\<open>naked\<close> is overwritten with \<^verbatim>\<open>true\<close> before its first use.
\<close>

definition toDNS_referral :: "netlib \<Rightarrow> hskrecord \<Rightarrow> string \<Rightarrow> nat list \<Rightarrow> bool \<Rightarrow> message \<Rightarrow> message option" where
  "toDNS_referral lib r name labels naked res =
     (let tld = util_from lib name labels (- 1) in do {
        res \<leftarrow>
          (if length (r_ns r) > 0 then do {
             authority \<leftarrow> toNS lib r tld naked;
             additional \<leftarrow> toNSIP lib r tld naked;
             Some (res\<lparr>m_authority := authority, m_additional := additional\<rparr>)
           }
           else if r_delegate r \<noteq> None then do {
             answer \<leftarrow> toDNAME r tld;
             Some (res\<lparr>m_answer := answer\<rparr>)
           }
           else do {
             authority \<leftarrow> toSOA lib r tld;
             Some (res\<lparr>m_authority := authority\<rparr>)
           });
        Some (setEDNS0 4096 True (res\<lparr>m_authority := m_authority res @ toDS r tld\<rparr>))
      })"

fun toDNS_switch :: "netlib \<Rightarrow> hskrecord \<Rightarrow> string \<Rightarrow> rrtype \<Rightarrow> bool \<Rightarrow> message \<Rightarrow> message option" where
  "toDNS_switch lib r name T_ANY naked res = do {
     soa \<leftarrow> toSOA lib r name;
     ns \<leftarrow> toNS lib r name naked;
     additional \<leftarrow> toNSIP lib r name naked;
     Some (res\<lparr>m_answer := soa @ ns, m_additional := additional\<rparr>)
   }"
| "toDNS_switch lib r name T_A naked res = Some (res\<lparr>m_answer := toA r name\<rparr>)"
| "toDNS_switch lib r name T_AAAA naked res = Some (res\<lparr>m_answer := toAAAA r name\<rparr>)"
| "toDNS_switch lib r name T_CNAME naked res = do {
     answer \<leftarrow> toCNAME r name;
     Some (res\<lparr>m_answer := answer\<rparr>)
   }"
| "toDNS_switch lib r name T_DNAME naked res = do {
     answer \<leftarrow> toDNAME r name;
     Some (res\<lparr>m_answer := answer\<rparr>)
   }"
| "toDNS_switch lib r name T_NS naked res = do {
     answer \<leftarrow> toNS lib r name naked;
     additional \<leftarrow> toNSIP lib r name naked;
     Some (res\<lparr>m_answer := answer, m_additional := additional\<rparr>)
   }"
| "toDNS_switch lib r name T_MX naked res = do {
     answer \<leftarrow> toMX lib r name naked;
     additional \<leftarrow> toMXIP lib r name naked;
     Some (res\<lparr>m_answer := answer, m_additional := additional\<rparr>)
   }"
| "toDNS_switch lib r name T_SRV naked res = do {
     answer \<leftarrow> toSRV lib r name naked;
     additional \<leftarrow> toSRVIP lib r name naked False;
     Some (res\<lparr>m_answer := answer, m_additional := additional\<rparr>)
   }"
| "toDNS_switch lib r name T_TXT naked res = Some (res\<lparr>m_answer := toTXT r name\<rparr>)"
| "toDNS_switch lib r name T_LOC naked res = Some (res\<lparr>m_answer := toLOC r name\<rparr>)"
| "toDNS_switch lib r name T_DS naked res = Some (res\<lparr>m_answer := toDS r name\<rparr>)"
| "toDNS_switch lib r name T_TLSA naked res = Some (res\<lparr>m_answer := toTLSA r name\<rparr>)"
| "toDNS_switch lib r name T_OPENPGPKEY naked res =
     Some (res\<lparr>m_answer := toOPENPGPKEY r name\<rparr>)"
| "toDNS_switch lib r name _ naked res = Some res"

definition toDNS_fallback :: "netlib \<Rightarrow> hskrecord \<Rightarrow> string \<Rightarrow> message \<Rightarrow> message option" where
  "toDNS_fallback lib r name res =
     (if length (m_answer res) = 0 \<and> length (m_authority res) = 0
         \<and> r_canonical r \<noteq> None
      then do {
        answer \<leftarrow> toCNAME r name;
        Some (setEDNS0 4096 True (res\<lparr>m_answer := answer\<rparr>))
      }
      else do {
        res \<leftarrow>
          (if length (m_answer res) = 0 \<and> length (m_authority res) = 0
           then do {
             answer \<leftarrow> toSOA lib r name;
             Some (res\<lparr>m_answer := answer\<rparr>)
           }
           else Some res);
        Some (setEDNS0 4096 True res)
      })"

definition toDNS :: "netlib \<Rightarrow> hskrecord \<Rightarrow> string \<Rightarrow> rrtype \<Rightarrow> bool \<Rightarrow> message option" where
  "toDNS lib r name qtype naked0 =
     (let res = new_Message\<lparr>m_qr := True, m_ad := True\<rparr> in
      if \<not> util_isFQDN lib name then None
      else
        let labels = util_split lib name;
            naked = True
        in
          if length labels > 1 then toDNS_referral lib r name labels naked res
          else do {
            res \<leftarrow> toDNS_switch lib r name qtype naked (res\<lparr>m_aa := True\<rparr>);
            toDNS_fallback lib r name res
          })"

section \<open>The binary codec\<close>

subsection \<open>Buffer readers and writers\<close>

text \<open>
  The reader and writer of \<^verbatim>\<open>bufio\<close>. A reader holds the bytes that are left; a
  read returns its value with the bytes after it, and throws when fewer bytes are
  left than it needs. The plain accessors of 16 and 32 bits are little-endian, the
  big-endian ones carry the suffix \<^verbatim>\<open>BE\<close>. A writer appends: a write is the list of
  the bytes it adds. \<^verbatim>\<open>writeU8\<close> and \<^verbatim>\<open>writeU16\<close> keep the low bits of their
  argument.
\<close>

type_synonym 'a reader = "bytes \<Rightarrow> ('a \<times> bytes) option"

definition readU8 :: "u8 reader" where
  "readU8 bs = (case bs of [] \<Rightarrow> None | b # rest \<Rightarrow> Some (b, rest))"

definition readBytes :: "nat \<Rightarrow> bytes reader" where
  "readBytes n bs = (if length bs < n then None else Some (take n bs, drop n bs))"

definition readU16 :: "u16 reader" where
  "readU16 bs =
     (case bs of
        b0 # b1 # rest \<Rightarrow> Some (ucast b0 OR push_bit 8 (ucast b1), rest)
      | _ \<Rightarrow> None)"

definition readU16BE :: "u16 reader" where
  "readU16BE bs =
     (case bs of
        b0 # b1 # rest \<Rightarrow> Some (push_bit 8 (ucast b0) OR ucast b1, rest)
      | _ \<Rightarrow> None)"

definition readU32 :: "u32 reader" where
  "readU32 bs =
     (case bs of
        b0 # b1 # b2 # b3 # rest \<Rightarrow>
          Some (ucast b0 OR push_bit 8 (ucast b1) OR push_bit 16 (ucast b2)
                  OR push_bit 24 (ucast b3), rest)
      | _ \<Rightarrow> None)"

definition writeU16 :: "u16 \<Rightarrow> bytes" where
  "writeU16 v = [ucast v, ucast (drop_bit 8 v)]"

definition writeU32 :: "u32 \<Rightarrow> bytes" where
  "writeU32 v = [ucast v, ucast (drop_bit 8 v), ucast (drop_bit 16 v), ucast (drop_bit 24 v)]"

text \<open>A length written with \<^verbatim>\<open>writeU8\<close>.\<close>

definition len8 :: "nat \<Rightarrow> u8" where
  "len8 n = of_nat n"

text \<open>
  Strings: \<^verbatim>\<open>'ascii'\<close> writes one byte for each character and reads the low seven
  bits of each byte as a character. \<^verbatim>\<open>'hex'\<close> reads bytes as lower-case digits; a
  write advances by half the length of the string and stores the bytes that the
  pairs of hexadecimal digits of the string denote, up to the first pair that is not
  one: the bytes after it stay as the buffer has them, zero in this model.
\<close>

definition writeString_ascii :: "string \<Rightarrow> bytes" where
  "writeString_ascii s = map of_char s"

definition readString_ascii :: "nat \<Rightarrow> string reader" where
  "readString_ascii n bs = do {
     (raw, rest) \<leftarrow> readBytes n bs;
     Some (map (\<lambda>b. char_of (unat b mod 128)) raw, rest)
   }"

definition hex_digit :: "nat \<Rightarrow> char" where
  "hex_digit n = (if n < 10 then char_of (48 + n) else char_of (87 + n))"

definition hex_value :: "char \<Rightarrow> nat option" where
  "hex_value c =
     (let n = of_char c :: nat in
      if 48 \<le> n \<and> n \<le> 57 then Some (n - 48)
      else if 97 \<le> n \<and> n \<le> 102 then Some (n - 87)
      else if 65 \<le> n \<and> n \<le> 70 then Some (n - 55)
      else None)"

definition hex_encode :: "bytes \<Rightarrow> string" where
  "hex_encode bs = concat (map (\<lambda>b. [hex_digit (unat b div 16), hex_digit (unat b mod 16)]) bs)"

fun hex_decode :: "string \<Rightarrow> bytes" where
  "hex_decode (a # b # rest) =
     (case (hex_value a, hex_value b) of
        (Some x, Some y) \<Rightarrow> of_nat (16 * x + y) # hex_decode rest
      | _ \<Rightarrow> [])"
| "hex_decode _ = []"

definition writeString_hex :: "string \<Rightarrow> bytes" where
  "writeString_hex s = hex_decode s @ replicate (length s div 2 - length (hex_decode s)) 0"

definition readString_hex :: "nat \<Rightarrow> string reader" where
  "readString_hex n bs = do {
     (raw, rest) \<leftarrow> readBytes n bs;
     Some (hex_encode raw, rest)
   }"

subsection \<open>The compressor and the address class\<close>

text \<open>
  Modelled from the spec: the module \<^verbatim>\<open>./compress\<close> (\<^verbatim>\<open>Compressor\<close>,
  \<^verbatim>\<open>Decompressor\<close>, \<^verbatim>\<open>ipSize\<close>, \<^verbatim>\<open>ipWrite\<close>, \<^verbatim>\<open>ipRead\<close>) and the class
  \<^verbatim>\<open>../primitives/address\<close> are not among the sources. The spec leaves the byte
  layout of the string table, of a compressed string and of a compressed IPv6
  address open, so their functions are fields of a record as well: \<open>'c\<close> is the
  state of a compressor, \<open>'d\<close> that of a decompressor. A function that reads from
  the buffer is given the bytes that are left and returns its value with the number
  of bytes it has read. An address is the pair of its version and its hash.
\<close>

record ('c, 'd) codec_lib =
  net :: netlib
  c_new :: 'c
  c_add :: "'c \<Rightarrow> string \<Rightarrow> 'c"
  c_size :: "'c \<Rightarrow> string \<Rightarrow> nat"
  c_write :: "'c \<Rightarrow> string \<Rightarrow> bytes option"
  c_getSize :: "'c \<Rightarrow> nat"
  c_toWriter :: "'c \<Rightarrow> bytes"
  d_fromReader :: "bytes \<Rightarrow> ('d \<times> nat) option"
  d_read :: "'d \<Rightarrow> bytes \<Rightarrow> (string \<times> nat) option"
  ipSize :: "bytes \<Rightarrow> nat"
  ipWrite :: "bytes \<Rightarrow> bytes"
  ipRead :: "bytes \<Rightarrow> (bytes \<times> nat) option"
  Address_fromString :: "string \<Rightarrow> (u8 \<times> bytes) option"
  Address_toString :: "u8 \<times> bytes \<Rightarrow> bool \<Rightarrow> string option"

definition lib_read :: "(bytes \<Rightarrow> ('a \<times> nat) option) \<Rightarrow> 'a reader" where
  "lib_read f bs = do {
     (x, n) \<leftarrow> f bs;
     if n \<le> length bs then Some (x, drop n bs) else None
   }"

subsection \<open>Codecs of the record classes\<close>

definition Extra_toWriter :: "extra \<Rightarrow> bytes" where
  "Extra_toWriter e = [ex_type e, len8 (length (ex_data e))] @ ex_data e"

definition Extra_fromReader :: "extra reader" where
  "Extra_fromReader bs = do {
     (ty, bs) \<leftarrow> readU8 bs;
     (n, bs) \<leftarrow> readU8 bs;
     (data, bs) \<leftarrow> readBytes (unat n) bs;
     Some (\<lparr>ex_type = ty, ex_data = data\<rparr>, bs)
   }"

definition Addr_toWriter :: "('c, 'd) codec_lib \<Rightarrow> 'c \<Rightarrow> addr \<Rightarrow> bytes option" where
  "Addr_toWriter cl c a =
     (if currency a = ''hsk'' then do {
        (version, hash) \<leftarrow> Address_fromString cl (address a);
        let mid = (if take 1 (address a) = ''t'' then 0x40 else 0x00 :: u8);
        Some ([0x80 OR mid OR len8 (length hash), version] @ hash)
      }
      else do {
        cur \<leftarrow> c_write cl c (currency a);
        Some (cur @ [len8 (length (address a))] @ writeString_ascii (address a))
      })"

definition Addr_fromReader :: "('c, 'd) codec_lib \<Rightarrow> 'd \<Rightarrow> addr reader" where
  "Addr_fromReader cl d bs = do {
     (len, bs) \<leftarrow> readU8 bs;
     let hsk = (len AND 0x80 \<noteq> 0);
     let test = (len AND 0x40 \<noteq> 0);
     if hsk then do {
       (version, bs) \<leftarrow> readU8 bs;
       (hash, bs) \<leftarrow> readBytes (unat (len AND 0x3f)) bs;
       str \<leftarrow> Address_toString cl (version, hash) test;
       Some (\<lparr>currency = ''hsk'', address = str\<rparr>, bs)
     }
     else do {
       (cur, bs) \<leftarrow> lib_read (d_read cl d) bs;
       (n, bs) \<leftarrow> readU8 bs;
       (str, bs) \<leftarrow> readString_ascii (unat n) bs;
       Some (\<lparr>currency = cur, address = str\<rparr>, bs)
     }
   }"

definition SSH_fromReader :: "ssh reader" where
  "SSH_fromReader bs = do {
     (alg, bs) \<leftarrow> readU8 bs;
     (ty, bs) \<leftarrow> readU8 bs;
     (n, bs) \<leftarrow> readU8 bs;
     (fp, bs) \<leftarrow> readBytes (unat n) bs;
     Some (\<lparr>ssh_algorithm = alg, ssh_type = ty, fingerprint = fp\<rparr>, bs)
   }"

definition TLS_toWriter :: "('c, 'd) codec_lib \<Rightarrow> 'c \<Rightarrow> tls \<Rightarrow> bytes option" where
  "TLS_toWriter cl c t = do {
     proto \<leftarrow> c_write cl c (tls_protocol t);
     Some (proto @ writeU16 (tls_port t) @ [usage t, selector t, matchingType t,
             len8 (length (certificate t))] @ certificate t)
   }"

definition TLS_fromReader :: "('c, 'd) codec_lib \<Rightarrow> 'd \<Rightarrow> tls reader" where
  "TLS_fromReader cl d bs = do {
     (proto, bs) \<leftarrow> lib_read (d_read cl d) bs;
     (port, bs) \<leftarrow> readU16 bs;
     (u, bs) \<leftarrow> readU8 bs;
     (s, bs) \<leftarrow> readU8 bs;
     (m, bs) \<leftarrow> readU8 bs;
     (n, bs) \<leftarrow> readU8 bs;
     (cert, bs) \<leftarrow> readBytes (unat n) bs;
     Some (\<lparr>tls_protocol = proto, tls_port = port, usage = u, selector = s,
            matchingType = m, certificate = cert\<rparr>, bs)
   }"

definition DS_toWriter :: "ds \<Rightarrow> bytes" where
  "DS_toWriter x =
     writeU16 (keyTag x) @ [ds_algorithm x, digestType x, len8 (length (digest x))] @ digest x"

definition DS_fromReader :: "ds reader" where
  "DS_fromReader bs = do {
     (tag, bs) \<leftarrow> readU16BE bs;
     (alg, bs) \<leftarrow> readU8 bs;
     (dt, bs) \<leftarrow> readU8 bs;
     (n, bs) \<leftarrow> readU8 bs;
     (dg, bs) \<leftarrow> readBytes (unat n) bs;
     Some (\<lparr>keyTag = tag, ds_algorithm = alg, digestType = dt, digest = dg\<rparr>, bs)
   }"

definition Magnet_toWriter :: "('c, 'd) codec_lib \<Rightarrow> 'c \<Rightarrow> magnet \<Rightarrow> bytes option" where
  "Magnet_toWriter cl c m = do {
     n \<leftarrow> c_write cl c (nid m);
     Some (n @ [len8 (length (nin m) div 2)] @ writeString_hex (nin m))
   }"

definition Magnet_fromReader :: "('c, 'd) codec_lib \<Rightarrow> 'd \<Rightarrow> magnet reader" where
  "Magnet_fromReader cl d bs = do {
     (n, bs) \<leftarrow> lib_read (d_read cl d) bs;
     (k, bs) \<leftarrow> readU8 bs;
     (h, bs) \<leftarrow> readString_hex (unat k) bs;
     Some (\<lparr>nid = n, nin = h\<rparr>, bs)
   }"

definition Location_toWriter :: "location \<Rightarrow> bytes" where
  "Location_toWriter l =
     [loc_version l, loc_size l, horizPre l, vertPre l]
     @ writeU32 (latitude l) @ writeU32 (longitude l) @ writeU32 (altitude l)"

definition Location_fromReader :: "location reader" where
  "Location_fromReader bs = do {
     (v, bs) \<leftarrow> readU8 bs;
     (s, bs) \<leftarrow> readU8 bs;
     (h, bs) \<leftarrow> readU8 bs;
     (p, bs) \<leftarrow> readU8 bs;
     (la, bs) \<leftarrow> readU32 bs;
     (lo, bs) \<leftarrow> readU32 bs;
     (al, bs) \<leftarrow> readU32 bs;
     Some (\<lparr>loc_version = v, loc_size = s, horizPre = h, vertPre = p, latitude = la,
            longitude = lo, altitude = al\<rparr>, bs)
   }"

subsection \<open>Codec of a target\<close>

definition compressTarget :: "('c, 'd) codec_lib \<Rightarrow> u8 \<Rightarrow> string \<Rightarrow> 'c \<Rightarrow> 'c" where
  "compressTarget cl ty tgt c =
     (if ty = INAME then c_add cl c (slice0 tgt (length ICANNP))
      else if ty = HNAME then c_add cl c (slice0 tgt (length HSKP))
      else c)"

definition writeTarget :: "('c, 'd) codec_lib \<Rightarrow> 'c \<Rightarrow> u8 \<Rightarrow> string \<Rightarrow> bytes option" where
  "writeTarget cl c ty tgt =
     (if ty = INET4 then do {
        ip \<leftarrow> IP_decode (net cl) tgt;
        if length ip = 4 then Some ip else None
      }
      else if ty = INET6 then do {
        ip \<leftarrow> IP_decode (net cl) tgt;
        if length ip = 16 then Some (ipWrite cl ip) else None
      }
      else if ty = ONION then onion_decode (net cl) tgt
      else if ty = ONIONNG then onion_decodeNG (net cl) tgt
      else if ty = INAME then c_write cl c (slice0 tgt (length ICANNP))
      else if ty = HNAME then c_write cl c (slice0 tgt (length HSKP))
      else None)"

definition readTarget :: "('c, 'd) codec_lib \<Rightarrow> 'd \<Rightarrow> u8 \<Rightarrow> string reader" where
  "readTarget cl d ty bs =
     (if ty = INET4 then do {
        (ip, bs) \<leftarrow> readBytes 4 bs;
        Some (IP_encode (net cl) ip, bs)
      }
      else if ty = INET6 then do {
        (ip, bs) \<leftarrow> lib_read (ipRead cl) bs;
        Some (IP_encode (net cl) ip, bs)
      }
      else if ty = ONION then do {
        (raw, bs) \<leftarrow> readBytes 10 bs;
        Some (onion_encode (net cl) raw, bs)
      }
      else if ty = ONIONNG then do {
        (raw, bs) \<leftarrow> readBytes 33 bs;
        Some (onion_encodeNG (net cl) raw, bs)
      }
      else if ty = INAME then do {
        (name, bs) \<leftarrow> lib_read (d_read cl d) bs;
        Some (name @ ICANNP, bs)
      }
      else if ty = HNAME then do {
        (name, bs) \<leftarrow> lib_read (d_read cl d) bs;
        Some (name @ HSKP, bs)
      }
      else None)"

definition Target_compress :: "('c, 'd) codec_lib \<Rightarrow> target \<Rightarrow> 'c \<Rightarrow> 'c" where
  "Target_compress cl t c = compressTarget cl (t_type t) (t_target t) c"

definition Target_toWriter :: "('c, 'd) codec_lib \<Rightarrow> 'c \<Rightarrow> target \<Rightarrow> bytes option" where
  "Target_toWriter cl c t = do {
     body \<leftarrow> writeTarget cl c (t_type t) (t_target t);
     Some (t_type t # body)
   }"

definition Target_fromReader :: "('c, 'd) codec_lib \<Rightarrow> 'd \<Rightarrow> target reader" where
  "Target_fromReader cl d bs = do {
     (ty, bs) \<leftarrow> readU8 bs;
     (tgt, bs) \<leftarrow> readTarget cl d ty bs;
     Some (\<lparr>t_type = ty, t_target = tgt\<rparr>, bs)
   }"

definition Service_compress :: "('c, 'd) codec_lib \<Rightarrow> service \<Rightarrow> 'c \<Rightarrow> 'c" where
  "Service_compress cl s c = c_add cl (c_add cl c (srv_service s)) (srv_protocol s)"

definition Service_toWriter :: "('c, 'd) codec_lib \<Rightarrow> 'c \<Rightarrow> service \<Rightarrow> bytes option" where
  "Service_toWriter cl c s = do {
     sv \<leftarrow> c_write cl c (srv_service s);
     pr \<leftarrow> c_write cl c (srv_protocol s);
     tg \<leftarrow> Target_toWriter cl c (srv_target s);
     Some (sv @ pr @ [srv_priority s, srv_weight s] @ tg @ writeU16 (srv_port s))
   }"

definition Service_fromReader :: "('c, 'd) codec_lib \<Rightarrow> 'd \<Rightarrow> service reader" where
  "Service_fromReader cl d bs = do {
     (sv, bs) \<leftarrow> lib_read (d_read cl d) bs;
     (pr, bs) \<leftarrow> lib_read (d_read cl d) bs;
     (prio, bs) \<leftarrow> readU8 bs;
     (w, bs) \<leftarrow> readU8 bs;
     (tg, bs) \<leftarrow> Target_fromReader cl d bs;
     (port, bs) \<leftarrow> readU16 bs;
     Some (\<lparr>srv_service = sv, srv_protocol = pr, srv_priority = prio, srv_weight = w,
            srv_target = tg, srv_port = port\<rparr>, bs)
   }"

subsection \<open>Sizes\<close>

text \<open>
  \<^verbatim>\<open>getSize\<close> of each class: the number of bytes that its \<^verbatim>\<open>toWriter\<close> is
  expected to write. A size that calls a parser throws when the parser does.
\<close>

definition Extra_getSize :: "extra \<Rightarrow> nat" where
  "Extra_getSize e = 2 + length (ex_data e)"

definition Addr_getSize :: "('c, 'd) codec_lib \<Rightarrow> 'c \<Rightarrow> addr \<Rightarrow> nat option" where
  "Addr_getSize cl c a =
     (if currency a = ''hsk'' then do {
        (version, hash) \<leftarrow> Address_fromString cl (address a);
        Some (2 + length hash)
      }
      else Some (c_size cl c (currency a) + 1 + length (address a)))"

definition SSH_getSize :: "ssh \<Rightarrow> nat" where
  "SSH_getSize s = 2 + 1 + length (fingerprint s)"

definition TLS_getSize :: "('c, 'd) codec_lib \<Rightarrow> 'c \<Rightarrow> tls \<Rightarrow> nat" where
  "TLS_getSize cl c t = c_size cl c (tls_protocol t) + 6 + length (certificate t)"

definition DS_getSize :: "ds \<Rightarrow> nat" where
  "DS_getSize x = 4 + 1 + length (digest x)"

definition Magnet_getSize :: "('c, 'd) codec_lib \<Rightarrow> 'c \<Rightarrow> magnet \<Rightarrow> nat" where
  "Magnet_getSize cl c m = c_size cl c (nid m) + (1 + length (nin m) div 2)"

definition Location_getSize :: "location \<Rightarrow> nat" where
  "Location_getSize l = 16"

definition sizeTarget :: "('c, 'd) codec_lib \<Rightarrow> 'c \<Rightarrow> u8 \<Rightarrow> string \<Rightarrow> nat option" where
  "sizeTarget cl c ty tgt =
     (if ty = INET4 then Some 4
      else if ty = INET6 then do {
        ip \<leftarrow> IP_decode (net cl) tgt;
        Some (ipSize cl ip)
      }
      else if ty = ONION then Some 10
      else if ty = ONIONNG then Some 33
      else if ty = INAME then Some (c_size cl c (slice0 tgt (length ICANNP)))
      else if ty = HNAME then Some (c_size cl c (slice0 tgt (length HSKP)))
      else Some 0)"

definition Target_getSize :: "('c, 'd) codec_lib \<Rightarrow> 'c \<Rightarrow> target \<Rightarrow> nat option" where
  "Target_getSize cl c t = do {
     n \<leftarrow> sizeTarget cl c (t_type t) (t_target t);
     Some (1 + n)
   }"

definition Service_getSize :: "('c, 'd) codec_lib \<Rightarrow> 'c \<Rightarrow> service \<Rightarrow> nat option" where
  "Service_getSize cl c s = do {
     n \<leftarrow> Target_getSize cl c (srv_target s);
     Some (c_size cl c (srv_service s) + c_size cl c (srv_protocol s) + 1 + 1 + n + 2)
   }"

subsection \<open>Codec of the record\<close>

text \<open>
  \<^verbatim>\<open>compress\<close> feeds the strings of the record to a new compressor, field by
  field. The classes without strings have an empty \<^verbatim>\<open>compress\<close>.
\<close>

definition compress :: "('c, 'd) codec_lib \<Rightarrow> hskrecord \<Rightarrow> 'c" where
  "compress cl r =
     (let c = c_new cl;
          c = foldl (\<lambda>c host. Target_compress cl host c) c (r_hosts r);
          c = (case r_canonical r of None \<Rightarrow> c | Some t \<Rightarrow> Target_compress cl t c);
          c = (case r_delegate r of None \<Rightarrow> c | Some t \<Rightarrow> Target_compress cl t c);
          c = foldl (\<lambda>c ns. Target_compress cl ns c) c (r_ns r);
          c = foldl (\<lambda>c srv. Service_compress cl srv c) c (r_service r);
          c = foldl (c_add cl) c (r_url r);
          c = foldl (c_add cl) c (r_email r);
          c = foldl (c_add cl) c (r_text r);
          c = foldl (\<lambda>c urn. c_add cl c (nid urn)) c (r_magnet r);
          c = foldl (\<lambda>c t. c_add cl c (tls_protocol t)) c (r_tls r);
          c = foldl (\<lambda>c a. c_add cl c (currency a)) c (r_addr r)
      in c)"

text \<open>A loop of writes: the bytes of all items in order; it throws when one does.\<close>

fun write_all :: "('a \<Rightarrow> bytes option) \<Rightarrow> 'a list \<Rightarrow> bytes option" where
  "write_all f [] = Some []"
| "write_all f (x # xs) = do {
     a \<leftarrow> f x;
     b \<leftarrow> write_all f xs;
     Some (a @ b)
   }"

text \<open>An item after its tag byte.\<close>

definition tagged :: "u8 \<Rightarrow> bytes option \<Rightarrow> bytes option" where
  "tagged tag body = map_option (\<lambda>b. tag # b) body"

definition HSKRecord_toWriter :: "('c, 'd) codec_lib \<Rightarrow> 'c \<Rightarrow> hskrecord \<Rightarrow> bytes option" where
  "HSKRecord_toWriter cl c r = do {
     hosts \<leftarrow> write_all (Target_toWriter cl c) (r_hosts r);
     canonical \<leftarrow> (case r_canonical r of None \<Rightarrow> Some []
                    | Some t \<Rightarrow> tagged CANONICAL (Target_toWriter cl c t));
     delegate \<leftarrow> (case r_delegate r of None \<Rightarrow> Some []
                    | Some t \<Rightarrow> tagged DELEGATE (Target_toWriter cl c t));
     ns \<leftarrow> write_all (\<lambda>t. tagged NS (Target_toWriter cl c t)) (r_ns r);
     service \<leftarrow> write_all (\<lambda>s. tagged SERVICE (Service_toWriter cl c s)) (r_service r);
     url \<leftarrow> write_all (\<lambda>s. tagged URL (c_write cl c s)) (r_url r);
     email \<leftarrow> write_all (\<lambda>s. tagged EMAIL (c_write cl c s)) (r_email r);
     txt \<leftarrow> write_all (\<lambda>s. tagged TEXT (c_write cl c s)) (r_text r);
     location \<leftarrow> write_all (\<lambda>l. tagged LOCATION (Some (Location_toWriter l))) (r_location r);
     magnet \<leftarrow> write_all (\<lambda>m. tagged MAGNET (Magnet_toWriter cl c m)) (r_magnet r);
     ds \<leftarrow> write_all (\<lambda>x. tagged DS (Some (DS_toWriter x))) (r_ds r);
     tls \<leftarrow> write_all (\<lambda>t. tagged TLS (TLS_toWriter cl c t)) (r_tls r);
     ssh \<leftarrow> write_all (\<lambda>s. tagged SSH (Some (SSH_toWriter s))) (r_ssh r);
     pgp \<leftarrow> write_all (\<lambda>s. tagged PGP (Some (SSH_toWriter s))) (r_pgp r);
     addr \<leftarrow> write_all (\<lambda>a. tagged ADDR (Addr_toWriter cl c a)) (r_addr r);
     extra \<leftarrow> write_all (\<lambda>e. tagged (ex_type e) (Some (Extra_toWriter e))) (r_extra r);
     Some ([r_version r] @ writeU16 (ucast (drop_bit 6 (r_ttl r))) @ c_toWriter cl c
           @ hosts @ canonical @ delegate @ ns @ service @ url @ email @ txt @ location
           @ magnet @ ds @ tls @ ssh @ pgp @ addr @ extra)
   }"

text \<open>A loop of sizes: their sum; it throws when one does.\<close>

fun size_all :: "('a \<Rightarrow> nat option) \<Rightarrow> 'a list \<Rightarrow> nat option" where
  "size_all f [] = Some 0"
| "size_all f (x # xs) = do {
     a \<leftarrow> f x;
     b \<leftarrow> size_all f xs;
     Some (a + b)
   }"

text \<open>The size of an item with its tag byte.\<close>

definition sized :: "nat option \<Rightarrow> nat option" where
  "sized body = map_option (\<lambda>n. 1 + n) body"

definition HSKRecord_getSize :: "('c, 'd) codec_lib \<Rightarrow> 'c \<Rightarrow> hskrecord \<Rightarrow> nat option" where
  "HSKRecord_getSize cl c r = do {
     hosts \<leftarrow> size_all (Target_getSize cl c) (r_hosts r);
     canonical \<leftarrow> (case r_canonical r of None \<Rightarrow> Some 0
                    | Some t \<Rightarrow> sized (Target_getSize cl c t));
     delegate \<leftarrow> (case r_delegate r of None \<Rightarrow> Some 0
                    | Some t \<Rightarrow> sized (Target_getSize cl c t));
     ns \<leftarrow> size_all (\<lambda>t. sized (Target_getSize cl c t)) (r_ns r);
     service \<leftarrow> size_all (\<lambda>s. sized (Service_getSize cl c s)) (r_service r);
     url \<leftarrow> size_all (\<lambda>s. sized (Some (c_size cl c s))) (r_url r);
     email \<leftarrow> size_all (\<lambda>s. sized (Some (c_size cl c s))) (r_email r);
     txt \<leftarrow> size_all (\<lambda>s. sized (Some (c_size cl c s))) (r_text r);
     location \<leftarrow> size_all (\<lambda>l. sized (Some (Location_getSize l))) (r_location r);
     magnet \<leftarrow> size_all (\<lambda>m. sized (Some (Magnet_getSize cl c m))) (r_magnet r);
     ds \<leftarrow> size_all (\<lambda>x. sized (Some (DS_getSize x))) (r_ds r);
     tls \<leftarrow> size_all (\<lambda>t. sized (Some (TLS_getSize cl c t))) (r_tls r);
     ssh \<leftarrow> size_all (\<lambda>s. sized (Some (SSH_getSize s))) (r_ssh r);
     pgp \<leftarrow> size_all (\<lambda>s. sized (Some (SSH_getSize s))) (r_pgp r);
     addr \<leftarrow> size_all (\<lambda>a. sized (Addr_getSize cl c a)) (r_addr r);
     extra \<leftarrow> size_all (\<lambda>e. sized (Some (Extra_getSize e))) (r_extra r);
     Some (1 + 2 + c_getSize cl c + hosts + canonical + delegate + ns + service + url
           + email + txt + location + magnet + ds + tls + ssh + pgp + addr + extra)
   }"

text \<open>
  \<^verbatim>\<open>toRaw\<close>, the encoder, with the compressor of \<^verbatim>\<open>compress\<close>. The method of
  the base class \<^verbatim>\<open>RecordData\<close> (of \<^verbatim>\<open>bns\<close>) that it calls allocates a buffer of
  \<^verbatim>\<open>getSize\<close> bytes, has \<^verbatim>\<open>toWriter\<close> write to it and renders it: a write
  past the end of the buffer throws, and so does rendering a buffer that is not
  full.
\<close>

definition toRaw :: "('c, 'd) codec_lib \<Rightarrow> hskrecord \<Rightarrow> bytes option" where
  "toRaw cl r = do {
     let c = compress cl r;
     size \<leftarrow> HSKRecord_getSize cl c r;
     bs \<leftarrow> HSKRecord_toWriter cl c r;
     if length bs = size then Some bs else None
   }"

text \<open>
  One round of the loop of \<^verbatim>\<open>fromReader\<close>: the tag byte and the \<^verbatim>\<open>switch\<close> on it.
\<close>

definition read_item :: "('c, 'd) codec_lib \<Rightarrow> 'd \<Rightarrow> hskrecord \<Rightarrow> hskrecord reader" where
  "read_item cl d r bs = do {
     (ty, bs) \<leftarrow> readU8 bs;
     if ty = INET4 \<or> ty = INET6 \<or> ty = ONION \<or> ty = ONIONNG then do {
       (tgt, bs) \<leftarrow> readTarget cl d ty bs;
       Some (r\<lparr>r_hosts := r_hosts r @ [\<lparr>t_type = ty, t_target = tgt\<rparr>]\<rparr>, bs)
     }
     else if ty = INAME \<or> ty = HNAME then
       (if r_canonical r \<noteq> None then None
        else do {
          (tgt, bs) \<leftarrow> readTarget cl d ty bs;
          Some (r\<lparr>r_canonical := Some \<lparr>t_type = ty, t_target = tgt\<rparr>\<rparr>, bs)
        })
     else if ty = CANONICAL then
       (if r_canonical r \<noteq> None then None
        else do {
          (t, bs) \<leftarrow> Target_fromReader cl d bs;
          Some (r\<lparr>r_canonical := Some t\<rparr>, bs)
        })
     else if ty = DELEGATE then
       (if r_delegate r \<noteq> None then None
        else do {
          (t, bs) \<leftarrow> Target_fromReader cl d bs;
          Some (r\<lparr>r_delegate := Some t\<rparr>, bs)
        })
     else if ty = NS then do {
       (t, bs) \<leftarrow> Target_fromReader cl d bs;
       Some (r\<lparr>r_ns := r_ns r @ [t]\<rparr>, bs)
     }
     else if ty = SERVICE then do {
       (s, bs) \<leftarrow> Service_fromReader cl d bs;
       Some (r\<lparr>r_service := r_service r @ [s]\<rparr>, bs)
     }
     else if ty = URL then do {
       (s, bs) \<leftarrow> lib_read (d_read cl d) bs;
       Some (r\<lparr>r_url := r_url r @ [s]\<rparr>, bs)
     }
     else if ty = EMAIL then do {
       (s, bs) \<leftarrow> lib_read (d_read cl d) bs;
       Some (r\<lparr>r_email := r_email r @ [s]\<rparr>, bs)
     }
     else if ty = TEXT then do {
       (s, bs) \<leftarrow> lib_read (d_read cl d) bs;
       Some (r\<lparr>r_text := r_text r @ [s]\<rparr>, bs)
     }
     else if ty = LOCATION then do {
       (l, bs) \<leftarrow> Location_fromReader bs;
       Some (r\<lparr>r_location := r_location r @ [l]\<rparr>, bs)
     }
     else if ty = MAGNET then do {
       (m, bs) \<leftarrow> Magnet_fromReader cl d bs;
       Some (r\<lparr>r_magnet := r_magnet r @ [m]\<rparr>, bs)
     }
     else if ty = DS then do {
       (x, bs) \<leftarrow> DS_fromReader bs;
       Some (r\<lparr>r_ds := r_ds r @ [x]\<rparr>, bs)
     }
     else if ty = TLS then do {
       (t, bs) \<leftarrow> TLS_fromReader cl d bs;
       Some (r\<lparr>r_tls := r_tls r @ [t]\<rparr>, bs)
     }
     else if ty = SSH then do {
       (s, bs) \<leftarrow> SSH_fromReader bs;
       Some (r\<lparr>r_ssh := r_ssh r @ [s]\<rparr>, bs)
     }
     else if ty = PGP then do {
       (s, bs) \<leftarrow> SSH_fromReader bs;
       Some (r\<lparr>r_pgp := r_pgp r @ [s]\<rparr>, bs)
     }
     else if ty = ADDR then do {
       (a, bs) \<leftarrow> Addr_fromReader cl d bs;
       Some (r\<lparr>r_addr := r_addr r @ [a]\<rparr>, bs)
     }
     else do {
       (e, bs) \<leftarrow> Extra_fromReader bs;
       Some (r\<lparr>r_extra := r_extra r @ [e]\<rparr>, bs)
     }
   }"

subsection \<open>Every read advances\<close>

lemma readU8_length: "readU8 bs = Some (x, bs') \<Longrightarrow> length bs' < length bs"
  by (auto simp: readU8_def split: list.splits)

lemma readBytes_length: "readBytes n bs = Some (x, bs') \<Longrightarrow> length bs' \<le> length bs"
  by (auto simp: readBytes_def split: if_splits)

lemma readU16_length: "readU16 bs = Some (x, bs') \<Longrightarrow> length bs' \<le> length bs"
  by (auto simp: readU16_def split: list.splits)

lemma readU16BE_length: "readU16BE bs = Some (x, bs') \<Longrightarrow> length bs' \<le> length bs"
  by (auto simp: readU16BE_def split: list.splits)

lemma readU32_length: "readU32 bs = Some (x, bs') \<Longrightarrow> length bs' \<le> length bs"
  by (auto simp: readU32_def split: list.splits)

lemma lib_read_length: "lib_read f bs = Some (x, bs') \<Longrightarrow> length bs' \<le> length bs"
  by (auto simp: lib_read_def bind_eq_Some_conv split: if_splits)

lemma readString_ascii_length:
  "readString_ascii n bs = Some (x, bs') \<Longrightarrow> length bs' \<le> length bs"
  by (auto simp: readString_ascii_def bind_eq_Some_conv dest: readBytes_length)

lemma readString_hex_length:
  "readString_hex n bs = Some (x, bs') \<Longrightarrow> length bs' \<le> length bs"
  by (auto simp: readString_hex_def bind_eq_Some_conv dest: readBytes_length)

lemmas read_lengths =
  readU8_length [THEN less_imp_le] readBytes_length readU16_length readU16BE_length
  readU32_length lib_read_length readString_ascii_length readString_hex_length

lemma Extra_fromReader_length:
  "Extra_fromReader bs = Some (x, bs') \<Longrightarrow> length bs' \<le> length bs"
  unfolding Extra_fromReader_def
  by (fastforce simp: bind_eq_Some_conv dest: read_lengths)

lemma SSH_fromReader_length:
  "SSH_fromReader bs = Some (x, bs') \<Longrightarrow> length bs' \<le> length bs"
  unfolding SSH_fromReader_def
  by (fastforce simp: bind_eq_Some_conv dest: read_lengths)

lemma DS_fromReader_length:
  "DS_fromReader bs = Some (x, bs') \<Longrightarrow> length bs' \<le> length bs"
  unfolding DS_fromReader_def
  by (fastforce simp: bind_eq_Some_conv dest: read_lengths)

lemma Location_fromReader_length:
  "Location_fromReader bs = Some (x, bs') \<Longrightarrow> length bs' \<le> length bs"
  unfolding Location_fromReader_def
  by (fastforce simp: bind_eq_Some_conv dest: read_lengths)

lemma TLS_fromReader_length:
  "TLS_fromReader cl d bs = Some (x, bs') \<Longrightarrow> length bs' \<le> length bs"
  unfolding TLS_fromReader_def
  by (fastforce simp: bind_eq_Some_conv dest: read_lengths)

lemma Magnet_fromReader_length:
  "Magnet_fromReader cl d bs = Some (x, bs') \<Longrightarrow> length bs' \<le> length bs"
  unfolding Magnet_fromReader_def
  by (fastforce simp: bind_eq_Some_conv dest: read_lengths)

lemma Addr_fromReader_length:
  "Addr_fromReader cl d bs = Some (x, bs') \<Longrightarrow> length bs' \<le> length bs"
  unfolding Addr_fromReader_def
  by (fastforce simp: bind_eq_Some_conv Let_def dest: read_lengths split: if_splits)

lemma readTarget_length:
  "readTarget cl d ty bs = Some (x, bs') \<Longrightarrow> length bs' \<le> length bs"
  unfolding readTarget_def
  by (fastforce simp: bind_eq_Some_conv dest: read_lengths split: if_splits)

lemma Target_fromReader_length:
  "Target_fromReader cl d bs = Some (x, bs') \<Longrightarrow> length bs' \<le> length bs"
  unfolding Target_fromReader_def
  by (fastforce simp: bind_eq_Some_conv dest: read_lengths readTarget_length)

lemma Service_fromReader_length:
  "Service_fromReader cl d bs = Some (x, bs') \<Longrightarrow> length bs' \<le> length bs"
  unfolding Service_fromReader_def
  by (fastforce simp: bind_eq_Some_conv dest: read_lengths Target_fromReader_length)

lemmas item_lengths =
  Extra_fromReader_length SSH_fromReader_length DS_fromReader_length
  Location_fromReader_length TLS_fromReader_length Magnet_fromReader_length
  Addr_fromReader_length readTarget_length Target_fromReader_length
  Service_fromReader_length lib_read_length

lemma read_item_length:
  "read_item cl d r bs = Some (r', bs') \<Longrightarrow> length bs' < length bs"
  unfolding read_item_def
  by (auto simp: bind_eq_Some_conv split: if_splits
           dest!: readU8_length item_lengths)

declare Option.bind_cong [fundef_cong]

function fromReader_loop :: "('c, 'd) codec_lib \<Rightarrow> 'd \<Rightarrow> hskrecord \<Rightarrow> bytes \<Rightarrow> hskrecord option" where
  "fromReader_loop cl d r bs =
     (if length bs = 0 then Some r
      else do {
        (r', bs') \<leftarrow> read_item cl d r bs;
        fromReader_loop cl d r' bs'
      })"
  by pat_completeness auto
termination
  by (relation "measure (\<lambda>(cl, d, r, bs). length bs)") (auto dest: read_item_length)

declare fromReader_loop.simps [simp del]

text \<open>
  \<^verbatim>\<open>fromReader\<close>: the version, the ttl and the string table, then the loop over
  the tagged items until no byte is left.
\<close>

definition read_header :: "('c, 'd) codec_lib \<Rightarrow> (hskrecord \<times> 'd) reader" where
  "read_header cl bs = do {
     (version, bs) \<leftarrow> readU8 bs;
     if version \<noteq> 0 then None
     else do {
       (t, bs) \<leftarrow> readU16 bs;
       let r = new_HSKRecord\<lparr>r_ttl := push_bit 6 (ucast t)\<rparr>;
       (d, bs) \<leftarrow> lib_read (d_fromReader cl) bs;
       Some ((r, d), bs)
     }
   }"

definition HSKRecord_fromReader :: "('c, 'd) codec_lib \<Rightarrow> bytes \<Rightarrow> hskrecord option" where
  "HSKRecord_fromReader cl bs = do {
     ((r, d), bs) \<leftarrow> read_header cl bs;
     fromReader_loop cl d r bs
   }"

definition fromRaw :: "('c, 'd) codec_lib \<Rightarrow> bytes \<Rightarrow> hskrecord option" where
  "fromRaw cl data = HSKRecord_fromReader cl data"


text \<open>The state of the loop after \<open>n\<close> rounds.\<close>

fun loop_rounds :: "nat \<Rightarrow> ('c, 'd) codec_lib \<Rightarrow> 'd \<Rightarrow> hskrecord \<Rightarrow> hskrecord reader" where
  "loop_rounds 0 cl d r bs = Some (r, bs)"
| "loop_rounds (Suc n) cl d r bs =
     (if length bs = 0 then None
      else do {
        (r', bs') \<leftarrow> read_item cl d r bs;
        loop_rounds n cl d r' bs'
      })"

lemma fromReader_loop_Nil [simp]: "fromReader_loop cl d r [] = Some r"
  by (simp add: fromReader_loop.simps)

lemma fromReader_loop_Cons:
  "fromReader_loop cl d r (b # bs) = do {
     (r', bs') \<leftarrow> read_item cl d r (b # bs);
     fromReader_loop cl d r' bs'
   }"
  by (subst fromReader_loop.simps) simp

lemma loop_rounds_continue:
  "loop_rounds n cl d r bs = Some (r', bs') \<Longrightarrow>
     fromReader_loop cl d r bs = fromReader_loop cl d r' bs'"
proof (induction n arbitrary: r bs)
  case 0
  then show ?case by simp
next
  case (Suc n)
  from Suc.prems obtain r1 bs1 where
    ne: "bs \<noteq> []" and step: "read_item cl d r bs = Some (r1, bs1)"
    and rest: "loop_rounds n cl d r1 bs1 = Some (r', bs')"
    by (auto simp: bind_eq_Some_conv split: if_splits)
  from ne obtain b tl where bs: "bs = b # tl" by (cases bs) auto
  have "fromReader_loop cl d r bs = fromReader_loop cl d r1 bs1"
    using step unfolding bs by (simp add: fromReader_loop_Cons)
  with Suc.IH [OF rest] show ?case by simp
qed

subsection \<open>Valid records\<close>

text \<open>The tag bytes that the loop of \<^verbatim>\<open>fromReader\<close> knows: the values of \<^verbatim>\<open>rtypes\<close>.\<close>

definition known_tag :: "u8 \<Rightarrow> bool" where
  "known_tag tag =
     (tag \<in> set [INET4, INET6, ONION, ONIONNG, INAME, HNAME, CANONICAL, DELEGATE, NS,
                 SERVICE, URL, EMAIL, TEXT, LOCATION, MAGNET, DS, TLS, SSH, PGP, ADDR])"


text \<open>
  What the codec needs from the libraries and from the values of a record to read
  back what it writes. A string is readable when the compressor writes for it as
  many bytes as \<^verbatim>\<open>c.size\<close> counts and the decompressor reads these bytes as that
  string; the table is readable when \<^verbatim>\<open>c.toWriter\<close> writes \<^verbatim>\<open>c.getSize\<close> bytes
  and \<^verbatim>\<open>Decompressor.fromReader\<close> reads them as the decompressor \<open>d\<close>.
\<close>

definition string_ok :: "('c, 'd) codec_lib \<Rightarrow> 'c \<Rightarrow> 'd \<Rightarrow> string \<Rightarrow> bool" where
  "string_ok cl c d s =
     (case c_write cl c s of
        None \<Rightarrow> False
      | Some w \<Rightarrow> c_size cl c s = length w
                  \<and> (\<forall>rest. d_read cl d (w @ rest) = Some (s, length w)))"

definition table_ok :: "('c, 'd) codec_lib \<Rightarrow> 'c \<Rightarrow> 'd \<Rightarrow> bool" where
  "table_ok cl c d =
     (c_getSize cl c = length (c_toWriter cl c)
      \<and> (\<forall>rest. d_fromReader cl (c_toWriter cl c @ rest)
                   = Some (d, length (c_toWriter cl c))))"

text \<open>
  A target is in normal form when its text is what the library prints for the bytes
  it parses from the text (of the length the reader expects), or, for a name, when
  it ends in the suffix of its kind and the name before the suffix is readable.
\<close>

definition target_ok :: "('c, 'd) codec_lib \<Rightarrow> 'c \<Rightarrow> 'd \<Rightarrow> target \<Rightarrow> bool" where
  "target_ok cl c d t =
     (if t_type t = INET4 then
        (\<exists>ip. IP_decode (net cl) (t_target t) = Some ip \<and> length ip = 4
              \<and> IP_encode (net cl) ip = t_target t)
      else if t_type t = INET6 then
        (\<exists>ip. IP_decode (net cl) (t_target t) = Some ip \<and> length ip = 16
              \<and> ipSize cl ip = length (ipWrite cl ip)
              \<and> (\<forall>rest. ipRead cl (ipWrite cl ip @ rest) = Some (ip, length (ipWrite cl ip)))
              \<and> IP_encode (net cl) ip = t_target t)
      else if t_type t = ONION then
        (\<exists>raw. onion_decode (net cl) (t_target t) = Some raw \<and> length raw = 10
              \<and> onion_encode (net cl) raw = t_target t)
      else if t_type t = ONIONNG then
        (\<exists>raw. onion_decodeNG (net cl) (t_target t) = Some raw \<and> length raw = 33
              \<and> onion_encodeNG (net cl) raw = t_target t)
      else if t_type t = INAME then
        (\<exists>name. t_target t = name @ ICANNP \<and> string_ok cl c d name)
      else if t_type t = HNAME then
        (\<exists>name. t_target t = name @ HSKP \<and> string_ok cl c d name)
      else False)"

definition host_kind :: "target \<Rightarrow> bool" where
  "host_kind t = (t_type t = INET4 \<or> t_type t = INET6 \<or> t_type t = ONION \<or> t_type t = ONIONNG)"

definition hex_ok :: "string \<Rightarrow> bool" where
  "hex_ok h = (hex_encode (hex_decode h) = h \<and> length h div 2 < 256)"

text \<open>
  An address entry in its native form: the currency is \<^verbatim>\<open>hsk\<close>, the address
  class prints the parsed text of the address back and the hash has fewer than 64
  bytes. An entry of another currency is not among the valid ones:
  \<^verbatim>\<open>Addr.toWriter\<close> writes the compressed currency first, and
  \<^verbatim>\<open>Addr.fromReader\<close> has consumed its first byte when it calls the decompressor.
\<close>

definition addr_ok :: "('c, 'd) codec_lib \<Rightarrow> addr \<Rightarrow> bool" where
  "addr_ok cl a =
     (currency a = ''hsk''
      \<and> (\<exists>v h. Address_fromString cl (address a) = Some (v, h) \<and> length h < 64
              \<and> Address_toString cl (v, h) (take 1 (address a) = ''t'') = Some (address a)))"

definition service_ok :: "('c, 'd) codec_lib \<Rightarrow> 'c \<Rightarrow> 'd \<Rightarrow> service \<Rightarrow> bool" where
  "service_ok cl c d s =
     (string_ok cl c d (srv_service s) \<and> string_ok cl c d (srv_protocol s)
      \<and> target_ok cl c d (srv_target s))"

definition valid_record :: "('c, 'd) codec_lib \<Rightarrow> 'c \<Rightarrow> 'd \<Rightarrow> hskrecord \<Rightarrow> bool" where
  "valid_record cl c d r =
     (r_version r = 0
      \<and> table_ok cl c d
      \<and> list_all (\<lambda>t. host_kind t \<and> target_ok cl c d t) (r_hosts r)
      \<and> (case r_canonical r of None \<Rightarrow> True | Some t \<Rightarrow> target_ok cl c d t)
      \<and> (case r_delegate r of None \<Rightarrow> True | Some t \<Rightarrow> target_ok cl c d t)
      \<and> list_all (target_ok cl c d) (r_ns r)
      \<and> list_all (service_ok cl c d) (r_service r)
      \<and> list_all (string_ok cl c d) (r_url r)
      \<and> list_all (string_ok cl c d) (r_email r)
      \<and> list_all (string_ok cl c d) (r_text r)
      \<and> list_all (\<lambda>m. string_ok cl c d (nid m) \<and> hex_ok (nin m)) (r_magnet r)
      \<and> list_all (\<lambda>x. length (digest x) < 256) (r_ds r)
      \<and> list_all (\<lambda>t. string_ok cl c d (tls_protocol t) \<and> length (certificate t) < 256)
           (r_tls r)
      \<and> list_all (\<lambda>s. length (fingerprint s) < 256) (r_ssh r)
      \<and> list_all (\<lambda>s. length (fingerprint s) < 256) (r_pgp r)
      \<and> list_all (addr_ok cl) (r_addr r)
      \<and> list_all (\<lambda>e. \<not> known_tag (ex_type e) \<and> length (ex_data e) < 256) (r_extra r))"

text \<open>
  An item, the bytes written for one entry with its tag, is readable when one round
  of the loop reads it back, whatever follows it, with the given effect on the
  record.
\<close>

definition item_ok :: "('c, 'd) codec_lib \<Rightarrow> 'd \<Rightarrow> bytes option \<Rightarrow> (hskrecord \<Rightarrow> hskrecord) \<Rightarrow> bool" where
  "item_ok cl d w upd =
     (\<exists>b bs. w = Some (b # bs)
        \<and> (\<forall>r rest. read_item cl d r (b # bs @ rest) = Some (upd r, rest)))"

text \<open>
  A 16-bit value written by \<^verbatim>\<open>writeU16\<close> and read by \<^verbatim>\<open>readU16BE\<close>: its two bytes
  exchanged.
\<close>

definition swap16 :: "u16 \<Rightarrow> u16" where
  "swap16 v = push_bit 8 (ucast (ucast v :: u8)) OR ucast (ucast (drop_bit 8 v) :: u8)"

text \<open>The key tag of a DS entry comes back with its two bytes exchanged.\<close>

definition DS_read_back :: "ds \<Rightarrow> ds" where
  "DS_read_back x = x\<lparr>keyTag := swap16 (keyTag x)\<rparr>"

text \<open>A DS entry apart from its key tag.\<close>

definition without_keyTag :: "ds \<Rightarrow> ds" where
  "without_keyTag x = x\<lparr>keyTag := 0\<rparr>"

section \<open>The JSON form\<close>

text \<open>
  A JSON value as the methods \<^verbatim>\<open>toJSON\<close> build it and \<^verbatim>\<open>fromJSON\<close> receive it. An
  object is the list of its properties in the order of their assignment. Numbers are
  integers: a number with a fraction fails every range check of the module.
\<close>

datatype json =
  JNull | JBool bool | JNumber int | JString string | JArray "json list"
  | JObject "(string \<times> json) list"

text \<open>
  \<^verbatim>\<open>json.key\<close> is \<open>None\<close> for \<^verbatim>\<open>undefined\<close>; \<^verbatim>\<open>x != null\<close>;
  \<^verbatim>\<open>json && typeof json === 'object'\<close>, which holds for objects and arrays;
  \<^verbatim>\<open>typeof x === 'string'\<close>; \<^verbatim>\<open>Array.isArray(x)\<close>; and the range checks
  \<^verbatim>\<open>(x & 0xff) === x\<close>, \<^verbatim>\<open>(x & 0xffff) === x\<close> and \<^verbatim>\<open>(x >>> 0) === x\<close>, which
  hold for the numbers of 8, 16 and 32 bits.
\<close>

definition jget :: "json \<Rightarrow> string \<Rightarrow> json option" where
  "jget j k = (case j of JObject kvs \<Rightarrow> map_of kvs k | _ \<Rightarrow> None)"

definition non_null :: "json option \<Rightarrow> bool" where
  "non_null x = (x \<noteq> None \<and> x \<noteq> Some JNull)"

definition is_object :: "json \<Rightarrow> bool" where
  "is_object j = (case j of JObject _ \<Rightarrow> True | JArray _ \<Rightarrow> True | _ \<Rightarrow> False)"

definition string_of :: "json option \<Rightarrow> string option" where
  "string_of x = (case x of Some (JString s) \<Rightarrow> Some s | _ \<Rightarrow> None)"

definition array_of :: "json option \<Rightarrow> json list option" where
  "array_of x = (case x of Some (JArray xs) \<Rightarrow> Some xs | _ \<Rightarrow> None)"

definition uint_of :: "nat \<Rightarrow> json option \<Rightarrow> int option" where
  "uint_of bits x =
     (case x of
        Some (JNumber n) \<Rightarrow> if 0 \<le> n \<and> n < 2 ^ bits then Some n else None
      | _ \<Rightarrow> None)"

definition u8_of :: "json option \<Rightarrow> u8 option" where
  "u8_of x = map_option of_int (uint_of 8 x)"

definition u16_of :: "json option \<Rightarrow> u16 option" where
  "u16_of x = map_option of_int (uint_of 16 x)"

definition u32_of :: "json option \<Rightarrow> u32 option" where
  "u32_of x = map_option of_int (uint_of 32 x)"

text \<open>
  \<^verbatim>\<open>if (json.key != null) { assert(\<dots>); this.key = json.key; }\<close>: the value read from
  the property when it is there, the value the constructor gave otherwise.
\<close>

definition optional :: "json option \<Rightarrow> 'a \<Rightarrow> (json option \<Rightarrow> 'a option) \<Rightarrow> 'a option" where
  "optional x dflt f = (if non_null x then f x else Some dflt)"

text \<open>A loop that pushes \<^verbatim>\<open>f(item)\<close> for every item; it throws when one call does.\<close>

fun read_all :: "('a \<Rightarrow> 'b option) \<Rightarrow> 'a list \<Rightarrow> 'b list option" where
  "read_all f [] = Some []"
| "read_all f (x # xs) = do {
     y \<leftarrow> f x;
     ys \<leftarrow> read_all f xs;
     Some (y # ys)
   }"

definition array_all :: "(json \<Rightarrow> 'b option) \<Rightarrow> json option \<Rightarrow> 'b list option" where
  "array_all f x = do {
     xs \<leftarrow> array_of x;
     read_all f xs
   }"

text \<open>
  \<^verbatim>\<open>Buffer.from(x, 'hex')\<close>: the bytes of a string of hexadecimal digits. Of the
  values that are not strings the model knows the array of numbers, taken as the
  bytes they are modulo 256; on any other value the call is taken to throw.
\<close>

definition Buffer_from_hex :: "json option \<Rightarrow> bytes option" where
  "Buffer_from_hex x =
     (case x of
        Some (JString s) \<Rightarrow> Some (hex_decode s)
      | Some (JArray xs) \<Rightarrow>
          read_all (\<lambda>y. case y of JNumber n \<Rightarrow> Some (of_int n) | _ \<Rightarrow> None) xs
      | _ \<Rightarrow> None)"

text \<open>
  \<^verbatim>\<open>str.indexOf(needle)\<close>, \<open>None\<close> for -1, and \<^verbatim>\<open>str.split\<close> at the
  characters that satisfy a test.
\<close>

fun indexOf :: "string \<Rightarrow> string \<Rightarrow> nat option" where
  "indexOf needle [] = (if needle = [] then Some 0 else None)"
| "indexOf needle (c # s) =
     (if take (length needle) (c # s) = needle then Some 0
      else map_option Suc (indexOf needle s))"

fun split_where :: "(char \<Rightarrow> bool) \<Rightarrow> string \<Rightarrow> string list" where
  "split_where P [] = [[]]"
| "split_where P (x # xs) =
     (if P x then [] # split_where P xs
      else (case split_where P xs of [] \<Rightarrow> [[x]] | p # ps \<Rightarrow> (x # p) # ps))"

subsection \<open>The record classes\<close>

definition Extra_toJSON :: "extra \<Rightarrow> json" where
  "Extra_toJSON e =
     JObject [(''type'', JNumber (uint (ex_type e))),
              (''data'', JString (hex_encode (ex_data e)))]"

definition Extra_fromJSON :: "netlib \<Rightarrow> json \<Rightarrow> extra option" where
  "Extra_fromJSON lib j =
     (if \<not> is_object j then None
      else do {
        ty \<leftarrow> u8_of (jget j ''type'');
        data \<leftarrow> string_of (jget j ''data'');
        if String_toUint32 lib data div 2 \<le> 255
        then Some \<lparr>ex_type = ty, ex_data = hex_decode data\<rparr>
        else None
      })"

definition Addr_fromString :: "json \<Rightarrow> addr option" where
  "Addr_fromString j = do {
     str \<leftarrow> string_of (Some j);
     if \<not> length str \<le> 512 then None
     else
       (case split_where (\<lambda>c. c = CHR '':'') str of
          [cur, adr] \<Rightarrow>
            if length cur \<le> 0x3f \<and> length adr \<le> 255
            then Some \<lparr>currency = cur, address = adr\<rparr> else None
        | _ \<Rightarrow> None)
   }"

definition Addr_toJSON :: "addr \<Rightarrow> json" where
  "Addr_toJSON a = JString (Addr_toString a)"

definition Addr_fromJSON :: "json \<Rightarrow> addr option" where
  "Addr_fromJSON j = Addr_fromString j"

definition SSH_toJSON :: "ssh \<Rightarrow> json" where
  "SSH_toJSON s =
     JObject [(''algorithm'', JNumber (uint (ssh_algorithm s))),
              (''type'', JNumber (uint (ssh_type s))),
              (''fingerprint'', JString (hex_encode (fingerprint s)))]"

definition SSH_fromJSON :: "netlib \<Rightarrow> json \<Rightarrow> ssh option" where
  "SSH_fromJSON lib j =
     (if \<not> is_object j then None
      else do {
        alg \<leftarrow> u8_of (jget j ''algorithm'');
        ty \<leftarrow> u8_of (jget j ''type'');
        fp \<leftarrow> string_of (jget j ''fingerprint'');
        if String_toUint32 lib fp div 2 \<le> 255
        then Some \<lparr>ssh_algorithm = alg, ssh_type = ty, fingerprint = hex_decode fp\<rparr>
        else None
      })"

definition TLS_toJSON :: "tls \<Rightarrow> json" where
  "TLS_toJSON t =
     JObject [(''protocol'', JString (tls_protocol t)),
              (''port'', JNumber (uint (tls_port t))),
              (''usage'', JNumber (uint (usage t))),
              (''selector'', JNumber (uint (selector t))),
              (''matchingType'', JNumber (uint (matchingType t))),
              (''certificate'', JString (hex_encode (certificate t)))]"

definition TLS_fromJSON :: "json \<Rightarrow> tls option" where
  "TLS_fromJSON j =
     (if \<not> is_object j then None
      else do {
        proto \<leftarrow> string_of (jget j ''protocol'');
        if \<not> length proto \<le> 255 then None
        else do {
          port \<leftarrow> u16_of (jget j ''port'');
          u \<leftarrow> u8_of (jget j ''usage'');
          s \<leftarrow> u8_of (jget j ''selector'');
          m \<leftarrow> u8_of (jget j ''matchingType'');
          fp \<leftarrow> string_of (jget j ''fingerprint'');
          if \<not> length fp div 2 \<le> 255 then None
          else do {
            cert \<leftarrow> Buffer_from_hex (jget j ''certificate'');
            Some \<lparr>tls_protocol = proto, tls_port = port, usage = u, selector = s,
                   matchingType = m, certificate = cert\<rparr>
          }
        }
      })"

definition DS_toJSON :: "ds \<Rightarrow> json" where
  "DS_toJSON x =
     JObject [(''keyTag'', JNumber (uint (keyTag x))),
              (''algorithm'', JNumber (uint (ds_algorithm x))),
              (''digestType'', JNumber (uint (digestType x))),
              (''digest'', JString (hex_encode (digest x)))]"

definition DS_fromJSON :: "json \<Rightarrow> ds option" where
  "DS_fromJSON j =
     (if \<not> is_object j then None
      else do {
        tag \<leftarrow> u16_of (jget j ''keyTag'');
        alg \<leftarrow> u8_of (jget j ''algorithm'');
        dt \<leftarrow> u8_of (jget j ''digestType'');
        dg \<leftarrow> string_of (jget j ''digest'');
        if length dg div 2 \<le> 255
        then Some \<lparr>keyTag = tag, ds_algorithm = alg, digestType = dt, digest = hex_decode dg\<rparr>
        else None
      })"

definition Magnet_fromString :: "json \<Rightarrow> magnet option" where
  "Magnet_fromString j = do {
     str \<leftarrow> string_of (Some j);
     if \<not> length str \<le> 1024 then None
     else do {
       index \<leftarrow> indexOf ''xt=urn:'' str;
       if index = 0 then None
       else if \<not> (str ! (index - 1) = CHR ''?'' \<or> str ! (index - 1) = CHR ''&'') then None
       else
         (case split_where (\<lambda>c. c = CHR '':'' \<or> c = CHR ''&'') (drop (index + 7) str) of
            n # i # _ \<Rightarrow>
              if length n \<le> 255 \<and> length i \<le> 255
              then Some \<lparr>nid = n, nin = i\<rparr> else None
          | _ \<Rightarrow> None)
     }
   }"

definition Magnet_toJSON :: "magnet \<Rightarrow> json" where
  "Magnet_toJSON m = JString (Magnet_toString m)"

definition Magnet_fromJSON :: "json \<Rightarrow> magnet option" where
  "Magnet_fromJSON j = Magnet_fromString j"

definition Location_toJSON :: "location \<Rightarrow> json" where
  "Location_toJSON l =
     JObject [(''version'', JNumber (uint (loc_version l))),
              (''size'', JNumber (uint (loc_size l))),
              (''horizPre'', JNumber (uint (horizPre l))),
              (''vertPre'', JNumber (uint (vertPre l))),
              (''latitude'', JNumber (uint (latitude l))),
              (''longitude'', JNumber (uint (longitude l))),
              (''altitude'', JNumber (uint (altitude l)))]"

definition Location_fromJSON :: "json \<Rightarrow> location option" where
  "Location_fromJSON j =
     (if \<not> is_object j then None
      else do {
        v \<leftarrow> optional (jget j ''version'') 0 u8_of;
        s \<leftarrow> optional (jget j ''size'') 0 u8_of;
        h \<leftarrow> optional (jget j ''horizPre'') 0 u8_of;
        p \<leftarrow> optional (jget j ''vertPre'') 0 u8_of;
        la \<leftarrow> optional (jget j ''latitude'') 0 u32_of;
        lo \<leftarrow> optional (jget j ''longitude'') 0 u32_of;
        al \<leftarrow> optional (jget j ''altitude'') 0 u32_of;
        Some \<lparr>loc_version = v, loc_size = s, horizPre = h, vertPre = p, latitude = la,
               longitude = lo, altitude = al\<rparr>
      })"

subsection \<open>Target and Service\<close>

text \<open>The target a constructor without arguments makes.\<close>

definition new_Target :: target where
  "new_Target = \<lparr>t_type = INET4, t_target = ''0.0.0.0''\<rparr>"

definition endsWith :: "string \<Rightarrow> string \<Rightarrow> bool" where
  "endsWith s suffix = (length suffix \<le> length s \<and> drop (length s - length suffix) s = suffix)"

text \<open>
  \<^verbatim>\<open>Target.fromString\<close>. Its \<^verbatim>\<open>switch\<close> has no default case: a text of no known
  kind leaves the target as the constructor made it.
\<close>

definition Target_fromString :: "netlib \<Rightarrow> json \<Rightarrow> target option" where
  "Target_fromString lib j = do {
     str \<leftarrow> string_of (Some j);
     (case IP_getStringType lib str of
        ST_INET4 \<Rightarrow> Some \<lparr>t_type = INET4, t_target = IP_normalize lib str\<rparr>
      | ST_INET6 \<Rightarrow> Some \<lparr>t_type = INET6, t_target = IP_normalize lib str\<rparr>
      | ST_ONION \<Rightarrow> Some \<lparr>t_type = ONION, t_target = str\<rparr>
      | ST_NAME \<Rightarrow>
          if \<not> util_isName lib str then None
          else if onion_isNGString lib str then Some \<lparr>t_type = ONIONNG, t_target = str\<rparr>
          else
            let str = util_trimFQDN lib str in
            if endsWith str HSKP then Some \<lparr>t_type = HNAME, t_target = str\<rparr>
            else Some \<lparr>t_type = INAME,
                        t_target = (if \<not> endsWith str ICANNP then str @ ICANNP else str)\<rparr>
      | ST_NONE \<Rightarrow> Some new_Target)
   }"

definition Target_toJSON :: "target \<Rightarrow> json" where
  "Target_toJSON t = JString (t_target t)"

definition Target_fromJSON :: "netlib \<Rightarrow> json \<Rightarrow> target option" where
  "Target_fromJSON lib j = Target_fromString lib j"

definition Service_toJSON :: "service \<Rightarrow> json" where
  "Service_toJSON s =
     JObject [(''service'', JString (srv_service s)),
              (''protocol'', JString (srv_protocol s)),
              (''priority'', JNumber (uint (srv_priority s))),
              (''weight'', JNumber (uint (srv_weight s))),
              (''target'', Target_toJSON (srv_target s)),
              (''port'', JNumber (uint (srv_port s)))]"

definition Service_fromJSON :: "netlib \<Rightarrow> json \<Rightarrow> service option" where
  "Service_fromJSON lib j =
     (if \<not> is_object j then None
      else do {
        sv \<leftarrow> optional (jget j ''service'') [] string_of;
        pr \<leftarrow> optional (jget j ''protocol'') [] string_of;
        prio \<leftarrow> optional (jget j ''priority'') 0 u8_of;
        w \<leftarrow> optional (jget j ''weight'') 0 u8_of;
        tg \<leftarrow> optional (jget j ''target'') new_Target
                (\<lambda>x. case x of
                        Some t \<Rightarrow> if is_object t then Target_fromJSON lib t else None
                      | None \<Rightarrow> None);
        port \<leftarrow> optional (jget j ''port'') 0 u16_of;
        Some \<lparr>srv_service = sv, srv_protocol = pr, srv_priority = prio, srv_weight = w,
               srv_target = tg, srv_port = port\<rparr>
      })"

subsection \<open>The record\<close>

text \<open>
  \<^verbatim>\<open>toJSON\<close>: an array is there when its list is not empty, \<^verbatim>\<open>canonical\<close> and
  \<^verbatim>\<open>delegate\<close> when they are set. The source assigns \<^verbatim>\<open>json.pgp\<close> twice, to the
  same array, which leaves one property.
\<close>

definition array_prop :: "string \<Rightarrow> ('a \<Rightarrow> json) \<Rightarrow> 'a list \<Rightarrow> (string \<times> json) list" where
  "array_prop key f xs = (if length xs > 0 then [(key, JArray (map f xs))] else [])"

definition target_prop :: "string \<Rightarrow> target option \<Rightarrow> (string \<times> json) list" where
  "target_prop key t = (case t of None \<Rightarrow> [] | Some x \<Rightarrow> [(key, Target_toJSON x)])"

definition HSKRecord_toJSON :: "hskrecord \<Rightarrow> string \<Rightarrow> json" where
  "HSKRecord_toJSON r name =
     JObject
       ([(''version'', JNumber (uint (r_version r))), (''name'', JString name),
         (''ttl'', JNumber (uint (r_ttl r)))]
        @ array_prop ''hosts'' Target_toJSON (r_hosts r)
        @ target_prop ''canonical'' (r_canonical r)
        @ target_prop ''delegate'' (r_delegate r)
        @ array_prop ''ns'' Target_toJSON (r_ns r)
        @ array_prop ''service'' Service_toJSON (r_service r)
        @ array_prop ''url'' JString (r_url r)
        @ array_prop ''email'' JString (r_email r)
        @ array_prop ''text'' JString (r_text r)
        @ array_prop ''location'' Location_toJSON (r_location r)
        @ array_prop ''magnet'' Magnet_toJSON (r_magnet r)
        @ array_prop ''ds'' DS_toJSON (r_ds r)
        @ array_prop ''tls'' TLS_toJSON (r_tls r)
        @ array_prop ''ssh'' SSH_toJSON (r_ssh r)
        @ array_prop ''pgp'' SSH_toJSON (r_pgp r)
        @ array_prop ''addr'' Addr_toJSON (r_addr r)
        @ array_prop ''extra'' Extra_toJSON (r_extra r))"

text \<open>A string of \<^verbatim>\<open>url\<close>, \<^verbatim>\<open>email\<close> or \<^verbatim>\<open>text\<close>: at most 255 characters.\<close>

definition short_string :: "json \<Rightarrow> string option" where
  "short_string j = do {
     s \<leftarrow> string_of (Some j);
     if length s \<le> 255 then Some s else None
   }"

definition target_opt :: "netlib \<Rightarrow> json option \<Rightarrow> target option option" where
  "target_opt lib x =
     (case x of
        None \<Rightarrow> Some None
      | Some JNull \<Rightarrow> Some None
      | Some t \<Rightarrow> map_option Some (Target_fromJSON lib t))"

definition HSKRecord_fromJSON :: "netlib \<Rightarrow> json \<Rightarrow> hskrecord option" where
  "HSKRecord_fromJSON lib j =
     (if \<not> is_object j then None
      else do {
        version \<leftarrow> optional (jget j ''version'') 0
                     (\<lambda>x. if x = Some (JNumber 0) then Some 0 else None);
        ttl \<leftarrow> optional (jget j ''ttl'') 0 u32_of;
        hosts \<leftarrow> optional (jget j ''hosts'') [] (array_all (Target_fromJSON lib));
        canonical \<leftarrow> target_opt lib (jget j ''canonical'');
        delegate \<leftarrow> target_opt lib (jget j ''delegate'');
        ns \<leftarrow> optional (jget j ''ns'') [] (array_all (Target_fromJSON lib));
        service \<leftarrow> optional (jget j ''service'') [] (array_all (Service_fromJSON lib));
        url \<leftarrow> optional (jget j ''url'') [] (array_all short_string);
        email \<leftarrow> optional (jget j ''email'') [] (array_all short_string);
        txt \<leftarrow> optional (jget j ''text'') [] (array_all short_string);
        location \<leftarrow> optional (jget j ''location'') [] (array_all Location_fromJSON);
        magnet \<leftarrow> optional (jget j ''magnet'') [] (array_all Magnet_fromJSON);
        ds \<leftarrow> optional (jget j ''ds'') [] (array_all DS_fromJSON);
        tls \<leftarrow> optional (jget j ''tls'') [] (array_all TLS_fromJSON);
        ssh \<leftarrow> optional (jget j ''ssh'') [] (array_all (SSH_fromJSON lib));
        pgp \<leftarrow> optional (jget j ''pgp'') [] (array_all (SSH_fromJSON lib));
        addr \<leftarrow> optional (jget j ''addr'') [] (array_all Addr_fromJSON);
        extra \<leftarrow> optional (jget j ''extra'') [] (array_all (Extra_fromJSON lib));
        Some \<lparr>r_version = version, r_ttl = ttl, r_hosts = hosts, r_canonical = canonical,
               r_delegate = delegate, r_ns = ns, r_service = service, r_url = url,
               r_email = email, r_text = txt, r_location = location, r_magnet = magnet,
               r_ds = ds, r_tls = tls, r_ssh = ssh, r_pgp = pgp, r_addr = addr,
               r_extra = extra\<rparr>
      })"

section \<open>Reference instances and examples\<close>

subsection \<open>A reference instance of the libraries\<close>

text \<open>
  To run the model on concrete inputs the libraries need an instance. This one reads
  and prints dotted-quad IPv4 addresses, encodes base58 over the Bitcoin alphabet,
  takes the characters of an onion address as its bytes, splits names at their
  dots (names without escaped dots), takes every text that is not a dotted quad
  for a name, and converts a string of decimal digits to its number and any other
  string to 0.
\<close>

definition parse_dec :: "string \<Rightarrow> nat option" where
  "parse_dec s =
     (if s = [] \<or> (\<exists>c \<in> set s. of_char c < (48::nat) \<or> of_char c > (57::nat)) then None
      else Some (foldl (\<lambda>acc c. acc * 10 + (of_char c - 48)) 0 s))"

definition ipv4_decode :: "string \<Rightarrow> bytes option" where
  "ipv4_decode s =
     (let parts = map parse_dec (split_where (\<lambda>c. c = CHR ''.'') s) in
      if length parts = 4 \<and> list_all (\<lambda>p. case p of None \<Rightarrow> False | Some n \<Rightarrow> n < 256) parts
      then Some (map (\<lambda>p. of_nat (the p)) parts) else None)"

definition b58_alphabet :: string where
  "b58_alphabet = ''123456789ABCDEFGHJKLMNPQRSTUVWXYZabcdefghijkmnopqrstuvwxyz''"

fun b58_digits :: "nat \<Rightarrow> string" where
  "b58_digits n = (if n = 0 then [] else b58_digits (n div 58) @ [b58_alphabet ! (n mod 58)])"

declare b58_digits.simps [simp del]

definition base58 :: "bytes \<Rightarrow> string" where
  "base58 bs =
     replicate (length (takeWhile (\<lambda>b. b = 0) bs)) CHR ''1''
     @ b58_digits (foldl (\<lambda>acc b. acc * 256 + unat b) 0 bs)"

definition label_offsets :: "string \<Rightarrow> nat list" where
  "label_offsets s =
     (if s = [] \<or> s = ''.'' then []
      else 0 # map Suc (filter (\<lambda>i. s ! i = CHR ''.'' \<and> Suc i < length s) [0..<length s]))"

definition from_label :: "string \<Rightarrow> nat list \<Rightarrow> int \<Rightarrow> string" where
  "from_label s labels i =
     (let n = int (length labels); j = (if i < 0 then i + n else i) in
      if j < 0 \<or> j \<ge> n then [] else drop (labels ! nat j) s)"

definition ref_lib :: netlib where
  "ref_lib =
     \<lparr>IP_decode = ipv4_decode,
      IP_encode = (\<lambda>bs. concat (map (\<lambda>b. decimal (unat b) @ ''.'') (butlast bs)) @ decimal (unat (last bs))),
      IP_getStringType = (\<lambda>s. if ipv4_decode s \<noteq> None then ST_INET4 else ST_NAME),
      IP_normalize = (\<lambda>s. s),
      onion_decode = (\<lambda>s. Some (map of_char s)),
      onion_encode = map (\<lambda>b. char_of (unat b)),
      onion_decodeNG = (\<lambda>s. Some (map of_char s)),
      onion_encodeNG = map (\<lambda>b. char_of (unat b)),
      base58_encode = base58,
      onion_isNGString = (\<lambda>s. False),
      util_isFQDN = (\<lambda>s. s \<noteq> [] \<and> last s = CHR ''.''),
      util_isName = (\<lambda>s. s \<noteq> []),
      util_trimFQDN = (\<lambda>s. if s \<noteq> [] \<and> last s = CHR ''.'' then butlast s else s),
      util_split = label_offsets,
      util_from = from_label,
      String_toUint32 = (\<lambda>s. case parse_dec s of None \<Rightarrow> 0 | Some n \<Rightarrow> n mod 4294967296)\<rparr>"

lemmas ref_lib_simps =
  ref_lib_def ipv4_decode_def parse_dec_def base58_def b58_digits.simps b58_alphabet_def
  label_offsets_def from_label_def last_label_def

lemmas target_simps =
  isINET4_def isINET6_def isOnion_def isOnionNG_def isHSK_def isICANN_def isINET_def
  isName_def isTor_def target_toDNS_def toPointer_def slice0_def target_name_def falsy_def
  glue_def rtypes_defs ICANNP_def ICANN_def HSKP_def HSK_def

lemmas toDNS_simps =
  toDNS_def toDNS_referral_def toDNS_fallback_def toNS_def toNSIP_def toMX_def toMXIP_def
  toSRV_def toSRVIP_def toSOA_def toA_def toAAAA_def toCNAME_def toDNAME_def toDS_def
  toLOC_def toTXT_def hasTor_def toTorTXT_def new_Message_def setEDNS0_def
  new_HSKRecord_def Let_def isSMTP_def

text \<open>The messages and records the theorems on \<^verbatim>\<open>toDNS\<close> speak about.\<close>

definition referral_message :: "rr list \<Rightarrow> rr list \<Rightarrow> rr list \<Rightarrow> message" where
  "referral_message answer authority additional =
     \<lparr>m_qr = True, m_aa = False, m_ad = True, m_answer = answer,
      m_authority = authority, m_additional = additional, m_edns0 = Some (4096, True)\<rparr>"

definition authoritative_message :: message where
  "authoritative_message = new_Message\<lparr>m_qr := True, m_ad := True, m_aa := True\<rparr>"

definition ns_ip_record :: hskrecord where
  "ns_ip_record = new_HSKRecord\<lparr>r_ns := [\<lparr>t_type = INET4, t_target = ''1.2.3.4''\<rparr>]\<rparr>"

definition tor_canonical_record :: hskrecord where
  "tor_canonical_record =
     new_HSKRecord\<lparr>r_hosts := [\<lparr>t_type = ONION, t_target = ''xxxxxxxxxxxxxxxx.onion''\<rparr>],
                    r_canonical := Some \<lparr>t_type = INAME, t_target = ''example.com.i''\<rparr>\<rparr>"

definition canonical_record :: hskrecord where
  "canonical_record =
     new_HSKRecord\<lparr>r_canonical := Some \<lparr>t_type = INAME, t_target = ''example.com.i''\<rparr>\<rparr>"

definition mail_record :: hskrecord where
  "mail_record =
     new_HSKRecord\<lparr>r_ttl := 3600,
       r_ns := [\<lparr>t_type = INET4, t_target = ''1.2.3.4''\<rparr>,
                \<lparr>t_type = HNAME, t_target = ''ns1.bob.h''\<rparr>],
       r_service := [\<lparr>srv_service = ''smtp'', srv_protocol = ''tcp'', srv_priority = 10,
                      srv_weight = 0,
                      srv_target = \<lparr>t_type = INAME, t_target = ''mail.example.com.i''\<rparr>,
                      srv_port = 25\<rparr>]\<rparr>"


subsection \<open>A reference instance of the compressor and the address class\<close>

text \<open>
  The instance for concrete runs: a compressor with an empty string table that
  writes every string of at most 127 characters as a literal after its length, an
  IPv6 address as its 16 bytes, and an address text made of the character of its
  version followed by the characters of its hash.
\<close>

definition literal_write :: "string \<Rightarrow> bytes option" where
  "literal_write s =
     (if length s < 128 then Some (len8 (length s) # map of_char s) else None)"

definition literal_read :: "bytes \<Rightarrow> (string \<times> nat) option" where
  "literal_read bs =
     (case bs of
        [] \<Rightarrow> None
      | n # rest \<Rightarrow>
          if unat n < 128 \<and> unat n \<le> length rest
          then Some (map (\<lambda>b. char_of (unat b)) (take (unat n) rest), 1 + unat n)
          else None)"

definition ref_codec :: "(unit, unit) codec_lib" where
  "ref_codec =
     \<lparr>net = ref_lib,
      c_new = (),
      c_add = (\<lambda>c s. c),
      c_size = (\<lambda>c s. 1 + length s),
      c_write = (\<lambda>c. literal_write),
      c_getSize = (\<lambda>c. 1),
      c_toWriter = (\<lambda>c. [0]),
      d_fromReader = (\<lambda>bs. case bs of [] \<Rightarrow> None | n # rest \<Rightarrow> if n = 0 then Some ((), 1) else None),
      d_read = (\<lambda>d. literal_read),
      ipSize = length,
      ipWrite = (\<lambda>ip. ip),
      ipRead = (\<lambda>bs. if length bs < 16 then None else Some (take 16 bs, 16)),
      Address_fromString = (\<lambda>s. case s of [] \<Rightarrow> None | v # h \<Rightarrow> Some (of_char v, map of_char h)),
      Address_toString = (\<lambda>(v, h) test. Some (char_of (unat v) # map (\<lambda>b. char_of (unat b)) h))\<rparr>"

definition host_record :: hskrecord where
  "host_record = new_HSKRecord\<lparr>r_ttl := 3600, r_hosts := [\<lparr>t_type = INET4, t_target = ''1.2.3.4''\<rparr>]\<rparr>"

lemma char_of_nat_eval:
  "char_of (n::nat) =
     Char (odd n) (odd (n div 2)) (odd (n div 4)) (odd (n div 8)) (odd (n div 16))
          (odd (n div 32)) (odd (n div 64)) (odd (n div 128))"
  by (simp add: char_of_def bit_iff_odd)

lemmas reader_simps =
  readU8_def readBytes_def readU16_def readU16BE_def readU32_def lib_read_def
  readString_ascii_def readString_hex_def len8_def writeU16_def writeU32_def
  writeString_ascii_def writeString_hex_def

lemmas codec_simps =
  Extra_toWriter_def Extra_fromReader_def Addr_toWriter_def Addr_fromReader_def
  SSH_toWriter_def SSH_fromReader_def TLS_toWriter_def TLS_fromReader_def DS_toWriter_def
  DS_fromReader_def Magnet_toWriter_def Magnet_fromReader_def Location_toWriter_def
  Location_fromReader_def compressTarget_def writeTarget_def readTarget_def
  Target_compress_def Target_toWriter_def Target_fromReader_def Service_compress_def
  Service_toWriter_def Service_fromReader_def compress_def tagged_def
  HSKRecord_toWriter_def toRaw_def read_item_def read_header_def
  Extra_getSize_def Addr_getSize_def SSH_getSize_def TLS_getSize_def DS_getSize_def
  Magnet_getSize_def Location_getSize_def sizeTarget_def Target_getSize_def
  Service_getSize_def sized_def HSKRecord_getSize_def
  HSKRecord_fromReader_def fromRaw_def fromReader_loop_Cons

lemmas ref_codec_simps = ref_codec_def literal_write_def literal_read_def char_of_nat_eval

definition full_record :: hskrecord where
  "full_record =
     \<lparr>r_version = 0, r_ttl = 3600,
      r_hosts = [\<lparr>t_type = INET4, t_target = ''1.2.3.4''\<rparr>],
      r_canonical = Some \<lparr>t_type = INAME, t_target = ''example.com.i''\<rparr>,
      r_delegate = Some \<lparr>t_type = HNAME, t_target = ''bob.h''\<rparr>,
      r_ns = [\<lparr>t_type = HNAME, t_target = ''ns1.bob.h''\<rparr>,
              \<lparr>t_type = INET4, t_target = ''10.0.0.1''\<rparr>],
      r_service = [\<lparr>srv_service = ''smtp'', srv_protocol = ''tcp'', srv_priority = 10,
                     srv_weight = 0,
                     srv_target = \<lparr>t_type = INAME, t_target = ''mail.example.com.i''\<rparr>,
                     srv_port = 25\<rparr>],
      r_url = [''https://example.com''],
      r_email = [''bob@example.com''],
      r_text = [''hello'', ''world''],
      r_location = [\<lparr>loc_version = 0, loc_size = 18, horizPre = 22, vertPre = 19,
                      latitude = 2147483648, longitude = 2147483649, altitude = 10000000\<rparr>],
      r_magnet = [\<lparr>nid = ''btih'', nin = ''c12fe1c0''\<rparr>],
      r_ds = [\<lparr>keyTag = 12345, ds_algorithm = 8, digestType = 2, digest = [0xAB, 0xCD]\<rparr>],
      r_tls = [\<lparr>tls_protocol = ''tcp'', tls_port = 443, usage = 3, selector = 1,
                 matchingType = 1, certificate = [1, 2, 3]\<rparr>],
      r_ssh = [\<lparr>ssh_algorithm = 1, ssh_type = 2, fingerprint = [9, 8, 7]\<rparr>],
      r_pgp = [\<lparr>ssh_algorithm = 4, ssh_type = 5, fingerprint = [6]\<rparr>],
      r_addr = [\<lparr>currency = ''hsk'', address = ''ts1q''\<rparr>],
      r_extra = [\<lparr>ex_type = 200, ex_data = [1, 2]\<rparr>]\<rparr>"

definition big_ttl_record :: hskrecord where
  "big_ttl_record = new_HSKRecord\<lparr>r_ttl := 4194404\<rparr>"

definition odd_ttl_record :: hskrecord where
  "odd_ttl_record = new_HSKRecord\<lparr>r_ttl := 100\<rparr>"

definition ds_record :: hskrecord where
  "ds_record =
     new_HSKRecord\<lparr>r_ds := [\<lparr>keyTag = 1, ds_algorithm = 8, digestType = 2, digest = [0xAB]\<rparr>]\<rparr>"

definition btc_record :: hskrecord where
  "btc_record = new_HSKRecord\<lparr>r_addr := [\<lparr>currency = ''btc'', address = ''1abc''\<rparr>]\<rparr>"

definition tls_record :: hskrecord where
  "tls_record =
     new_HSKRecord\<lparr>r_tls := [\<lparr>tls_protocol = ''tcp'', tls_port = 443, usage = 3, selector = 1,
                                matchingType = 1, certificate = [0xAB]\<rparr>]\<rparr>"

definition service_record :: hskrecord where
  "service_record =
     new_HSKRecord\<lparr>r_service := [\<lparr>srv_service = ''smtp'', srv_protocol = ''tcp'',
                      srv_priority = 10, srv_weight = 0,
                      srv_target = \<lparr>t_type = INET4, t_target = ''1.2.3.4''\<rparr>,
                      srv_port = 25\<rparr>]\<rparr>"

section \<open>Theorems: DNS synthesis\<close>

lemma toNS_loop_not_naked:
  "\<exists>xs. toNS_loop lib ttl name False ts = Some xs
        \<and> (xs = [] \<or> (\<exists>n. rr_data (hd xs) = NSRecord n))"
  by (induction ts) (auto simp: target_name_def)

lemma toMX_loop_not_naked:
  "\<exists>xs. toMX_loop lib ttl name False ss = Some xs
        \<and> (xs = [] \<or> (\<exists>p n. rr_data (hd xs) = MXRecord p n))"
  by (induction ss) (auto simp: target_name_def)

text \<open>
  C10. For every record, name and query type, \<^verbatim>\<open>toDNS(name, type, false)\<close> returns
  what \<^verbatim>\<open>toDNS(name, type, true)\<close> returns, a thrown error included: the parameter
  \<^verbatim>\<open>naked\<close> is overwritten before it is read.
\<close>

theorem toDNS_naked_ignored:
  "toDNS lib r name qtype False = toDNS lib r name qtype True"
  by (simp add: toDNS_def)

text \<open>
  C9. For a fully-qualified name, \<^verbatim>\<open>toSOA\<close> returns one SOA record, owned by the
  last label of the name, with serial 0, refresh 1800, retry equal to the record's
  ttl, expire 604800 and minttl 86400. Its primary name server is the name in the
  first NS record of \<^verbatim>\<open>toNS(tld)\<close> when there is one and the tld otherwise; its
  mailbox is the name in the first MX record of \<^verbatim>\<open>toMX(tld)\<close> when there is one and
  the tld otherwise. Both calls are made without \<^verbatim>\<open>naked\<close>, and both return.
\<close>

theorem toSOA_record:
  assumes "util_isFQDN lib name"
  shows "\<exists>ns mx s.
           toNS lib r (last_label lib name) False = Some ns
         \<and> toMX lib r (last_label lib name) False = Some mx
         \<and> toSOA lib r name =
             Some [\<lparr>rr_name = last_label lib name, rr_ttl = r_ttl r, rr_type = T_SOA,
                    rr_data = SOARecord s\<rparr>]
         \<and> soa_serial s = 0 \<and> soa_refresh s = 1800 \<and> soa_retry s = r_ttl r
         \<and> soa_expire s = 604800 \<and> soa_minttl s = 86400
         \<and> (if ns = [] then soa_ns s = last_label lib name
             else rr_data (hd ns) = NSRecord (soa_ns s))
         \<and> (if mx = [] then soa_mbox s = last_label lib name
             else \<exists>p. rr_data (hd mx) = MXRecord p (soa_mbox s))"
proof -
  obtain ns where ns: "toNS lib r (last_label lib name) False = Some ns"
    and nsd: "ns = [] \<or> (\<exists>n. rr_data (hd ns) = NSRecord n)"
    using toNS_loop_not_naked unfolding toNS_def by blast
  obtain mx where mx: "toMX lib r (last_label lib name) False = Some mx"
    and mxd: "mx = [] \<or> (\<exists>p n. rr_data (hd mx) = MXRecord p n)"
    using toMX_loop_not_naked unfolding toMX_def by blast
  show ?thesis
    using assms ns mx nsd mxd
    by (cases ns; cases mx) (auto simp: toSOA_def Let_def)
qed

theorem toSOA_record_witness:
  "util_isFQDN ref_lib ''alice.''
   \<and> (\<exists>ns mx s.
           toNS ref_lib mail_record (last_label ref_lib ''alice.'') False = Some ns
         \<and> toMX ref_lib mail_record (last_label ref_lib ''alice.'') False = Some mx
         \<and> toSOA ref_lib mail_record ''alice.'' =
             Some [\<lparr>rr_name = last_label ref_lib ''alice.'', rr_ttl = r_ttl mail_record,
                    rr_type = T_SOA, rr_data = SOARecord s\<rparr>]
         \<and> soa_serial s = 0 \<and> soa_refresh s = 1800 \<and> soa_retry s = r_ttl mail_record
         \<and> soa_expire s = 604800 \<and> soa_minttl s = 86400
         \<and> (if ns = [] then soa_ns s = last_label ref_lib ''alice.''
             else rr_data (hd ns) = NSRecord (soa_ns s))
         \<and> (if mx = [] then soa_mbox s = last_label ref_lib ''alice.''
             else \<exists>p. rr_data (hd mx) = MXRecord p (soa_mbox s)))"
proof -
  have h: "util_isFQDN ref_lib ''alice.''" by (simp add: ref_lib_simps)
  from toSOA_record [OF h, of mail_record] h show ?thesis by blast
qed

text \<open>
  C2, as the code has it. For a fully-qualified name of more than one label,
  \<^verbatim>\<open>toDNS\<close> returns a message with \<^verbatim>\<open>aa = false\<close> whose sections are: with a
  non-empty \<^verbatim>\<open>ns\<close> list, authority \<^verbatim>\<open>toNS(tld, true)\<close> and additional
  \<^verbatim>\<open>toNSIP(tld, true)\<close>; else with a delegate, answer \<^verbatim>\<open>toDNAME(tld)\<close>; else
  authority \<^verbatim>\<open>toSOA(tld)\<close>; and in each case the records of \<^verbatim>\<open>toDS(tld)\<close> end the
  authority section. The tld is the last label of the name. The value of the
  parameter \<^verbatim>\<open>naked\<close> plays no part: the glue functions are called with \<^verbatim>\<open>true\<close>.
  When one of the calls throws, so does \<^verbatim>\<open>toDNS\<close>.
\<close>

theorem toDNS_referral_sections:
  assumes "util_isFQDN lib name" and "length (util_split lib name) > 1"
  shows "toDNS lib r name qtype naked =
           (if r_ns r \<noteq> [] then do {
              authority \<leftarrow> toNS lib r (last_label lib name) True;
              additional \<leftarrow> toNSIP lib r (last_label lib name) True;
              Some (referral_message [] (authority @ toDS r (last_label lib name)) additional)
            }
            else if r_delegate r \<noteq> None then do {
              answer \<leftarrow> toDNAME r (last_label lib name);
              Some (referral_message answer (toDS r (last_label lib name)) [])
            }
            else do {
              authority \<leftarrow> toSOA lib r (last_label lib name);
              Some (referral_message [] (authority @ toDS r (last_label lib name)) [])
            })"
  using assms
  by (simp add: toDNS_def toDNS_referral_def last_label_def Let_def new_Message_def
        setEDNS0_def referral_message_def
      split: Option.bind_split)

theorem toDNS_referral_sections_witness:
  "util_isFQDN ref_lib ''a.b.'' \<and> length (util_split ref_lib ''a.b.'') > 1
   \<and> toDNS ref_lib ns_ip_record ''a.b.'' T_A False =
       Some (referral_message
          [] [\<lparr>rr_name = ''b.'', rr_ttl = 0, rr_type = T_NS, rr_data = NSRecord ''_2VfUX.b.''\<rparr>]
          [\<lparr>rr_name = ''_2VfUX.b.'', rr_ttl = 0, rr_type = T_A, rr_data = ARecord ''1.2.3.4''\<rparr>])"
proof -
  have h1: "util_isFQDN ref_lib ''a.b.''" by (simp add: ref_lib_simps)
  have h2: "length (util_split ref_lib ''a.b.'') > 1" by (simp add: ref_lib_simps)
  have l: "last_label ref_lib ''a.b.'' = ''b.''" by (simp add: ref_lib_simps)
  have n: "r_ns ns_ip_record \<noteq> []" by (simp add: ns_ip_record_def)
  have a: "toNS ref_lib ns_ip_record ''b.'' True
             = Some [\<lparr>rr_name = ''b.'', rr_ttl = 0, rr_type = T_NS, rr_data = NSRecord ''_2VfUX.b.''\<rparr>]"
    by (simp add: ns_ip_record_def toDNS_simps target_simps ref_lib_simps)
  have b: "toNSIP ref_lib ns_ip_record ''b.'' True
             = Some [\<lparr>rr_name = ''_2VfUX.b.'', rr_ttl = 0, rr_type = T_A, rr_data = ARecord ''1.2.3.4''\<rparr>]"
    by (simp add: ns_ip_record_def toDNS_simps target_simps ref_lib_simps)
  have d: "toDS ns_ip_record ''b.'' = []" by (simp add: ns_ip_record_def toDNS_simps)
  show ?thesis
    using toDNS_referral_sections [OF h1 h2, of ns_ip_record T_A False] h1 h2
    by (simp add: l n a b d)
qed

text \<open>
  C2 as stated takes the sections from \<^verbatim>\<open>toNS(tld, naked)\<close> and
  \<^verbatim>\<open>toNSIP(tld, naked)\<close>. With \<^verbatim>\<open>naked = false\<close> and an inline IP address as the
  only name server, \<^verbatim>\<open>toNS(tld, false)\<close> is empty, while the authority section of
  the message holds the NS record of the pointer name.
\<close>

theorem toDNS_referral_naked_counterexample:
  "map_option m_authority (toDNS ref_lib ns_ip_record ''a.b.'' T_A False)
     \<noteq> map_option (\<lambda>ns. ns @ toDS ns_ip_record (last_label ref_lib ''a.b.''))
         (toNS ref_lib ns_ip_record (last_label ref_lib ''a.b.'') False)
   \<and> r_ns ns_ip_record \<noteq> []
   \<and> map_option m_authority (toDNS ref_lib ns_ip_record ''a.b.'' T_A False)
     = Some [\<lparr>rr_name = ''b.'', rr_ttl = 0, rr_type = T_NS, rr_data = NSRecord ''_2VfUX.b.''\<rparr>]
   \<and> map_option (\<lambda>ns. ns @ toDS ns_ip_record ''b.'') (toNS ref_lib ns_ip_record ''b.'' False)
     = Some []
   \<and> last_label ref_lib ''a.b.'' = ''b.''
   \<and> length (util_split ref_lib ''a.b.'') = 2"
  by (simp add: ns_ip_record_def toDNS_simps target_simps ref_lib_simps)

text \<open>
  C3, as the code has it. For a fully-qualified name of one label: when the switch
  on the query type leaves the answer and authority sections empty, the answer of
  the returned message is \<^verbatim>\<open>toCNAME(name)\<close> if canonical is set and
  \<^verbatim>\<open>toSOA(name)\<close> otherwise. In particular a query of type A on a record whose
  canonical is a name and that has neither an INET4 host nor an onion host returns
  the CNAME record of the canonical name as its only answer.
\<close>

theorem toDNS_fallback_answer:
  assumes "util_isFQDN lib name" and "length (util_split lib name) \<le> 1"
  shows "(\<forall>res. toDNS_switch lib r name qtype True authoritative_message = Some res
             \<and> m_answer res = [] \<and> m_authority res = [] \<longrightarrow>
           toDNS lib r name qtype naked =
             (if r_canonical r \<noteq> None
              then map_option (\<lambda>answer. setEDNS0 4096 True (res\<lparr>m_answer := answer\<rparr>))
                     (toCNAME r name)
              else map_option (\<lambda>answer. setEDNS0 4096 True (res\<lparr>m_answer := answer\<rparr>))
                     (toSOA lib r name)))
       \<and> (\<forall>c. r_canonical r = Some c \<and> isName c
                \<and> \<not> (\<exists>host \<in> set (r_hosts r). isINET4 host \<or> isTor host) \<longrightarrow>
           toDNS lib r name T_A naked =
             Some \<lparr>m_qr = True, m_aa = True, m_ad = True,
                   m_answer = [\<lparr>rr_name = name, rr_ttl = r_ttl r, rr_type = T_CNAME,
                                rr_data = CNAMERecord (target_toDNS c)\<rparr>],
                   m_authority = [], m_additional = [], m_edns0 = Some (4096, True)\<rparr>)"
proof (intro conjI allI impI)
  fix res
  assume "toDNS_switch lib r name qtype True authoritative_message = Some res
            \<and> m_answer res = [] \<and> m_authority res = []"
  with assms show "toDNS lib r name qtype naked =
             (if r_canonical r \<noteq> None
              then map_option (\<lambda>answer. setEDNS0 4096 True (res\<lparr>m_answer := answer\<rparr>))
                     (toCNAME r name)
              else map_option (\<lambda>answer. setEDNS0 4096 True (res\<lparr>m_answer := answer\<rparr>))
                     (toSOA lib r name))"
    by (auto simp: toDNS_def toDNS_fallback_def authoritative_message_def Let_def
          map_option_case split: option.splits)
next
  fix c
  assume c: "r_canonical r = Some c \<and> isName c
               \<and> \<not> (\<exists>host \<in> set (r_hosts r). isINET4 host \<or> isTor host)"
  then have "filter isINET4 (r_hosts r) = []" and "\<not> hasTor r"
    by (auto simp: hasTor_def filter_empty_conv)
  with assms c show "toDNS lib r name T_A naked =
             Some \<lparr>m_qr = True, m_aa = True, m_ad = True,
                   m_answer = [\<lparr>rr_name = name, rr_ttl = r_ttl r, rr_type = T_CNAME,
                                rr_data = CNAMERecord (target_toDNS c)\<rparr>],
                   m_authority = [], m_additional = [], m_edns0 = Some (4096, True)\<rparr>"
    by (simp add: toDNS_def toDNS_fallback_def toA_def toCNAME_def new_Message_def
          setEDNS0_def Let_def)
qed

theorem toDNS_fallback_answer_witness:
  "util_isFQDN ref_lib ''alice.'' \<and> length (util_split ref_lib ''alice.'') \<le> 1
   \<and> toDNS_switch ref_lib canonical_record ''alice.'' T_A True authoritative_message
       = Some authoritative_message
   \<and> m_answer authoritative_message = [] \<and> m_authority authoritative_message = []
   \<and> r_canonical canonical_record = Some \<lparr>t_type = INAME, t_target = ''example.com.i''\<rparr>
   \<and> isName \<lparr>t_type = INAME, t_target = ''example.com.i''\<rparr>
   \<and> \<not> (\<exists>host \<in> set (r_hosts canonical_record). isINET4 host \<or> isTor host)
   \<and> toDNS ref_lib canonical_record ''alice.'' T_A False =
       Some \<lparr>m_qr = True, m_aa = True, m_ad = True,
             m_answer = [\<lparr>rr_name = ''alice.'', rr_ttl = 0, rr_type = T_CNAME,
                          rr_data = CNAMERecord ''example.com.''\<rparr>],
             m_authority = [], m_additional = [], m_edns0 = Some (4096, True)\<rparr>"
proof -
  have h1: "util_isFQDN ref_lib ''alice.''" by (simp add: ref_lib_simps)
  have h2: "length (util_split ref_lib ''alice.'') \<le> 1" by (simp add: ref_lib_simps)
  have h3: "toDNS_switch ref_lib canonical_record ''alice.'' T_A True authoritative_message
       = Some authoritative_message
   \<and> m_answer authoritative_message = [] \<and> m_authority authoritative_message = []"
    by (simp add: canonical_record_def authoritative_message_def toDNS_simps target_simps)
  have h4: "r_canonical canonical_record = Some \<lparr>t_type = INAME, t_target = ''example.com.i''\<rparr>
   \<and> isName \<lparr>t_type = INAME, t_target = ''example.com.i''\<rparr>
   \<and> \<not> (\<exists>host \<in> set (r_hosts canonical_record). isINET4 host \<or> isTor host)"
    by (simp add: canonical_record_def new_HSKRecord_def target_simps)
  have t: "target_toDNS \<lparr>t_type = INAME, t_target = ''example.com.i''\<rparr> = ''example.com.''"
    by (simp add: target_simps)
  have c: "r_canonical canonical_record \<noteq> None" "r_ttl canonical_record = 0"
    by (simp_all add: canonical_record_def new_HSKRecord_def)
  from toDNS_fallback_answer [OF h1 h2, of canonical_record T_A False] h4
  have "toDNS ref_lib canonical_record ''alice.'' T_A False =
       Some \<lparr>m_qr = True, m_aa = True, m_ad = True,
             m_answer = [\<lparr>rr_name = ''alice.'', rr_ttl = r_ttl canonical_record,
                          rr_type = T_CNAME,
                          rr_data = CNAMERecord
                            (target_toDNS \<lparr>t_type = INAME, t_target = ''example.com.i''\<rparr>)\<rparr>],
             m_authority = [], m_additional = [], m_edns0 = Some (4096, True)\<rparr>"
    by blast
  with h1 h2 h3 h4 show ?thesis unfolding t c(2) by blast
qed

text \<open>
  C3 as stated asks only for the absence of INET4 hosts. A record with a canonical
  name and an onion host has none, and a query of type A returns the TXT record of
  the onion address: \<^verbatim>\<open>toA\<close> appends it, so the answer section is not empty and
  no fallback applies.
\<close>

theorem toDNS_fallback_tor_counterexample:
  "r_canonical tor_canonical_record \<noteq> None
   \<and> filter isINET4 (r_hosts tor_canonical_record) = []
   \<and> util_isFQDN ref_lib ''alice.'' \<and> length (util_split ref_lib ''alice.'') = 1
   \<and> map_option m_answer (toDNS ref_lib tor_canonical_record ''alice.'' T_A True) =
       Some [\<lparr>rr_name = ''alice.'', rr_ttl = 0, rr_type = T_TXT,
              rr_data = TXTRecord [''hsk:tor'', ''xxxxxxxxxxxxxxxx.onion'']\<rparr>]
   \<and> toCNAME tor_canonical_record ''alice.'' =
       Some [\<lparr>rr_name = ''alice.'', rr_ttl = 0, rr_type = T_CNAME,
              rr_data = CNAMERecord ''example.com.''\<rparr>]"
  by (simp add: tor_canonical_record_def toDNS_simps target_simps ref_lib_simps)

section \<open>Theorems: the binary codec\<close>

lemma len8_unat: "n < 256 \<Longrightarrow> unat (len8 n) = n"
  by (simp add: len8_def unat_of_nat)


lemma readU8_Cons [simp]: "readU8 (b # bs) = Some (b, bs)"
  by (simp add: readU8_def)

lemma readBytes_append [simp]: "n = length xs \<Longrightarrow> readBytes n (xs @ rest) = Some (xs, rest)"
  by (simp add: readBytes_def)

lemma u16_bytes: "ucast (ucast v :: u8) OR push_bit 8 (ucast (ucast (drop_bit 8 v) :: u8)) = (v :: u16)"
  by (rule bit_word_eqI) (auto simp: bit_simps)

lemma u32_bytes:
  "ucast (ucast v :: u8) OR push_bit 8 (ucast (ucast (drop_bit 8 v) :: u8))
     OR push_bit 16 (ucast (ucast (drop_bit 16 v) :: u8))
     OR push_bit 24 (ucast (ucast (drop_bit 24 v) :: u8)) = (v :: u32)"
proof (rule bit_word_eqI)
  fix n
  assume "n < LENGTH(32)"
  then consider "n < 8" | "8 \<le> n \<and> n < 16" | "16 \<le> n \<and> n < 24" | "24 \<le> n \<and> n < 32"
    by fastforce
  then show "bit (ucast (ucast v :: u8) OR push_bit 8 (ucast (ucast (drop_bit 8 v) :: u8))
     OR push_bit 16 (ucast (ucast (drop_bit 16 v) :: u8))
     OR push_bit 24 (ucast (ucast (drop_bit 24 v) :: u8)) :: u32) n = bit v n"
    by cases (auto simp: bit_simps)
qed

lemma readU16_writeU16 [simp]: "readU16 (writeU16 v @ rest) = Some (v, rest)"
  by (simp add: readU16_def writeU16_def u16_bytes)

lemma readU16BE_writeU16 [simp]: "readU16BE (writeU16 v @ rest) = Some (swap16 v, rest)"
  by (simp add: readU16BE_def writeU16_def swap16_def)

lemma readU32_writeU32 [simp]: "readU32 (writeU32 v @ rest) = Some (v, rest)"
  by (simp add: readU32_def writeU32_def u32_bytes)

lemma hex_value_digit: "n < 16 \<Longrightarrow> hex_value (hex_digit n) = Some n"
  by (auto simp: hex_value_def hex_digit_def Let_def)

lemma hex_decode_encode [simp]: "hex_decode (hex_encode bs) = bs"
proof (induction bs)
  case Nil
  then show ?case by (simp add: hex_encode_def)
next
  case (Cons b bs)
  have "unat b div 16 < 16"
    using unsigned_less [of b, where 'a = nat] by (simp add: div_less_iff_less_mult)
  moreover have "unat b mod 16 < 16" by simp
  moreover have "of_nat (16 * (unat b div 16) + unat b mod 16) = b"
    by simp
  ultimately show ?case
    using Cons by (simp add: hex_encode_def hex_value_digit)
qed

lemma string_okD:
  assumes "string_ok cl c d s"
  shows "\<exists>w. c_write cl c s = Some w
            \<and> (\<forall>rest. lib_read (d_read cl d) (w @ rest) = Some (s, rest))"
  using assms by (auto simp: string_ok_def lib_read_def split: option.splits)

lemma target_roundtrip:
  assumes "target_ok cl c d t"
  shows "\<exists>w. writeTarget cl c (t_type t) (t_target t) = Some w
            \<and> (\<forall>rest. readTarget cl d (t_type t) (w @ rest) = Some (t_target t, rest))"
proof -
  consider (a) "t_type t = INET4" | (b) "t_type t = INET6" | (c) "t_type t = ONION"
    | (d) "t_type t = ONIONNG" | (e) "t_type t = INAME" | (f) "t_type t = HNAME"
    using assms by (auto simp: target_ok_def split: if_splits)
  then show ?thesis
  proof cases
    case a
    with assms obtain ip where "IP_decode (net cl) (t_target t) = Some ip" "length ip = 4"
      "IP_encode (net cl) ip = t_target t"
      by (auto simp: target_ok_def)
    with a show ?thesis
      by (simp add: writeTarget_def readTarget_def)
  next
    case b
    with assms obtain ip where ip: "IP_decode (net cl) (t_target t) = Some ip" "length ip = 16"
      "\<And>rest. ipRead cl (ipWrite cl ip @ rest) = Some (ip, length (ipWrite cl ip))"
      "IP_encode (net cl) ip = t_target t"
      by (auto simp: target_ok_def rtypes_defs)
    with b show ?thesis
      by (simp add: writeTarget_def readTarget_def lib_read_def rtypes_defs)
  next
    case c
    with assms obtain raw where "onion_decode (net cl) (t_target t) = Some raw"
      "length raw = 10" "onion_encode (net cl) raw = t_target t"
      by (auto simp: target_ok_def rtypes_defs)
    with c show ?thesis
      by (simp add: writeTarget_def readTarget_def rtypes_defs)
  next
    case d
    with assms obtain raw where "onion_decodeNG (net cl) (t_target t) = Some raw"
      "length raw = 33" "onion_encodeNG (net cl) raw = t_target t"
      by (auto simp: target_ok_def rtypes_defs)
    with d show ?thesis
      by (simp add: writeTarget_def readTarget_def rtypes_defs)
  next
    case e
    with assms obtain name where n: "t_target t = name @ ICANNP" "string_ok cl c d name"
      by (auto simp: target_ok_def rtypes_defs)
    from string_okD [OF n(2)] obtain w where "c_write cl c name = Some w"
      "\<And>rest. lib_read (d_read cl d) (w @ rest) = Some (name, rest)"
      by blast
    with e n(1) show ?thesis
      by (simp add: writeTarget_def readTarget_def rtypes_defs slice0_def)
  next
    case f
    with assms obtain name where n: "t_target t = name @ HSKP" "string_ok cl c d name"
      by (auto simp: target_ok_def rtypes_defs)
    from string_okD [OF n(2)] obtain w where "c_write cl c name = Some w"
      "\<And>rest. lib_read (d_read cl d) (w @ rest) = Some (name, rest)"
      by blast
    with f n(1) show ?thesis
      by (simp add: writeTarget_def readTarget_def rtypes_defs slice0_def)
  qed
qed

lemma Target_roundtrip:
  assumes "target_ok cl c d t"
  shows "\<exists>w. Target_toWriter cl c t = Some w
            \<and> (\<forall>rest. Target_fromReader cl d (w @ rest) = Some (t, rest))"
proof -
  from target_roundtrip [OF assms] obtain b where
    "writeTarget cl c (t_type t) (t_target t) = Some b"
    "\<And>rest. readTarget cl d (t_type t) (b @ rest) = Some (t_target t, rest)"
    by blast
  then show ?thesis
    by (simp add: Target_toWriter_def Target_fromReader_def)
qed

lemma low6: "(x :: u8) AND 0x3f = take_bit 6 x"
  by (simp add: take_bit_eq_mask mask_eq_exp_minus_1)

lemma len8_low6: "n < 64 \<Longrightarrow> len8 n AND 0x3f = len8 n"
  by (simp add: low6 len8_def take_bit_of_nat take_bit_nat_eq_self)

lemma len8_bit6: "n < 64 \<Longrightarrow> len8 n AND 0x40 = 0"
proof -
  assume "n < 64"
  then have "len8 n AND 0x40 = (len8 n AND 0x3f) AND 0x40"
    by (simp add: len8_low6)
  also have "\<dots> = len8 n AND (0x3f AND 0x40)"
    by (simp only: and.assoc)
  finally show ?thesis by simp
qed

lemma len8_bit7: "n < 64 \<Longrightarrow> len8 n AND 0x80 = 0"
proof -
  assume "n < 64"
  then have "len8 n AND 0x80 = (len8 n AND 0x3f) AND 0x80"
    by (simp add: len8_low6)
  also have "\<dots> = len8 n AND (0x3f AND 0x80)"
    by (simp only: and.assoc)
  finally show ?thesis by simp
qed

lemma addr_len_byte:
  assumes "n < 64" and "mid = 0x40 \<or> mid = 0"
  shows "(0x80 OR mid OR len8 n) AND 0x80 \<noteq> (0 :: u8)"
    and "((0x80 OR mid OR len8 n) AND 0x40 \<noteq> (0 :: u8)) = (mid = 0x40)"
    and "unat ((0x80 OR mid OR len8 n) AND 0x3f :: u8) = n"
  using assms
  by (auto simp: bit.conj_disj_distrib2 len8_bit6 len8_bit7 len8_low6 len8_unat)


lemma Service_roundtrip:
  assumes "service_ok cl c d s"
  shows "\<exists>w. Service_toWriter cl c s = Some w
            \<and> (\<forall>rest. Service_fromReader cl d (w @ rest) = Some (s, rest))"
proof -
  from assms have a: "string_ok cl c d (srv_service s)" "string_ok cl c d (srv_protocol s)"
    "target_ok cl c d (srv_target s)"
    by (simp_all add: service_ok_def)
  from string_okD [OF a(1)] obtain w1 where w1: "c_write cl c (srv_service s) = Some w1"
    "\<And>rest. lib_read (d_read cl d) (w1 @ rest) = Some (srv_service s, rest)"
    by blast
  from string_okD [OF a(2)] obtain w2 where w2: "c_write cl c (srv_protocol s) = Some w2"
    "\<And>rest. lib_read (d_read cl d) (w2 @ rest) = Some (srv_protocol s, rest)"
    by blast
  from Target_roundtrip [OF a(3)] obtain w3 where w3: "Target_toWriter cl c (srv_target s) = Some w3"
    "\<And>rest. Target_fromReader cl d (w3 @ rest) = Some (srv_target s, rest)"
    by blast
  show ?thesis
    by (simp add: Service_toWriter_def Service_fromReader_def w1 w2 w3)
qed

lemma TLS_roundtrip:
  assumes "string_ok cl c d (tls_protocol t)" and "length (certificate t) < 256"
  shows "\<exists>w. TLS_toWriter cl c t = Some w
            \<and> (\<forall>rest. TLS_fromReader cl d (w @ rest) = Some (t, rest))"
proof -
  from string_okD [OF assms(1)] obtain w1 where w1: "c_write cl c (tls_protocol t) = Some w1"
    "\<And>rest. lib_read (d_read cl d) (w1 @ rest) = Some (tls_protocol t, rest)"
    by blast
  show ?thesis
    by (simp add: TLS_toWriter_def TLS_fromReader_def w1 len8_unat [OF assms(2)])
qed

lemma Magnet_roundtrip:
  assumes "string_ok cl c d (nid m)" and "hex_ok (nin m)"
  shows "\<exists>w. Magnet_toWriter cl c m = Some w
            \<and> (\<forall>rest. Magnet_fromReader cl d (w @ rest) = Some (m, rest))"
proof -
  from string_okD [OF assms(1)] obtain w1 where w1: "c_write cl c (nid m) = Some w1"
    "\<And>rest. lib_read (d_read cl d) (w1 @ rest) = Some (nid m, rest)"
    by blast
  from assms(2) have h: "hex_encode (hex_decode (nin m)) = nin m" "length (nin m) div 2 < 256"
    by (simp_all add: hex_ok_def)
  have "length (hex_encode bs) = 2 * length bs" for bs
    by (induction bs) (simp_all add: hex_encode_def)
  from this [of "hex_decode (nin m)"] h(1)
  have l: "length (hex_decode (nin m)) = length (nin m) div 2"
    by simp
  show ?thesis
    by (simp add: Magnet_toWriter_def Magnet_fromReader_def w1 len8_unat [OF h(2)]
          writeString_hex_def readString_hex_def l h(1))
qed

lemma Addr_roundtrip:
  assumes "addr_ok cl a"
  shows "\<exists>w. Addr_toWriter cl c a = Some w
            \<and> (\<forall>rest. Addr_fromReader cl d (w @ rest) = Some (a, rest))"
proof -
  from assms have hsk: "currency a = ''hsk''"
    by (simp add: addr_ok_def)
  from assms obtain v h where vh: "Address_fromString cl (address a) = Some (v, h)"
    "length h < 64"
    "Address_toString cl (v, h) (take 1 (address a) = ''t'') = Some (address a)"
    by (auto simp: addr_ok_def)
  have e: "\<lparr>currency = ''hsk'', address = address a\<rparr> = a"
    using hsk by simp
  show ?thesis
  proof (cases "take 1 (address a) = ''t''")
    case t: True
    from addr_len_byte [OF vh(2), of "0x40"] hsk vh t e show ?thesis
      by (simp add: Addr_toWriter_def Addr_fromReader_def Let_def)
  next
    case f: False
    from addr_len_byte [OF vh(2), of 0] hsk vh f e show ?thesis
      by (simp add: Addr_toWriter_def Addr_fromReader_def Let_def)
  qed
qed

lemma write_all_loop:
  assumes "\<forall>x \<in> set xs. item_ok cl d (f x) (upd x)"
  shows "\<exists>ws. write_all f xs = Some ws
           \<and> (\<forall>r rest. fromReader_loop cl d r (ws @ rest)
                 = fromReader_loop cl d (foldl (\<lambda>r x. upd x r) r xs) rest)"
  using assms
proof (induction xs)
  case Nil
  then show ?case by simp
next
  case (Cons x xs)
  from Cons.prems obtain b bs where w: "f x = Some (b # bs)"
    and rd: "\<And>r rest. read_item cl d r (b # bs @ rest) = Some (upd x r, rest)"
    by (auto simp: item_ok_def)
  from Cons obtain ws where ws: "write_all f xs = Some ws"
    and lp: "\<And>r rest. fromReader_loop cl d r (ws @ rest)
                 = fromReader_loop cl d (foldl (\<lambda>r x. upd x r) r xs) rest"
    by auto
  show ?case
    by (simp add: w ws fromReader_loop_Cons rd lp)
qed

lemma host_item:
  assumes "host_kind t" and "target_ok cl c d t"
  shows "item_ok cl d (Target_toWriter cl c t) (\<lambda>r. r\<lparr>r_hosts := r_hosts r @ [t]\<rparr>)"
proof -
  from target_roundtrip [OF assms(2)] obtain w where
    w: "writeTarget cl c (t_type t) (t_target t) = Some w"
    "\<And>rest. readTarget cl d (t_type t) (w @ rest) = Some (t_target t, rest)"
    by blast
  have "\<lparr>t_type = t_type t, t_target = t_target t\<rparr> = t" by simp
  with assms(1) w show ?thesis
    by (auto simp: item_ok_def Target_toWriter_def read_item_def host_kind_def)
qed

lemma ns_item:
  assumes "target_ok cl c d t"
  shows "item_ok cl d (tagged NS (Target_toWriter cl c t)) (\<lambda>r. r\<lparr>r_ns := r_ns r @ [t]\<rparr>)"
  using Target_roundtrip [OF assms]
  by (auto simp: item_ok_def tagged_def read_item_def rtypes_defs)

lemma service_item:
  assumes "service_ok cl c d s"
  shows "item_ok cl d (tagged SERVICE (Service_toWriter cl c s))
           (\<lambda>r. r\<lparr>r_service := r_service r @ [s]\<rparr>)"
  using Service_roundtrip [OF assms]
  by (auto simp: item_ok_def tagged_def read_item_def rtypes_defs)

lemma url_item:
  assumes "string_ok cl c d s"
  shows "item_ok cl d (tagged URL (c_write cl c s)) (\<lambda>r. r\<lparr>r_url := r_url r @ [s]\<rparr>)"
  using string_okD [OF assms]
  by (auto simp: item_ok_def tagged_def read_item_def rtypes_defs)

lemma email_item:
  assumes "string_ok cl c d s"
  shows "item_ok cl d (tagged EMAIL (c_write cl c s)) (\<lambda>r. r\<lparr>r_email := r_email r @ [s]\<rparr>)"
  using string_okD [OF assms]
  by (auto simp: item_ok_def tagged_def read_item_def rtypes_defs)

lemma text_item:
  assumes "string_ok cl c d s"
  shows "item_ok cl d (tagged TEXT (c_write cl c s)) (\<lambda>r. r\<lparr>r_text := r_text r @ [s]\<rparr>)"
  using string_okD [OF assms]
  by (auto simp: item_ok_def tagged_def read_item_def rtypes_defs)

lemma location_item:
  "item_ok cl d (tagged LOCATION (Some (Location_toWriter l)))
     (\<lambda>r. r\<lparr>r_location := r_location r @ [l]\<rparr>)"
  by (simp add: item_ok_def tagged_def read_item_def rtypes_defs Location_toWriter_def
        Location_fromReader_def)

lemma magnet_item:
  assumes "string_ok cl c d (nid m)" and "hex_ok (nin m)"
  shows "item_ok cl d (tagged MAGNET (Magnet_toWriter cl c m))
           (\<lambda>r. r\<lparr>r_magnet := r_magnet r @ [m]\<rparr>)"
  using Magnet_roundtrip [OF assms]
  by (auto simp: item_ok_def tagged_def read_item_def rtypes_defs)

lemma ds_item:
  assumes "length (digest x) < 256"
  shows "item_ok cl d (tagged DS (Some (DS_toWriter x)))
           (\<lambda>r. r\<lparr>r_ds := r_ds r @ [DS_read_back x]\<rparr>)"
proof -
  have "DS_read_back x = \<lparr>keyTag = swap16 (keyTag x), ds_algorithm = ds_algorithm x,
          digestType = digestType x, digest = digest x\<rparr>"
    by (simp add: DS_read_back_def)
  then show ?thesis
    by (simp add: item_ok_def tagged_def read_item_def rtypes_defs DS_toWriter_def
          DS_fromReader_def len8_unat [OF assms])
qed

lemma tls_item:
  assumes "string_ok cl c d (tls_protocol t)" and "length (certificate t) < 256"
  shows "item_ok cl d (tagged TLS (TLS_toWriter cl c t)) (\<lambda>r. r\<lparr>r_tls := r_tls r @ [t]\<rparr>)"
  using TLS_roundtrip [OF assms]
  by (auto simp: item_ok_def tagged_def read_item_def rtypes_defs)

lemma SSH_roundtrip:
  assumes "length (fingerprint s) < 256"
  shows "SSH_fromReader (SSH_toWriter s @ rest) = Some (s, rest)"
  by (simp add: SSH_toWriter_def SSH_fromReader_def len8_def [symmetric] len8_unat [OF assms])

lemma ssh_item:
  assumes "length (fingerprint s) < 256"
  shows "item_ok cl d (tagged SSH (Some (SSH_toWriter s))) (\<lambda>r. r\<lparr>r_ssh := r_ssh r @ [s]\<rparr>)"
  by (simp add: item_ok_def tagged_def read_item_def rtypes_defs SSH_roundtrip [OF assms])

lemma pgp_item:
  assumes "length (fingerprint s) < 256"
  shows "item_ok cl d (tagged PGP (Some (SSH_toWriter s))) (\<lambda>r. r\<lparr>r_pgp := r_pgp r @ [s]\<rparr>)"
  by (simp add: item_ok_def tagged_def read_item_def rtypes_defs SSH_roundtrip [OF assms])

lemma addr_item:
  assumes "addr_ok cl a"
  shows "item_ok cl d (tagged ADDR (Addr_toWriter cl c a)) (\<lambda>r. r\<lparr>r_addr := r_addr r @ [a]\<rparr>)"
  using Addr_roundtrip [OF assms, of c d]
  by (auto simp: item_ok_def tagged_def read_item_def rtypes_defs)

lemma extra_item:
  assumes "\<not> known_tag (ex_type e)" and "length (ex_data e) < 256"
  shows "item_ok cl d (tagged (ex_type e) (Some (Extra_toWriter e)))
           (\<lambda>r. r\<lparr>r_extra := r_extra r @ [e]\<rparr>)"
  using assms(1)
  by (simp add: item_ok_def tagged_def read_item_def known_tag_def Extra_toWriter_def
        Extra_fromReader_def len8_unat [OF assms(2)])

lemma ttl_mask: "(push_bit 6 (mask 16) :: u32) = 0x3FFFC0"
  by (simp add: mask_eq_exp_minus_1 push_bit_eq_mult)

lemma ttl_read_back:
  "(push_bit 6 (ucast (ucast (drop_bit 6 (t :: u32)) :: u16)) :: u32) = t AND 0x3FFFC0"
  unfolding ttl_mask [symmetric]
  by (rule bit_word_eqI) (auto simp: bit_simps)

lemma ttl_small:
  assumes "(t :: u32) < 2 ^ 22"
  shows "t AND 0x3FFFC0 = t AND NOT 63"
proof -
  from assms have "take_bit 22 t = t"
    using less_mask_eq [of t 22] by (simp add: take_bit_eq_mask)
  then have b: "bit t n \<Longrightarrow> n < 22" for n
    by (metis bit_take_bit_iff)
  have m: "(63 :: u32) = mask 6" by (simp add: mask_eq_exp_minus_1)
  show ?thesis
    unfolding ttl_mask [symmetric] m
    by (intro bit_word_eqI) (auto simp: bit_simps dest: b)
qed

lemma foldl_hosts: "foldl (\<lambda>r x. r\<lparr>r_hosts := r_hosts r @ [g x]\<rparr>) r xs = r\<lparr>r_hosts := r_hosts r @ map g xs\<rparr>"
  by (induction xs arbitrary: r) simp_all
lemma foldl_ns: "foldl (\<lambda>r x. r\<lparr>r_ns := r_ns r @ [g x]\<rparr>) r xs = r\<lparr>r_ns := r_ns r @ map g xs\<rparr>"
  by (induction xs arbitrary: r) simp_all
lemma foldl_service: "foldl (\<lambda>r x. r\<lparr>r_service := r_service r @ [g x]\<rparr>) r xs = r\<lparr>r_service := r_service r @ map g xs\<rparr>"
  by (induction xs arbitrary: r) simp_all
lemma foldl_url: "foldl (\<lambda>r x. r\<lparr>r_url := r_url r @ [g x]\<rparr>) r xs = r\<lparr>r_url := r_url r @ map g xs\<rparr>"
  by (induction xs arbitrary: r) simp_all
lemma foldl_email: "foldl (\<lambda>r x. r\<lparr>r_email := r_email r @ [g x]\<rparr>) r xs = r\<lparr>r_email := r_email r @ map g xs\<rparr>"
  by (induction xs arbitrary: r) simp_all
lemma foldl_text: "foldl (\<lambda>r x. r\<lparr>r_text := r_text r @ [g x]\<rparr>) r xs = r\<lparr>r_text := r_text r @ map g xs\<rparr>"
  by (induction xs arbitrary: r) simp_all
lemma foldl_location: "foldl (\<lambda>r x. r\<lparr>r_location := r_location r @ [g x]\<rparr>) r xs = r\<lparr>r_location := r_location r @ map g xs\<rparr>"
  by (induction xs arbitrary: r) simp_all
lemma foldl_magnet: "foldl (\<lambda>r x. r\<lparr>r_magnet := r_magnet r @ [g x]\<rparr>) r xs = r\<lparr>r_magnet := r_magnet r @ map g xs\<rparr>"
  by (induction xs arbitrary: r) simp_all
lemma foldl_ds: "foldl (\<lambda>r x. r\<lparr>r_ds := r_ds r @ [g x]\<rparr>) r xs = r\<lparr>r_ds := r_ds r @ map g xs\<rparr>"
  by (induction xs arbitrary: r) simp_all
lemma foldl_tls: "foldl (\<lambda>r x. r\<lparr>r_tls := r_tls r @ [g x]\<rparr>) r xs = r\<lparr>r_tls := r_tls r @ map g xs\<rparr>"
  by (induction xs arbitrary: r) simp_all
lemma foldl_ssh: "foldl (\<lambda>r x. r\<lparr>r_ssh := r_ssh r @ [g x]\<rparr>) r xs = r\<lparr>r_ssh := r_ssh r @ map g xs\<rparr>"
  by (induction xs arbitrary: r) simp_all
lemma foldl_pgp: "foldl (\<lambda>r x. r\<lparr>r_pgp := r_pgp r @ [g x]\<rparr>) r xs = r\<lparr>r_pgp := r_pgp r @ map g xs\<rparr>"
  by (induction xs arbitrary: r) simp_all
lemma foldl_addr: "foldl (\<lambda>r x. r\<lparr>r_addr := r_addr r @ [g x]\<rparr>) r xs = r\<lparr>r_addr := r_addr r @ map g xs\<rparr>"
  by (induction xs arbitrary: r) simp_all
lemma foldl_extra: "foldl (\<lambda>r x. r\<lparr>r_extra := r_extra r @ [g x]\<rparr>) r xs = r\<lparr>r_extra := r_extra r @ map g xs\<rparr>"
  by (induction xs arbitrary: r) simp_all

lemmas foldl_fields =
  foldl_hosts [where g = "\<lambda>x. x"] foldl_ns [where g = "\<lambda>x. x"]
  foldl_service [where g = "\<lambda>x. x"] foldl_url [where g = "\<lambda>x. x"]
  foldl_email [where g = "\<lambda>x. x"] foldl_text [where g = "\<lambda>x. x"]
  foldl_location [where g = "\<lambda>x. x"] foldl_magnet [where g = "\<lambda>x. x"]
  foldl_ds [where g = DS_read_back] foldl_tls [where g = "\<lambda>x. x"]
  foldl_ssh [where g = "\<lambda>x. x"] foldl_pgp [where g = "\<lambda>x. x"]
  foldl_addr [where g = "\<lambda>x. x"] foldl_extra [where g = "\<lambda>x. x"]

lemma canonical_None: "r_canonical r = None \<Longrightarrow> r\<lparr>r_canonical := None\<rparr> = r"
  by (cases r) simp

lemma delegate_None: "r_delegate r = None \<Longrightarrow> r\<lparr>r_delegate := None\<rparr> = r"
  by (cases r) simp

text \<open>The canonical and the delegate entry: none, or one item read into an empty field.\<close>

lemma canonical_loop:
  assumes "case t of None \<Rightarrow> True | Some x \<Rightarrow> target_ok cl c d x"
  shows "\<exists>ws. (case t of None \<Rightarrow> Some [] | Some x \<Rightarrow> tagged CANONICAL (Target_toWriter cl c x)) = Some ws
           \<and> (\<forall>r rest. r_canonical r = None \<longrightarrow>
                 fromReader_loop cl d r (ws @ rest)
                   = fromReader_loop cl d (r\<lparr>r_canonical := t\<rparr>) rest)"
proof (cases t)
  case None
  then show ?thesis by (simp add: canonical_None)
next
  case (Some x)
  with assms Target_roundtrip [of cl c d x] show ?thesis
    by (auto simp: tagged_def fromReader_loop_Cons read_item_def rtypes_defs)
qed

lemma delegate_loop:
  assumes "case t of None \<Rightarrow> True | Some x \<Rightarrow> target_ok cl c d x"
  shows "\<exists>ws. (case t of None \<Rightarrow> Some [] | Some x \<Rightarrow> tagged DELEGATE (Target_toWriter cl c x)) = Some ws
           \<and> (\<forall>r rest. r_delegate r = None \<longrightarrow>
                 fromReader_loop cl d r (ws @ rest)
                   = fromReader_loop cl d (r\<lparr>r_delegate := t\<rparr>) rest)"
proof (cases t)
  case None
  then show ?thesis by (simp add: delegate_None)
next
  case (Some x)
  with assms Target_roundtrip [of cl c d x] show ?thesis
    by (auto simp: tagged_def fromReader_loop_Cons read_item_def rtypes_defs)
qed

lemma hosts_section:
  assumes "list_all (\<lambda>t. host_kind t \<and> target_ok cl c d t) xs"
  shows "\<exists>ws. write_all (Target_toWriter cl c) xs = Some ws
           \<and> (\<forall>r rest. fromReader_loop cl d r (ws @ rest)
                 = fromReader_loop cl d (r\<lparr>r_hosts := r_hosts r @ xs\<rparr>) rest)"
  using assms
    write_all_loop [of xs cl d "Target_toWriter cl c" "\<lambda>x r. r\<lparr>r_hosts := r_hosts r @ [x]\<rparr>"]
  by (simp add: list_all_iff host_item foldl_fields)

lemma ns_section:
  assumes "list_all (target_ok cl c d) xs"
  shows "\<exists>ws. write_all (\<lambda>t. tagged NS (Target_toWriter cl c t)) xs = Some ws
           \<and> (\<forall>r rest. fromReader_loop cl d r (ws @ rest)
                 = fromReader_loop cl d (r\<lparr>r_ns := r_ns r @ xs\<rparr>) rest)"
  using assms
    write_all_loop [of xs cl d "\<lambda>t. tagged NS (Target_toWriter cl c t)" "\<lambda>x r. r\<lparr>r_ns := r_ns r @ [x]\<rparr>"]
  by (simp add: list_all_iff ns_item foldl_fields)

lemma service_section:
  assumes "list_all (service_ok cl c d) xs"
  shows "\<exists>ws. write_all (\<lambda>s. tagged SERVICE (Service_toWriter cl c s)) xs = Some ws
           \<and> (\<forall>r rest. fromReader_loop cl d r (ws @ rest)
                 = fromReader_loop cl d (r\<lparr>r_service := r_service r @ xs\<rparr>) rest)"
  using assms
    write_all_loop [of xs cl d "\<lambda>s. tagged SERVICE (Service_toWriter cl c s)" "\<lambda>x r. r\<lparr>r_service := r_service r @ [x]\<rparr>"]
  by (simp add: list_all_iff service_item foldl_fields)

lemma url_section:
  assumes "list_all (string_ok cl c d) xs"
  shows "\<exists>ws. write_all (\<lambda>s. tagged URL (c_write cl c s)) xs = Some ws
           \<and> (\<forall>r rest. fromReader_loop cl d r (ws @ rest)
                 = fromReader_loop cl d (r\<lparr>r_url := r_url r @ xs\<rparr>) rest)"
  using assms
    write_all_loop [of xs cl d "\<lambda>s. tagged URL (c_write cl c s)" "\<lambda>x r. r\<lparr>r_url := r_url r @ [x]\<rparr>"]
  by (simp add: list_all_iff url_item foldl_fields)

lemma email_section:
  assumes "list_all (string_ok cl c d) xs"
  shows "\<exists>ws. write_all (\<lambda>s. tagged EMAIL (c_write cl c s)) xs = Some ws
           \<and> (\<forall>r rest. fromReader_loop cl d r (ws @ rest)
                 = fromReader_loop cl d (r\<lparr>r_email := r_email r @ xs\<rparr>) rest)"
  using assms
    write_all_loop [of xs cl d "\<lambda>s. tagged EMAIL (c_write cl c s)" "\<lambda>x r. r\<lparr>r_email := r_email r @ [x]\<rparr>"]
  by (simp add: list_all_iff email_item foldl_fields)

lemma text_section:
  assumes "list_all (string_ok cl c d) xs"
  shows "\<exists>ws. write_all (\<lambda>s. tagged TEXT (c_write cl c s)) xs = Some ws
           \<and> (\<forall>r rest. fromReader_loop cl d r (ws @ rest)
                 = fromReader_loop cl d (r\<lparr>r_text := r_text r @ xs\<rparr>) rest)"
  using assms
    write_all_loop [of xs cl d "\<lambda>s. tagged TEXT (c_write cl c s)" "\<lambda>x r. r\<lparr>r_text := r_text r @ [x]\<rparr>"]
  by (simp add: list_all_iff text_item foldl_fields)

lemma location_section:
  assumes "True"
  shows "\<exists>ws. write_all (\<lambda>l. tagged LOCATION (Some (Location_toWriter l))) xs = Some ws
           \<and> (\<forall>r rest. fromReader_loop cl d r (ws @ rest)
                 = fromReader_loop cl d (r\<lparr>r_location := r_location r @ xs\<rparr>) rest)"
  using assms
    write_all_loop [of xs cl d "\<lambda>l. tagged LOCATION (Some (Location_toWriter l))" "\<lambda>x r. r\<lparr>r_location := r_location r @ [x]\<rparr>"]
  by (simp add: list_all_iff location_item foldl_fields)

lemma magnet_section:
  assumes "list_all (\<lambda>m. string_ok cl c d (nid m) \<and> hex_ok (nin m)) xs"
  shows "\<exists>ws. write_all (\<lambda>m. tagged MAGNET (Magnet_toWriter cl c m)) xs = Some ws
           \<and> (\<forall>r rest. fromReader_loop cl d r (ws @ rest)
                 = fromReader_loop cl d (r\<lparr>r_magnet := r_magnet r @ xs\<rparr>) rest)"
  using assms
    write_all_loop [of xs cl d "\<lambda>m. tagged MAGNET (Magnet_toWriter cl c m)" "\<lambda>x r. r\<lparr>r_magnet := r_magnet r @ [x]\<rparr>"]
  by (simp add: list_all_iff magnet_item foldl_fields)

lemma ds_section:
  assumes "list_all (\<lambda>x. length (digest x) < 256) xs"
  shows "\<exists>ws. write_all (\<lambda>x. tagged DS (Some (DS_toWriter x))) xs = Some ws
           \<and> (\<forall>r rest. fromReader_loop cl d r (ws @ rest)
                 = fromReader_loop cl d (r\<lparr>r_ds := r_ds r @ map DS_read_back xs\<rparr>) rest)"
  using assms
    write_all_loop [of xs cl d "\<lambda>x. tagged DS (Some (DS_toWriter x))" "\<lambda>x r. r\<lparr>r_ds := r_ds r @ [DS_read_back x]\<rparr>"]
  by (simp add: list_all_iff ds_item foldl_fields)

lemma tls_section:
  assumes "list_all (\<lambda>t. string_ok cl c d (tls_protocol t) \<and> length (certificate t) < 256) xs"
  shows "\<exists>ws. write_all (\<lambda>t. tagged TLS (TLS_toWriter cl c t)) xs = Some ws
           \<and> (\<forall>r rest. fromReader_loop cl d r (ws @ rest)
                 = fromReader_loop cl d (r\<lparr>r_tls := r_tls r @ xs\<rparr>) rest)"
  using assms
    write_all_loop [of xs cl d "\<lambda>t. tagged TLS (TLS_toWriter cl c t)" "\<lambda>x r. r\<lparr>r_tls := r_tls r @ [x]\<rparr>"]
  by (simp add: list_all_iff tls_item foldl_fields)

lemma ssh_section:
  assumes "list_all (\<lambda>s. length (fingerprint s) < 256) xs"
  shows "\<exists>ws. write_all (\<lambda>s. tagged SSH (Some (SSH_toWriter s))) xs = Some ws
           \<and> (\<forall>r rest. fromReader_loop cl d r (ws @ rest)
                 = fromReader_loop cl d (r\<lparr>r_ssh := r_ssh r @ xs\<rparr>) rest)"
  using assms
    write_all_loop [of xs cl d "\<lambda>s. tagged SSH (Some (SSH_toWriter s))" "\<lambda>x r. r\<lparr>r_ssh := r_ssh r @ [x]\<rparr>"]
  by (simp add: list_all_iff ssh_item foldl_fields)

lemma pgp_section:
  assumes "list_all (\<lambda>s. length (fingerprint s) < 256) xs"
  shows "\<exists>ws. write_all (\<lambda>s. tagged PGP (Some (SSH_toWriter s))) xs = Some ws
           \<and> (\<forall>r rest. fromReader_loop cl d r (ws @ rest)
                 = fromReader_loop cl d (r\<lparr>r_pgp := r_pgp r @ xs\<rparr>) rest)"
  using assms
    write_all_loop [of xs cl d "\<lambda>s. tagged PGP (Some (SSH_toWriter s))" "\<lambda>x r. r\<lparr>r_pgp := r_pgp r @ [x]\<rparr>"]
  by (simp add: list_all_iff pgp_item foldl_fields)

lemma addr_section:
  assumes "list_all (addr_ok cl) xs"
  shows "\<exists>ws. write_all (\<lambda>a. tagged ADDR (Addr_toWriter cl c a)) xs = Some ws
           \<and> (\<forall>r rest. fromReader_loop cl d r (ws @ rest)
                 = fromReader_loop cl d (r\<lparr>r_addr := r_addr r @ xs\<rparr>) rest)"
  using assms
    write_all_loop [of xs cl d "\<lambda>a. tagged ADDR (Addr_toWriter cl c a)" "\<lambda>x r. r\<lparr>r_addr := r_addr r @ [x]\<rparr>"]
  by (simp add: list_all_iff addr_item foldl_fields)

lemma extra_section:
  assumes "list_all (\<lambda>e. \<not> known_tag (ex_type e) \<and> length (ex_data e) < 256) xs"
  shows "\<exists>ws. write_all (\<lambda>e. tagged (ex_type e) (Some (Extra_toWriter e))) xs = Some ws
           \<and> (\<forall>r rest. fromReader_loop cl d r (ws @ rest)
                 = fromReader_loop cl d (r\<lparr>r_extra := r_extra r @ xs\<rparr>) rest)"
  using assms
    write_all_loop [of xs cl d "\<lambda>e. tagged (ex_type e) (Some (Extra_toWriter e))" "\<lambda>x r. r\<lparr>r_extra := r_extra r @ [x]\<rparr>"]
  by (simp add: list_all_iff extra_item foldl_fields)

text \<open>Sizes: what \<^verbatim>\<open>getSize\<close> counts is what \<^verbatim>\<open>toWriter\<close> writes.\<close>

lemma size_all_length:
  assumes "write_all f xs = Some ws"
    and "\<And>x w. x \<in> set xs \<Longrightarrow> f x = Some w \<Longrightarrow> g x = Some (length w)"
  shows "size_all g xs = Some (length ws)"
  using assms
proof (induction xs arbitrary: ws)
  case Nil
  then show ?case by simp
next
  case (Cons x xs)
  from Cons.prems(1) obtain a b where a: "f x = Some a" and b: "write_all f xs = Some b"
    and ws: "ws = a @ b"
    by (auto simp: bind_eq_Some_conv)
  from Cons.prems(2) [of x a] a have "g x = Some (length a)" by simp
  moreover from Cons.IH [OF b] Cons.prems(2) have "size_all g xs = Some (length b)" by simp
  ultimately show ?case by (simp add: ws)
qed

lemma string_size:
  assumes "string_ok cl c d s" and "c_write cl c s = Some w"
  shows "c_size cl c s = length w"
  using assms by (simp add: string_ok_def)

lemma Target_size:
  assumes "target_ok cl c d t" and "Target_toWriter cl c t = Some w"
  shows "Target_getSize cl c t = Some (length w)"
  using assms
  by (auto simp: target_ok_def Target_toWriter_def writeTarget_def Target_getSize_def
        sizeTarget_def slice0_def string_ok_def bind_eq_Some_conv
        split: if_splits option.splits)

lemma Service_size:
  assumes "service_ok cl c d s" and "Service_toWriter cl c s = Some w"
  shows "Service_getSize cl c s = Some (length w)"
proof -
  from assms(2) obtain sv pr tg where sv: "c_write cl c (srv_service s) = Some sv"
    and pr: "c_write cl c (srv_protocol s) = Some pr"
    and tg: "Target_toWriter cl c (srv_target s) = Some tg"
    and w: "w = sv @ pr @ [srv_priority s, srv_weight s] @ tg @ writeU16 (srv_port s)"
    by (auto simp: Service_toWriter_def bind_eq_Some_conv)
  from assms(1) have ok: "string_ok cl c d (srv_service s)" "string_ok cl c d (srv_protocol s)"
    "target_ok cl c d (srv_target s)"
    by (simp_all add: service_ok_def)
  show ?thesis
    by (simp add: Service_getSize_def Target_size [OF ok(3) tg] string_size [OF ok(1) sv]
          string_size [OF ok(2) pr] w writeU16_def)
qed

lemma hex_decode_length: "length (hex_encode bs) = 2 * length bs"
  by (induction bs) (simp_all add: hex_encode_def)

lemma Magnet_size:
  assumes "string_ok cl c d (nid m)" and "hex_ok (nin m)"
    and "Magnet_toWriter cl c m = Some w"
  shows "Magnet_getSize cl c m = length w"
proof -
  from assms(3) obtain n where n: "c_write cl c (nid m) = Some n"
    and w: "w = n @ [len8 (length (nin m) div 2)] @ writeString_hex (nin m)"
    by (auto simp: Magnet_toWriter_def bind_eq_Some_conv)
  from assms(2) have "length (nin m) = 2 * length (hex_decode (nin m))"
    using hex_decode_length [of "hex_decode (nin m)"] by (simp add: hex_ok_def)
  then show ?thesis
    by (simp add: Magnet_getSize_def string_size [OF assms(1) n] w writeString_hex_def)
qed

lemma TLS_size:
  assumes "string_ok cl c d (tls_protocol t)" and "TLS_toWriter cl c t = Some w"
  shows "TLS_getSize cl c t = length w"
  using assms
  by (auto simp: TLS_toWriter_def TLS_getSize_def bind_eq_Some_conv writeU16_def
        dest: string_size)

lemma Addr_size:
  assumes "addr_ok cl a" and "Addr_toWriter cl c a = Some w"
  shows "Addr_getSize cl c a = Some (length w)"
  using assms
  by (auto simp: addr_ok_def Addr_toWriter_def Addr_getSize_def bind_eq_Some_conv
        writeString_ascii_def split: if_splits)

lemma Location_size: "Location_getSize l = length (Location_toWriter l)"
  by (simp add: Location_getSize_def Location_toWriter_def writeU32_def)

lemma DS_size: "DS_getSize x = length (DS_toWriter x)"
  by (simp add: DS_getSize_def DS_toWriter_def writeU16_def)

lemma SSH_size: "SSH_getSize s = length (SSH_toWriter s)"
  by (simp add: SSH_getSize_def SSH_toWriter_def)

lemma Extra_size: "Extra_getSize e = length (Extra_toWriter e)"
  by (simp add: Extra_getSize_def Extra_toWriter_def)

lemma tagged_size:
  assumes "tagged tag body = Some w" and "\<And>b. body = Some b \<Longrightarrow> n = Some (length b)"
  shows "sized n = Some (length w)"
  using assms by (auto simp: tagged_def sized_def)

lemma tagged_size_all:
  assumes "write_all (\<lambda>x. tagged (tg x) (f x)) xs = Some ws"
    and "\<And>x b. x \<in> set xs \<Longrightarrow> f x = Some b \<Longrightarrow> g x = Some (length b)"
  shows "size_all (\<lambda>x. sized (g x)) xs = Some (length ws)"
proof (rule size_all_length [OF assms(1)])
  fix x w
  assume "x \<in> set xs" and "tagged (tg x) (f x) = Some w"
  then show "sized (g x) = Some (length w)"
    using assms(2) [of x] by (auto simp: tagged_def sized_def)
qed

lemma canonical_size:
  assumes "case t of None \<Rightarrow> True | Some x \<Rightarrow> target_ok cl c d x"
    and "(case t of None \<Rightarrow> Some [] | Some x \<Rightarrow> tagged tag (Target_toWriter cl c x)) = Some w"
  shows "(case t of None \<Rightarrow> Some 0 | Some x \<Rightarrow> sized (Target_getSize cl c x))
           = Some (length w)"
proof (cases t)
  case None
  with assms show ?thesis by simp
next
  case (Some x)
  with assms obtain b where b: "Target_toWriter cl c x = Some b" and w: "w = tag # b"
    by (auto simp: tagged_def)
  from Some assms(1) have "target_ok cl c d x" by simp
  from Target_size [OF this b] show ?thesis
    by (simp add: Some sized_def w)
qed

text \<open>The size of a valid record is the number of bytes written for it.\<close>

lemma getSize_toWriter:
  assumes v: "valid_record cl c d r" and tw: "HSKRecord_toWriter cl c r = Some bs"
  shows "HSKRecord_getSize cl c r = Some (length bs)"
proof -
  note v = v [unfolded valid_record_def list_all_iff]
  from tw obtain w1 w2 w3 w4 w5 w6 w7 w8 w9 w10 w11 w12 w13 w14 w15 w16 where
    w1: "write_all (Target_toWriter cl c) (r_hosts r) = Some w1"
    and w2: "(case r_canonical r of None \<Rightarrow> Some []
          | Some x \<Rightarrow> tagged CANONICAL (Target_toWriter cl c x)) = Some w2"
    and w3: "(case r_delegate r of None \<Rightarrow> Some []
          | Some x \<Rightarrow> tagged DELEGATE (Target_toWriter cl c x)) = Some w3"
    and w4: "write_all (\<lambda>t. tagged NS (Target_toWriter cl c t)) (r_ns r) = Some w4"
    and w5: "write_all (\<lambda>s. tagged SERVICE (Service_toWriter cl c s)) (r_service r) = Some w5"
    and w6: "write_all (\<lambda>s. tagged URL (c_write cl c s)) (r_url r) = Some w6"
    and w7: "write_all (\<lambda>s. tagged EMAIL (c_write cl c s)) (r_email r) = Some w7"
    and w8: "write_all (\<lambda>s. tagged TEXT (c_write cl c s)) (r_text r) = Some w8"
    and w9: "write_all (\<lambda>l. tagged LOCATION (Some (Location_toWriter l))) (r_location r) = Some w9"
    and w10: "write_all (\<lambda>m. tagged MAGNET (Magnet_toWriter cl c m)) (r_magnet r) = Some w10"
    and w11: "write_all (\<lambda>x. tagged DS (Some (DS_toWriter x))) (r_ds r) = Some w11"
    and w12: "write_all (\<lambda>t. tagged TLS (TLS_toWriter cl c t)) (r_tls r) = Some w12"
    and w13: "write_all (\<lambda>s. tagged SSH (Some (SSH_toWriter s))) (r_ssh r) = Some w13"
    and w14: "write_all (\<lambda>s. tagged PGP (Some (SSH_toWriter s))) (r_pgp r) = Some w14"
    and w15: "write_all (\<lambda>a. tagged ADDR (Addr_toWriter cl c a)) (r_addr r) = Some w15"
    and w16: "write_all (\<lambda>e. tagged (ex_type e) (Some (Extra_toWriter e))) (r_extra r) = Some w16"
    and bs: "bs = [r_version r] @ writeU16 (ucast (drop_bit 6 (r_ttl r))) @ c_toWriter cl c
               @ w1 @ w2 @ w3 @ w4 @ w5 @ w6 @ w7 @ w8 @ w9 @ w10 @ w11 @ w12 @ w13 @ w14
               @ w15 @ w16"
    unfolding HSKRecord_toWriter_def bind_eq_Some_conv by blast
  have s1: "size_all (Target_getSize cl c) (r_hosts r) = Some (length w1)"
  proof (rule size_all_length [OF w1])
    fix x w
    assume "x \<in> set (r_hosts r)" and w: "Target_toWriter cl c x = Some w"
    with v have "target_ok cl c d x" by simp
    from Target_size [OF this w] show "Target_getSize cl c x = Some (length w)" .
  qed
  have s2: "(case r_canonical r of None \<Rightarrow> Some 0
             | Some t \<Rightarrow> sized (Target_getSize cl c t)) = Some (length w2)"
    using v by (intro canonical_size [OF _ w2, where d = d]) simp
  have s3: "(case r_delegate r of None \<Rightarrow> Some 0
             | Some t \<Rightarrow> sized (Target_getSize cl c t)) = Some (length w3)"
    using v by (intro canonical_size [OF _ w3, where d = d]) simp
  have s4: "size_all (\<lambda>t. sized (Target_getSize cl c t)) (r_ns r) = Some (length w4)"
  proof (rule tagged_size_all [OF w4])
    fix x b
    assume "x \<in> set (r_ns r)" and b: "Target_toWriter cl c x = Some b"
    with v have "target_ok cl c d x" by simp
    from Target_size [OF this b] show "Target_getSize cl c x = Some (length b)" .
  qed
  have s5: "size_all (\<lambda>s. sized (Service_getSize cl c s)) (r_service r) = Some (length w5)"
  proof (rule tagged_size_all [OF w5])
    fix x b
    assume "x \<in> set (r_service r)" and b: "Service_toWriter cl c x = Some b"
    with v have "service_ok cl c d x" by simp
    from Service_size [OF this b] show "Service_getSize cl c x = Some (length b)" .
  qed
  have str: "Some (c_size cl c x) = Some (length b)"
    if "string_ok cl c d x" and "c_write cl c x = Some b" for x b
    using string_size [OF that] by simp
  have s6: "size_all (\<lambda>s. sized (Some (c_size cl c s))) (r_url r) = Some (length w6)"
  proof (rule tagged_size_all [OF w6])
    fix x b
    assume "x \<in> set (r_url r)" and b: "c_write cl c x = Some b"
    with v have "string_ok cl c d x" by simp
    from str [OF this b] show "Some (c_size cl c x) = Some (length b)" .
  qed
  have s7: "size_all (\<lambda>s. sized (Some (c_size cl c s))) (r_email r) = Some (length w7)"
  proof (rule tagged_size_all [OF w7])
    fix x b
    assume "x \<in> set (r_email r)" and b: "c_write cl c x = Some b"
    with v have "string_ok cl c d x" by simp
    from str [OF this b] show "Some (c_size cl c x) = Some (length b)" .
  qed
  have s8: "size_all (\<lambda>s. sized (Some (c_size cl c s))) (r_text r) = Some (length w8)"
  proof (rule tagged_size_all [OF w8])
    fix x b
    assume "x \<in> set (r_text r)" and b: "c_write cl c x = Some b"
    with v have "string_ok cl c d x" by simp
    from str [OF this b] show "Some (c_size cl c x) = Some (length b)" .
  qed
  have s9: "size_all (\<lambda>l. sized (Some (Location_getSize l))) (r_location r) = Some (length w9)"
    by (rule tagged_size_all [OF w9]) (simp add: Location_size)
  have s10: "size_all (\<lambda>m. sized (Some (Magnet_getSize cl c m))) (r_magnet r)
               = Some (length w10)"
  proof (rule tagged_size_all [OF w10])
    fix x b
    assume "x \<in> set (r_magnet r)" and b: "Magnet_toWriter cl c x = Some b"
    with v have "string_ok cl c d (nid x)" and "hex_ok (nin x)" by simp_all
    from Magnet_size [OF this b] show "Some (Magnet_getSize cl c x) = Some (length b)"
      by simp
  qed
  have s11: "size_all (\<lambda>x. sized (Some (DS_getSize x))) (r_ds r) = Some (length w11)"
    by (rule tagged_size_all [OF w11]) (simp add: DS_size)
  have s12: "size_all (\<lambda>t. sized (Some (TLS_getSize cl c t))) (r_tls r) = Some (length w12)"
  proof (rule tagged_size_all [OF w12])
    fix x b
    assume "x \<in> set (r_tls r)" and b: "TLS_toWriter cl c x = Some b"
    with v have "string_ok cl c d (tls_protocol x)" by simp
    from TLS_size [OF this b] show "Some (TLS_getSize cl c x) = Some (length b)"
      by simp
  qed
  have s13: "size_all (\<lambda>s. sized (Some (SSH_getSize s))) (r_ssh r) = Some (length w13)"
    by (rule tagged_size_all [OF w13]) (simp add: SSH_size)
  have s14: "size_all (\<lambda>s. sized (Some (SSH_getSize s))) (r_pgp r) = Some (length w14)"
    by (rule tagged_size_all [OF w14]) (simp add: SSH_size)
  have s15: "size_all (\<lambda>a. sized (Addr_getSize cl c a)) (r_addr r) = Some (length w15)"
  proof (rule tagged_size_all [OF w15])
    fix x b
    assume "x \<in> set (r_addr r)" and b: "Addr_toWriter cl c x = Some b"
    with v have "addr_ok cl x" by simp
    from Addr_size [OF this b] show "Addr_getSize cl c x = Some (length b)" .
  qed
  have s16: "size_all (\<lambda>e. sized (Some (Extra_getSize e))) (r_extra r) = Some (length w16)"
    by (rule tagged_size_all [OF w16]) (simp add: Extra_size)
  from v have "c_getSize cl c = length (c_toWriter cl c)"
    by (simp add: table_ok_def)
  then show ?thesis
    by (simp add: HSKRecord_getSize_def s1 s2 s3 s4 s5 s6 s7 s8 s9 s10 s11 s12 s13 s14 s15
          s16 bs writeU16_def)
qed

text \<open>
  What decoding an encoded record returns: the record itself, with its ttl cut to
  the bits 6 to 21 and the key tag of every DS entry byte-swapped.
\<close>

lemma fromRaw_toRaw:
  assumes v: "valid_record cl (compress cl r) d r"
  shows "\<exists>bs. toRaw cl r = Some bs
           \<and> fromRaw cl bs = Some (r\<lparr>r_ttl := r_ttl r AND 0x3FFFC0,
                                       r_ds := map DS_read_back (r_ds r)\<rparr>)"
proof -
  define c where "c = compress cl r"
  note v = v [folded c_def, unfolded valid_record_def]
  from v have ver: "r_version r = 0" and tab: "table_ok cl c d" by simp_all
  from hosts_section [where xs = "r_hosts r" and cl = cl and c = c and d = d] v obtain w1 where
    w1: "write_all (Target_toWriter cl c) (r_hosts r) = Some w1"
    and l1: "\<And>r0 rest. fromReader_loop cl d r0 (w1 @ rest)
               = fromReader_loop cl d (r0\<lparr>r_hosts := r_hosts r0 @ r_hosts r\<rparr>) rest"
    by auto
  from canonical_loop [where t = "r_canonical r" and cl = cl and c = c and d = d] v obtain w2 where
    w2: "(case r_canonical r of None \<Rightarrow> Some []
          | Some x \<Rightarrow> tagged CANONICAL (Target_toWriter cl c x)) = Some w2"
    and l2: "\<And>r0 rest. r_canonical r0 = None \<Longrightarrow> fromReader_loop cl d r0 (w2 @ rest)
               = fromReader_loop cl d (r0\<lparr>r_canonical := r_canonical r\<rparr>) rest"
    by auto
  from delegate_loop [where t = "r_delegate r" and cl = cl and c = c and d = d] v obtain w3 where
    w3: "(case r_delegate r of None \<Rightarrow> Some []
          | Some x \<Rightarrow> tagged DELEGATE (Target_toWriter cl c x)) = Some w3"
    and l3: "\<And>r0 rest. r_delegate r0 = None \<Longrightarrow> fromReader_loop cl d r0 (w3 @ rest)
               = fromReader_loop cl d (r0\<lparr>r_delegate := r_delegate r\<rparr>) rest"
    by auto
  from ns_section [where xs = "r_ns r" and cl = cl and c = c and d = d] v obtain w4 where
    w4: "write_all (\<lambda>t. tagged NS (Target_toWriter cl c t)) (r_ns r) = Some w4"
    and l4: "\<And>r0 rest. fromReader_loop cl d r0 (w4 @ rest)
               = fromReader_loop cl d (r0\<lparr>r_ns := r_ns r0 @ r_ns r\<rparr>) rest"
    by auto
  from service_section [where xs = "r_service r" and cl = cl and c = c and d = d] v obtain w5 where
    w5: "write_all (\<lambda>s. tagged SERVICE (Service_toWriter cl c s)) (r_service r) = Some w5"
    and l5: "\<And>r0 rest. fromReader_loop cl d r0 (w5 @ rest)
               = fromReader_loop cl d (r0\<lparr>r_service := r_service r0 @ r_service r\<rparr>) rest"
    by auto
  from url_section [where xs = "r_url r" and cl = cl and c = c and d = d] v obtain w6 where
    w6: "write_all (\<lambda>s. tagged URL (c_write cl c s)) (r_url r) = Some w6"
    and l6: "\<And>r0 rest. fromReader_loop cl d r0 (w6 @ rest)
               = fromReader_loop cl d (r0\<lparr>r_url := r_url r0 @ r_url r\<rparr>) rest"
    by auto
  from email_section [where xs = "r_email r" and cl = cl and c = c and d = d] v obtain w7 where
    w7: "write_all (\<lambda>s. tagged EMAIL (c_write cl c s)) (r_email r) = Some w7"
    and l7: "\<And>r0 rest. fromReader_loop cl d r0 (w7 @ rest)
               = fromReader_loop cl d (r0\<lparr>r_email := r_email r0 @ r_email r\<rparr>) rest"
    by auto
  from text_section [where xs = "r_text r" and cl = cl and c = c and d = d] v obtain w8 where
    w8: "write_all (\<lambda>s. tagged TEXT (c_write cl c s)) (r_text r) = Some w8"
    and l8: "\<And>r0 rest. fromReader_loop cl d r0 (w8 @ rest)
               = fromReader_loop cl d (r0\<lparr>r_text := r_text r0 @ r_text r\<rparr>) rest"
    by auto
  from location_section [where xs = "r_location r" and cl = cl and d = d] obtain w9 where
    w9: "write_all (\<lambda>l. tagged LOCATION (Some (Location_toWriter l))) (r_location r) = Some w9"
    and l9: "\<And>r0 rest. fromReader_loop cl d r0 (w9 @ rest)
               = fromReader_loop cl d (r0\<lparr>r_location := r_location r0 @ r_location r\<rparr>) rest"
    by auto
  from magnet_section [where xs = "r_magnet r" and cl = cl and c = c and d = d] v obtain w10 where
    w10: "write_all (\<lambda>m. tagged MAGNET (Magnet_toWriter cl c m)) (r_magnet r) = Some w10"
    and l10: "\<And>r0 rest. fromReader_loop cl d r0 (w10 @ rest)
               = fromReader_loop cl d (r0\<lparr>r_magnet := r_magnet r0 @ r_magnet r\<rparr>) rest"
    by auto
  from ds_section [where xs = "r_ds r" and cl = cl and d = d] v obtain w11 where
    w11: "write_all (\<lambda>x. tagged DS (Some (DS_toWriter x))) (r_ds r) = Some w11"
    and l11: "\<And>r0 rest. fromReader_loop cl d r0 (w11 @ rest)
               = fromReader_loop cl d (r0\<lparr>r_ds := r_ds r0 @ map DS_read_back (r_ds r)\<rparr>) rest"
    by auto
  from tls_section [where xs = "r_tls r" and cl = cl and c = c and d = d] v obtain w12 where
    w12: "write_all (\<lambda>t. tagged TLS (TLS_toWriter cl c t)) (r_tls r) = Some w12"
    and l12: "\<And>r0 rest. fromReader_loop cl d r0 (w12 @ rest)
               = fromReader_loop cl d (r0\<lparr>r_tls := r_tls r0 @ r_tls r\<rparr>) rest"
    by auto
  from ssh_section [where xs = "r_ssh r" and cl = cl and d = d] v obtain w13 where
    w13: "write_all (\<lambda>s. tagged SSH (Some (SSH_toWriter s))) (r_ssh r) = Some w13"
    and l13: "\<And>r0 rest. fromReader_loop cl d r0 (w13 @ rest)
               = fromReader_loop cl d (r0\<lparr>r_ssh := r_ssh r0 @ r_ssh r\<rparr>) rest"
    by auto
  from pgp_section [where xs = "r_pgp r" and cl = cl and d = d] v obtain w14 where
    w14: "write_all (\<lambda>s. tagged PGP (Some (SSH_toWriter s))) (r_pgp r) = Some w14"
    and l14: "\<And>r0 rest. fromReader_loop cl d r0 (w14 @ rest)
               = fromReader_loop cl d (r0\<lparr>r_pgp := r_pgp r0 @ r_pgp r\<rparr>) rest"
    by auto
  from addr_section [where xs = "r_addr r" and cl = cl and c = c and d = d] v obtain w15 where
    w15: "write_all (\<lambda>a. tagged ADDR (Addr_toWriter cl c a)) (r_addr r) = Some w15"
    and l15: "\<And>r0 rest. fromReader_loop cl d r0 (w15 @ rest)
               = fromReader_loop cl d (r0\<lparr>r_addr := r_addr r0 @ r_addr r\<rparr>) rest"
    by auto
  from extra_section [where xs = "r_extra r" and cl = cl and d = d] v obtain w16 where
    w16: "write_all (\<lambda>e. tagged (ex_type e) (Some (Extra_toWriter e))) (r_extra r) = Some w16"
    and l16: "\<And>r0 rest. fromReader_loop cl d r0 (w16 @ rest)
               = fromReader_loop cl d (r0\<lparr>r_extra := r_extra r0 @ r_extra r\<rparr>) rest"
    by auto
  let ?body = "w1 @ w2 @ w3 @ w4 @ w5 @ w6 @ w7 @ w8 @ w9 @ w10 @ w11 @ w12 @ w13 @ w14
                 @ w15 @ w16"
  let ?bs = "[r_version r] @ writeU16 (ucast (drop_bit 6 (r_ttl r))) @ c_toWriter cl c @ ?body"
  let ?r0 = "new_HSKRecord\<lparr>r_ttl := r_ttl r AND 0x3FFFC0\<rparr>"
  have tw: "HSKRecord_toWriter cl c r = Some ?bs"
    by (simp add: HSKRecord_toWriter_def
          w1 w2 w3 w4 w5 w6 w7 w8 w9 w10 w11 w12 w13 w14 w15 w16)
  have enc: "toRaw cl r = Some ?bs"
    using getSize_toWriter [OF assms [folded c_def] tw]
    by (simp add: toRaw_def c_def [symmetric] tw)
  have hdr: "read_header cl ?bs = Some ((?r0, d), ?body)"
    using tab ver
    by (simp add: read_header_def table_ok_def lib_read_def ttl_read_back)
  have "fromReader_loop cl d ?r0 ?body
          = Some (r\<lparr>r_ttl := r_ttl r AND 0x3FFFC0, r_ds := map DS_read_back (r_ds r)\<rparr>)"
    using ver
    by (cases r)
       (simp add: l1 l2 l3 l4 l5 l6 l7 l8 l9 l10 l11 l12 l13 l14 l15
          l16 [of _ "[]", simplified] new_HSKRecord_def)
  with hdr have "fromRaw cl ?bs
          = Some (r\<lparr>r_ttl := r_ttl r AND 0x3FFFC0, r_ds := map DS_read_back (r_ds r)\<rparr>)"
    by (simp add: fromRaw_def HSKRecord_fromReader_def)
  with enc show ?thesis by blast
qed

lemma ref_codec_string_ok:
  assumes "length s < 128"
  shows "string_ok ref_codec c d s"
proof -
  from assms have n: "unat (len8 (length s)) = length s"
    by (simp add: len8_unat)
  have "char_of (unat (of_char ch :: u8)) = ch" for ch
  proof -
    have "unat (of_char ch :: u8) = unat (of_nat (of_char ch :: nat) :: u8)"
      by (simp only: of_nat_of_char)
    also have "\<dots> = of_char ch"
      by (simp add: unat_of_nat)
    finally show ?thesis by simp
  qed
  then have m: "map ((\<lambda>b. char_of (unat b)) \<circ> (of_char :: char \<Rightarrow> u8)) s = s"
    by (simp add: map_idI)
  show ?thesis
    using assms
    by (simp add: string_ok_def ref_codec_def literal_write_def literal_read_def n m)
qed

lemma ref_codec_table_ok: "table_ok ref_codec c d"
  by (simp add: table_ok_def ref_codec_def)

lemma ref_codec_name_ok:
  assumes "length name < 128"
  shows "target_ok ref_codec c d \<lparr>t_type = INAME, t_target = name @ ''.i''\<rparr>"
    and "target_ok ref_codec c d \<lparr>t_type = HNAME, t_target = name @ ''.h''\<rparr>"
  using ref_codec_string_ok [OF assms, of c d]
  by (auto simp: target_ok_def rtypes_defs ICANNP_def ICANN_def HSKP_def HSK_def)

lemma full_record_valid:
  "valid_record ref_codec (compress ref_codec (full_record\<lparr>r_ttl := t\<rparr>)) ()
     (full_record\<lparr>r_ttl := t\<rparr>)"
proof -
  have ip: "target_ok ref_codec c () \<lparr>t_type = INET4, t_target = ''1.2.3.4''\<rparr>"
    "target_ok ref_codec c () \<lparr>t_type = INET4, t_target = ''10.0.0.1''\<rparr>" for c
    by (simp_all add: target_ok_def ref_codec_def ref_lib_def ipv4_decode_def parse_dec_def
          decimal.simps char_of_nat_eval)
  have nm: "target_ok ref_codec c () \<lparr>t_type = INAME, t_target = ''example.com.i''\<rparr>"
    "target_ok ref_codec c () \<lparr>t_type = HNAME, t_target = ''bob.h''\<rparr>"
    "target_ok ref_codec c () \<lparr>t_type = HNAME, t_target = ''ns1.bob.h''\<rparr>"
    "target_ok ref_codec c () \<lparr>t_type = INAME, t_target = ''mail.example.com.i''\<rparr>" for c
    using ref_codec_name_ok(1) [of "''example.com''" c "()"]
      ref_codec_name_ok(2) [of "''bob''" c "()"]
      ref_codec_name_ok(2) [of "''ns1.bob''" c "()"]
      ref_codec_name_ok(1) [of "''mail.example.com''" c "()"]
    by simp_all
  have hx: "hex_ok ''c12fe1c0''"
    by (simp add: hex_ok_def hex_value_def hex_encode_def hex_digit_def char_of_nat_eval)
  have ad: "addr_ok ref_codec \<lparr>currency = ''hsk'', address = ''ts1q''\<rparr>"
    by (simp add: addr_ok_def ref_codec_def char_of_nat_eval)
  have kt: "\<not> known_tag 200"
    by (simp add: known_tag_def rtypes_defs)
  show ?thesis
    by (simp add: valid_record_def full_record_def ref_codec_table_ok ip nm hx ad kt
          ref_codec_string_ok service_ok_def host_kind_def)
qed


lemma ttl_low_byte:
  "(ucast (ucast (drop_bit 6 t) :: u16) :: u8) = ucast (drop_bit 6 (t :: u32))"
  by (rule bit_word_eqI) (auto simp: bit_simps)

lemma ttl_high_byte:
  "(ucast (drop_bit 8 (ucast (drop_bit 6 t) :: u16)) :: u8) = ucast (drop_bit 14 (t :: u32))"
  by (rule bit_word_eqI) (auto simp: bit_simps)

lemma toRaw_toWriter:
  assumes "toRaw cl r = Some bs"
  shows "HSKRecord_toWriter cl (compress cl r) r = Some bs"
  using assms by (auto simp: toRaw_def Let_def bind_eq_Some_conv split: if_splits)

lemma toWriter_header:
  assumes "HSKRecord_toWriter cl c r = Some bs"
  shows "take 3 bs = [r_version r, ucast (drop_bit 6 (r_ttl r)), ucast (drop_bit 14 (r_ttl r))]"
  using assms
  by (auto simp: HSKRecord_toWriter_def bind_eq_Some_conv writeU16_def ttl_high_byte
        ttl_low_byte)

text \<open>
  C8, as the code has it. In every encoded blob the byte after the version byte is
  the low byte of \<^verbatim>\<open>ttl >>> 6\<close> and the next one its high byte (bits 8 to 15):
  the ttl is written with \<^verbatim>\<open>writeU16\<close>, little-endian, and \<^verbatim>\<open>fromReader\<close> reads
  it back with \<^verbatim>\<open>readU16\<close>. For a ttl of 3600 the pair is 0x38 0x00.
\<close>

theorem toRaw_ttl_bytes:
  assumes "toRaw cl r = Some bs"
  shows "take 3 bs = [r_version r, ucast (drop_bit 6 (r_ttl r)), ucast (drop_bit 14 (r_ttl r))]"
  using toWriter_header [OF toRaw_toWriter [OF assms]] .

theorem toRaw_ttl_bytes_witness:
  "toRaw ref_codec host_record = Some [0, 0x38, 0x00, 0, 1, 1, 2, 3, 4]
   \<and> take 3 [0, 0x38, 0x00, 0, 1, 1, 2, 3, 4 :: u8]
       = [r_version host_record, ucast (drop_bit 6 (r_ttl host_record)),
          ucast (drop_bit 14 (r_ttl host_record))]"
proof -
  have h: "toRaw ref_codec host_record = Some [0, 0x38, 0x00, 0, 1, 1, 2, 3, 4]"
    by (simp add: host_record_def new_HSKRecord_def codec_simps reader_simps
          ref_codec_simps ref_lib_simps rtypes_defs)
  from toRaw_ttl_bytes [OF h] h show ?thesis by simp
qed

text \<open>
  C8 as stated has the pair big-endian, 0x00 0x38 for a ttl of 3600. The record with
  this ttl and one IPv4 host encodes to a blob whose bytes after the version byte
  are 0x38 0x00.
\<close>

theorem toRaw_ttl_big_endian_counterexample:
  "r_ttl host_record = 3600
   \<and> map_option (\<lambda>bs. take 2 (drop 1 bs)) (toRaw ref_codec host_record) = Some [0x38, 0x00]
   \<and> map_option (\<lambda>bs. take 2 (drop 1 bs)) (toRaw ref_codec host_record) \<noteq> Some [0x00, 0x38]"
  by (simp add: host_record_def new_HSKRecord_def codec_simps reader_simps
        ref_codec_simps ref_lib_simps rtypes_defs)

text \<open>
  C5, as the code has it. A top-level tag byte that is none of the 20 values of
  \<^verbatim>\<open>rtypes\<close> makes the loop call \<^verbatim>\<open>Extra.fromReader\<close> on the bytes after the tag
  byte. It reads the type of the entry from the first of them, then one
  length-prefixed blob (a length in one byte and that many bytes), which becomes
  the data of the entry; the entry is appended to \<^verbatim>\<open>extra\<close>. The tag byte itself is
  not stored. (\<^verbatim>\<open>toWriter\<close> writes the type twice, as the tag and again in
  \<^verbatim>\<open>Extra.toWriter\<close>.)
\<close>

theorem unknown_tag_reads_extra:
  assumes "\<not> known_tag tag"
  shows "read_item cl d r (tag # bs) = do {
           (e, bs') \<leftarrow> Extra_fromReader bs;
           Some (r\<lparr>r_extra := r_extra r @ [e]\<rparr>, bs')
         }
       \<and> (length data < 256 \<longrightarrow>
           read_item cl d r (tag # ty # len8 (length data) # data @ rest) =
             Some (r\<lparr>r_extra := r_extra r @ [\<lparr>ex_type = ty, ex_data = data\<rparr>]\<rparr>, rest))"
proof (intro conjI impI)
  have g: "\<And>bs. read_item cl d r (tag # bs) = do {
           (e, bs') \<leftarrow> Extra_fromReader bs;
           Some (r\<lparr>r_extra := r_extra r @ [e]\<rparr>, bs')
         }"
    using assms by (simp add: read_item_def known_tag_def readU8_def)
  show "read_item cl d r (tag # bs) = do {
           (e, bs') \<leftarrow> Extra_fromReader bs;
           Some (r\<lparr>r_extra := r_extra r @ [e]\<rparr>, bs')
         }"
    by (rule g)
  assume "length data < 256"
  then have "unat (len8 (length data)) = length data"
    by (rule len8_unat)
  then show "read_item cl d r (tag # ty # len8 (length data) # data @ rest) =
           Some (r\<lparr>r_extra := r_extra r @ [\<lparr>ex_type = ty, ex_data = data\<rparr>]\<rparr>, rest)"
    by (simp add: g Extra_fromReader_def readU8_def readBytes_def)
qed

theorem unknown_tag_reads_extra_witness:
  "\<not> known_tag 200 \<and> length [0xAA :: u8] < 256
   \<and> read_item ref_codec () new_HSKRecord (200 # 7 # len8 (length [0xAA :: u8]) # [0xAA] @ []) =
       Some (new_HSKRecord\<lparr>r_extra := r_extra new_HSKRecord @ [\<lparr>ex_type = 7, ex_data = [0xAA]\<rparr>]\<rparr>, [])
   \<and> read_item ref_codec () new_HSKRecord [200, 7] = None"
proof -
  have h: "\<not> known_tag 200" by (simp add: known_tag_def rtypes_defs)
  have l: "length [0xAA :: u8] < 256" by simp
  have e: "Extra_fromReader [7] = None" by (simp add: Extra_fromReader_def readU8_def)
  from unknown_tag_reads_extra [OF h, of ref_codec "()" new_HSKRecord "[7]" "[0xAA]" 7 "[]"] h l e
  show ?thesis by simp
qed

text \<open>
  C5 as stated gives the entry the tag byte as its type and reads the blob right
  after the tag byte. The blob below has the unknown tag 200 followed by 7, a length
  of 1 and one byte: the entry has type 7, not 200.
\<close>

theorem unknown_tag_type_counterexample:
  "fromRaw ref_codec [0, 0, 0, 0, 200, 7, 1, 0xAA]
     = Some (new_HSKRecord\<lparr>r_extra := [\<lparr>ex_type = 7, ex_data = [0xAA]\<rparr>]\<rparr>)
   \<and> \<not> known_tag 200"
  by (simp add: new_HSKRecord_def codec_simps reader_simps ref_codec_simps known_tag_def
        rtypes_defs)

text \<open>
  C6. Let the header of a blob be read, and let the loop, after some number of
  rounds, stand before a tag byte. When the tag is CANONICAL, INAME or HNAME and
  canonical is already set, or the tag is DELEGATE and delegate is already set,
  decoding the blob throws.
\<close>

theorem duplicate_canonical_delegate:
  assumes "read_header cl data = Some ((r0, d), bs0)"
    and "loop_rounds n cl d r0 bs0 = Some (r, tag # rest)"
    and "(r_canonical r \<noteq> None \<and> (tag = CANONICAL \<or> tag = INAME \<or> tag = HNAME))
         \<or> (r_delegate r \<noteq> None \<and> tag = DELEGATE)"
  shows "fromRaw cl data = None"
proof -
  have "read_item cl d r (tag # rest) = None"
    using assms(3) by (auto simp: read_item_def readU8_def rtypes_defs)
  then have "fromReader_loop cl d r (tag # rest) = None"
    by (simp add: fromReader_loop_Cons)
  with loop_rounds_continue [OF assms(2)] have "fromReader_loop cl d r0 bs0 = None"
    by simp
  with assms(1) show ?thesis
    by (simp add: fromRaw_def HSKRecord_fromReader_def)
qed

theorem duplicate_canonical_delegate_witness:
  "read_header ref_codec [0, 0, 0, 0, 8, 6, 1, 0x61, 8, 6, 1, 0x62]
     = Some ((new_HSKRecord, ()), [8, 6, 1, 0x61, 8, 6, 1, 0x62])
   \<and> loop_rounds 1 ref_codec () new_HSKRecord [8, 6, 1, 0x61, 8, 6, 1, 0x62]
     = Some (new_HSKRecord\<lparr>r_canonical := Some \<lparr>t_type = 6, t_target = ''a.i''\<rparr>\<rparr>,
             CANONICAL # [6, 1, 0x62])
   \<and> r_canonical (new_HSKRecord\<lparr>r_canonical := Some \<lparr>t_type = 6, t_target = ''a.i''\<rparr>\<rparr>) \<noteq> None
   \<and> fromRaw ref_codec [0, 0, 0, 0, 8, 6, 1, 0x61, 8, 6, 1, 0x62] = None"
proof -
  have h1: "read_header ref_codec [0, 0, 0, 0, 8, 6, 1, 0x61, 8, 6, 1, 0x62]
     = Some ((new_HSKRecord, ()), [8, 6, 1, 0x61, 8, 6, 1, 0x62])"
    by (simp add: new_HSKRecord_def codec_simps reader_simps ref_codec_simps)
  have h2: "loop_rounds 1 ref_codec () new_HSKRecord [8, 6, 1, 0x61, 8, 6, 1, 0x62]
     = Some (new_HSKRecord\<lparr>r_canonical := Some \<lparr>t_type = 6, t_target = ''a.i''\<rparr>\<rparr>,
             CANONICAL # [6, 1, 0x62])"
    by (simp add: new_HSKRecord_def codec_simps reader_simps ref_codec_simps rtypes_defs
          ICANNP_def ICANN_def)
  have h3: "(r_canonical (new_HSKRecord\<lparr>r_canonical := Some \<lparr>t_type = 6, t_target = ''a.i''\<rparr>\<rparr>) \<noteq> None
             \<and> (CANONICAL = CANONICAL \<or> CANONICAL = INAME \<or> CANONICAL = HNAME))
         \<or> (r_delegate (new_HSKRecord\<lparr>r_canonical := Some \<lparr>t_type = 6, t_target = ''a.i''\<rparr>\<rparr>) \<noteq> None
             \<and> CANONICAL = DELEGATE)"
    by simp
  from duplicate_canonical_delegate [OF h1 h2 h3] h1 h2 show ?thesis by simp
qed

text \<open>
  C7, as the code has it. For every valid record, encoding and then decoding returns
  a record whose ttl is \<^verbatim>\<open>t & 0x3FFFC0\<close>, the bits 6 to 21 of the ttl \<open>t\<close> of the
  record: \<^verbatim>\<open>t >>> 6\<close> is written in 16 bits. For \<open>t\<close> below \<open>2^22\<close> this is
  \<^verbatim>\<open>t & ~63\<close>.
\<close>

theorem ttl_read_back_quantized:
  assumes "valid_record cl (compress cl r) d r"
  shows "\<exists>bs r'. toRaw cl r = Some bs \<and> fromRaw cl bs = Some r'
           \<and> r_ttl r' = r_ttl r AND 0x3FFFC0
           \<and> (r_ttl r < 2 ^ 22 \<longrightarrow> r_ttl r' = r_ttl r AND NOT 63)"
proof -
  from fromRaw_toRaw [OF assms] obtain bs where
    "toRaw cl r = Some bs"
    "fromRaw cl bs = Some (r\<lparr>r_ttl := r_ttl r AND 0x3FFFC0,
                              r_ds := map DS_read_back (r_ds r)\<rparr>)"
    by blast
  then show ?thesis
    by (auto simp: ttl_small)
qed

theorem ttl_read_back_quantized_witness:
  "valid_record ref_codec (compress ref_codec (full_record\<lparr>r_ttl := 3600\<rparr>)) ()
     (full_record\<lparr>r_ttl := 3600\<rparr>)
   \<and> r_ttl (full_record\<lparr>r_ttl := 3600\<rparr>) < 2 ^ 22
   \<and> (\<exists>bs r'. toRaw ref_codec (full_record\<lparr>r_ttl := 3600\<rparr>) = Some bs
         \<and> fromRaw ref_codec bs = Some r' \<and> r_ttl r' = 3584)"
proof -
  have v: "valid_record ref_codec (compress ref_codec (full_record\<lparr>r_ttl := 3600\<rparr>)) ()
     (full_record\<lparr>r_ttl := 3600\<rparr>)"
    by (rule full_record_valid)
  have q: "(3600 :: u32) AND NOT 63 = 3584" by simp
  from ttl_read_back_quantized [OF v] v q show ?thesis by auto
qed

text \<open>
  C7 as stated promises \<^verbatim>\<open>t & ~63\<close> for every ttl. The ttl 4194404, which is
  \<open>2^22 + 100\<close>, comes back as 64, not as 4194368.
\<close>

theorem ttl_read_back_large_counterexample:
  "r_ttl big_ttl_record = 4194404
   \<and> toRaw ref_codec big_ttl_record = Some [0, 1, 0, 0]
   \<and> fromRaw ref_codec [0, 1, 0, 0] = Some (new_HSKRecord\<lparr>r_ttl := 64\<rparr>)
   \<and> (4194404 :: u32) AND NOT 63 = 4194368"
  by (simp add: big_ttl_record_def new_HSKRecord_def codec_simps reader_simps
        ref_codec_simps)


lemma ttl_on_wire:
  assumes "(t :: u32) < 2 ^ 22" and "t AND 63 = 0"
  shows "t AND 0x3FFFC0 = t"
proof -
  have "t = t AND (63 OR NOT 63)" by simp
  also have "\<dots> = (t AND 63) OR (t AND NOT 63)" by (simp only: bit.conj_disj_distrib)
  also have "\<dots> = t AND NOT 63" using assms(2) by simp
  finally show ?thesis using ttl_small [OF assms(1)] by simp
qed

text \<open>
  C1, as the code has it. For every valid record whose ttl is a multiple of 64 below
  \<open>2^22\<close> and whose address entries are all of the native form (currency
  \<^verbatim>\<open>hsk\<close>), decoding the bytes produced by encoding it returns a record equal to
  it in every field other than \<^verbatim>\<open>ds\<close>, in the order of every list, the
  \<^verbatim>\<open>service\<close> and \<^verbatim>\<open>extra\<close> lists included; the \<^verbatim>\<open>ds\<close> list comes back
  with the same entries in the same order apart from their key tags. Valid is a
  record of version 0 whose strings and string table the compressor writes in the
  number of bytes it counts for them and the decompressor reads back, whose targets
  are in the normal form of their kind, whose hosts are of IP or onion
  kind, whose length-prefixed fields have at most 255 bytes, whose magnet \<^verbatim>\<open>nin\<close>
  is lower-case hexadecimal, whose native addresses the address class parses and
  prints back, with a hash of fewer than 64 bytes, and whose extra entries have a
  type that is not a known tag. Nothing is said of the key tag of a DS entry and of
  an address entry of another currency: the counterexample below shows what the
  code does with them.
\<close>

theorem decode_encode_fields:
  assumes "valid_record cl (compress cl r) d r"
    and "r_ttl r < 2 ^ 22" and "r_ttl r AND 63 = 0"
  shows "\<exists>bs r'. toRaw cl r = Some bs \<and> fromRaw cl bs = Some r'
           \<and> r'\<lparr>r_ds := r_ds r\<rparr> = r
           \<and> map without_keyTag (r_ds r') = map without_keyTag (r_ds r)"
proof -
  from fromRaw_toRaw [OF assms(1)] obtain bs where
    bs: "toRaw cl r = Some bs"
    "fromRaw cl bs = Some (r\<lparr>r_ttl := r_ttl r AND 0x3FFFC0,
                              r_ds := map DS_read_back (r_ds r)\<rparr>)"
    by blast
  have "without_keyTag (DS_read_back x) = without_keyTag x" for x
    by (simp add: without_keyTag_def DS_read_back_def)
  then have "map without_keyTag (map DS_read_back (r_ds r)) = map without_keyTag (r_ds r)"
    by simp
  with bs ttl_on_wire [OF assms(2,3)] show ?thesis
    by simp
qed

theorem decode_encode_fields_witness:
  "valid_record ref_codec (compress ref_codec (full_record\<lparr>r_ttl := 3584\<rparr>)) ()
     (full_record\<lparr>r_ttl := 3584\<rparr>)
   \<and> r_ttl (full_record\<lparr>r_ttl := 3584\<rparr>) < 2 ^ 22
   \<and> r_ttl (full_record\<lparr>r_ttl := 3584\<rparr>) AND 63 = 0
   \<and> (\<exists>bs r'. toRaw ref_codec (full_record\<lparr>r_ttl := 3584\<rparr>) = Some bs
         \<and> fromRaw ref_codec bs = Some r'
         \<and> r'\<lparr>r_ds := r_ds (full_record\<lparr>r_ttl := 3584\<rparr>)\<rparr> = full_record\<lparr>r_ttl := 3584\<rparr>
         \<and> map without_keyTag (r_ds r')
             = map without_keyTag (r_ds (full_record\<lparr>r_ttl := 3584\<rparr>)))"
proof -
  have v: "valid_record ref_codec (compress ref_codec (full_record\<lparr>r_ttl := 3584\<rparr>)) ()
     (full_record\<lparr>r_ttl := 3584\<rparr>)"
    by (rule full_record_valid)
  have t: "r_ttl (full_record\<lparr>r_ttl := 3584\<rparr>) < 2 ^ 22"
    "r_ttl (full_record\<lparr>r_ttl := 3584\<rparr>) AND 63 = 0"
    by simp_all
  from decode_encode_fields [OF v t] v t show ?thesis by blast
qed


text \<open>
  C1 as stated promises equality for every ttl, for the \<^verbatim>\<open>ds\<close> list and for every
  address entry. Three records of version 0 show otherwise.

  \<^item> A record with ttl 100 comes back with ttl 64: the wire holds \<^verbatim>\<open>ttl >>> 6\<close>.

  \<^item> A record with one DS entry of key tag 1 comes back with key tag 256:
    \<^verbatim>\<open>DS.toWriter\<close> writes the key tag with \<^verbatim>\<open>writeU16\<close> and
    \<^verbatim>\<open>DS.fromReader\<close> reads it with \<^verbatim>\<open>readU16BE\<close>.

  \<^item> A record with one address entry of currency \<^verbatim>\<open>btc\<close>, a string that the
    decompressor reads back from the bytes the compressor writes for it, encodes
    and does not decode: \<^verbatim>\<open>Addr.fromReader\<close> reads the first byte of the
    compressed currency as its length byte and calls the decompressor on the bytes
    after it.
\<close>

theorem decode_encode_counterexample:
  "valid_record ref_codec (compress ref_codec odd_ttl_record) () odd_ttl_record
   \<and> valid_record ref_codec (compress ref_codec ds_record) () ds_record
   \<and> toRaw ref_codec odd_ttl_record = Some [0, 1, 0, 0]
   \<and> fromRaw ref_codec [0, 1, 0, 0] = Some (new_HSKRecord\<lparr>r_ttl := 64\<rparr>)
   \<and> r_ttl odd_ttl_record = 100
   \<and> toRaw ref_codec ds_record = Some [0, 0, 0, 0, 17, 1, 0, 8, 2, 1, 0xAB]
   \<and> fromRaw ref_codec [0, 0, 0, 0, 17, 1, 0, 8, 2, 1, 0xAB]
       = Some (new_HSKRecord\<lparr>r_ds := [\<lparr>keyTag = 256, ds_algorithm = 8, digestType = 2,
                                         digest = [0xAB]\<rparr>]\<rparr>)
   \<and> map keyTag (r_ds ds_record) = [1]
   \<and> r_version btc_record = 0
   \<and> r_addr btc_record = [\<lparr>currency = ''btc'', address = ''1abc''\<rparr>]
   \<and> string_ok ref_codec (compress ref_codec btc_record) () ''btc''
   \<and> toRaw ref_codec btc_record
       = Some [0, 0, 0, 0, 21, 3, 98, 116, 99, 4, 49, 97, 98, 99]
   \<and> fromRaw ref_codec [0, 0, 0, 0, 21, 3, 98, 116, 99, 4, 49, 97, 98, 99] = None"
proof -
  have v: "valid_record ref_codec (compress ref_codec odd_ttl_record) () odd_ttl_record"
    "valid_record ref_codec (compress ref_codec ds_record) () ds_record"
    by (simp_all add: valid_record_def odd_ttl_record_def ds_record_def new_HSKRecord_def
          ref_codec_table_ok)
  have t: "toRaw ref_codec odd_ttl_record = Some [0, 1, 0, 0]
   \<and> fromRaw ref_codec [0, 1, 0, 0] = Some (new_HSKRecord\<lparr>r_ttl := 64\<rparr>)
   \<and> r_ttl odd_ttl_record = 100
   \<and> toRaw ref_codec ds_record = Some [0, 0, 0, 0, 17, 1, 0, 8, 2, 1, 0xAB]
   \<and> fromRaw ref_codec [0, 0, 0, 0, 17, 1, 0, 8, 2, 1, 0xAB]
       = Some (new_HSKRecord\<lparr>r_ds := [\<lparr>keyTag = 256, ds_algorithm = 8, digestType = 2,
                                         digest = [0xAB]\<rparr>]\<rparr>)
   \<and> map keyTag (r_ds ds_record) = [1]"
    by (simp add: odd_ttl_record_def ds_record_def new_HSKRecord_def codec_simps reader_simps
          ref_codec_simps rtypes_defs)
  have s: "string_ok ref_codec (compress ref_codec btc_record) () ''btc''"
    by (rule ref_codec_string_ok) simp
  have b: "r_version btc_record = 0
   \<and> r_addr btc_record = [\<lparr>currency = ''btc'', address = ''1abc''\<rparr>]
   \<and> toRaw ref_codec btc_record
       = Some [0, 0, 0, 0, 21, 3, 98, 116, 99, 4, 49, 97, 98, 99]
   \<and> fromRaw ref_codec [0, 0, 0, 0, 21, 3, 98, 116, 99, 4, 49, 97, 98, 99] = None"
    by (simp add: btc_record_def new_HSKRecord_def codec_simps reader_simps
          ref_codec_simps rtypes_defs fromRaw_def HSKRecord_fromReader_def)
  from v t s b show ?thesis by simp
qed

section \<open>Theorems: the JSON form\<close>

lemma read_all_None: "x \<in> set xs \<Longrightarrow> f x = None \<Longrightarrow> read_all f xs = None"
  by (induction xs) (auto split: Option.bind_split)

lemma Service_fromJSON_toJSON: "Service_fromJSON lib (Service_toJSON s) = None"
  by (auto simp: Service_fromJSON_def Service_toJSON_def Target_toJSON_def is_object_def
        jget_def optional_def non_null_def split: Option.bind_split)

lemma TLS_fromJSON_toJSON: "TLS_fromJSON (TLS_toJSON t) = None"
  by (auto simp: TLS_fromJSON_def TLS_toJSON_def is_object_def jget_def string_of_def
        split: Option.bind_split)

lemma map_of_array_prop:
  "map_of (array_prop key f xs) k
     = (if k = key \<and> xs \<noteq> [] then Some (JArray (map f xs)) else None)"
  by (simp add: array_prop_def)

lemma map_of_target_prop:
  "map_of (target_prop key t) k = (if k = key then map_option Target_toJSON t else None)"
  by (cases t) (simp_all add: target_prop_def)

lemma jget_service:
  "r_service r \<noteq> [] \<Longrightarrow>
     jget (HSKRecord_toJSON r name) ''service'' = Some (JArray (map Service_toJSON (r_service r)))"
  by (simp add: HSKRecord_toJSON_def jget_def map_of_array_prop map_of_target_prop
        map_add_def)

lemma jget_tls:
  "r_tls r \<noteq> [] \<Longrightarrow>
     jget (HSKRecord_toJSON r name) ''tls'' = Some (JArray (map TLS_toJSON (r_tls r)))"
  by (simp add: HSKRecord_toJSON_def jget_def map_of_array_prop map_of_target_prop
        map_add_def)

lemma service_array_throws:
  "xs \<noteq> [] \<Longrightarrow> array_all (Service_fromJSON lib) (Some (JArray (map Service_toJSON xs))) = None"
  by (cases xs) (simp_all add: array_all_def array_of_def Service_fromJSON_toJSON)

lemma tls_array_throws:
  "xs \<noteq> [] \<Longrightarrow> array_all TLS_fromJSON (Some (JArray (map TLS_toJSON xs))) = None"
  by (cases xs) (simp_all add: array_all_def array_of_def TLS_fromJSON_toJSON)



lemma bind_NoneI: "(\<And>x. f x = None) \<Longrightarrow> Option.bind m f = None"
  by (cases m) auto

lemma is_object_toJSON: "is_object (HSKRecord_toJSON r name)"
  by (simp add: HSKRecord_toJSON_def is_object_def)

text \<open>
  C4. The claim asks that \<^verbatim>\<open>fromJSON(toJSON(r))\<close> return \<open>r\<close>, in particular for a
  record with services and for one with TLS entries. The code throws on both:
  \<^verbatim>\<open>Service.fromJSON\<close> asserts that \<^verbatim>\<open>json.target\<close> is an object, while
  \<^verbatim>\<open>Service.toJSON\<close> writes the target as a string (and \<^verbatim>\<open>Target.fromString\<close>
  asserts a string); \<^verbatim>\<open>TLS.fromJSON\<close> asserts that \<^verbatim>\<open>json.fingerprint\<close> is a
  string, a property that \<^verbatim>\<open>TLS.toJSON\<close>, which writes \<^verbatim>\<open>certificate\<close>, never
  sets. So for every record with a non-empty \<^verbatim>\<open>service\<close> or \<^verbatim>\<open>tls\<close> list,
  whatever the libraries do, reading back its JSON form throws.
\<close>

theorem fromJSON_toJSON_throws:
  assumes "r_service r \<noteq> [] \<or> r_tls r \<noteq> []"
  shows "HSKRecord_fromJSON lib (HSKRecord_toJSON r name) = None"
  using assms
proof
  assume s: "r_service r \<noteq> []"
  have n: "optional (jget (HSKRecord_toJSON r name) ''service'') []
          (array_all (Service_fromJSON lib)) = None"
    by (simp add: jget_service [OF s] optional_def non_null_def service_array_throws [OF s])
  show ?thesis
    unfolding HSKRecord_fromJSON_def
    apply (simp only: is_object_toJSON not_True_eq_False if_False)
    apply (rule bind_NoneI, rule bind_NoneI, rule bind_NoneI, rule bind_NoneI,
           rule bind_NoneI, rule bind_NoneI)
    apply (simp only: n Option.bind.simps)
    done
next
  assume t: "r_tls r \<noteq> []"
  have n: "optional (jget (HSKRecord_toJSON r name) ''tls'') []
          (array_all TLS_fromJSON) = None"
    by (simp add: jget_tls [OF t] optional_def non_null_def tls_array_throws [OF t])
  show ?thesis
    unfolding HSKRecord_fromJSON_def
    apply (simp only: is_object_toJSON not_True_eq_False if_False)
    apply (rule bind_NoneI, rule bind_NoneI, rule bind_NoneI, rule bind_NoneI,
           rule bind_NoneI, rule bind_NoneI, rule bind_NoneI, rule bind_NoneI,
           rule bind_NoneI, rule bind_NoneI, rule bind_NoneI, rule bind_NoneI,
           rule bind_NoneI)
    apply (simp only: n Option.bind.simps)
    done
qed

theorem fromJSON_toJSON_throws_witness:
  "r_tls tls_record \<noteq> []
   \<and> HSKRecord_fromJSON ref_lib (HSKRecord_toJSON tls_record ''alice'') = None
   \<and> r_service service_record \<noteq> []
   \<and> HSKRecord_fromJSON ref_lib (HSKRecord_toJSON service_record ''alice'') = None"
proof -
  have t: "r_tls tls_record \<noteq> []"
    by (simp add: tls_record_def)
  have s: "r_service service_record \<noteq> []"
    by (simp add: service_record_def)
  from fromJSON_toJSON_throws [OF disjI2, OF t, of ref_lib "''alice''"]
    fromJSON_toJSON_throws [OF disjI1, OF s, of ref_lib "''alice''"] t s
  show ?thesis by blast
qed

end
